theory Spec2Isabelle
  imports Main "HOL-Library.Word"
begin

section \<open>JavaScript values\<close>

text \<open>
  A JavaScript string is a sequence of UTF-16 code units. String literals of the source are
  written with \<open>ustr\<close>, which maps every character of an ASCII literal to its code unit.
\<close>

type_synonym cu = "16 word"
type_synonym jsstring = "cu list"

definition ustr :: "string \<Rightarrow> jsstring" where
  "ustr s = map of_char s"

text \<open>
  Values as they come out of \<open>JSON.parse\<close> and as the services pass them around. Objects keep
  their properties in insertion order; a property read takes the first entry with the key.
  Numbers are integers: no path modelled here computes with a number, a number is only tested
  for truthiness and handed on.
\<close>

datatype jsval =
    JUndefined
  | JNull
  | JBool bool
  | JNum int
  | JStr jsstring
  | JArr "jsval list"
  | JObj "(jsstring \<times> jsval) list"

text \<open>
  What can be thrown, each with its \<open>message\<close>. \<open>Error m\<close> is \<open>new Error(m)\<close>;
  \<open>SyntaxError m\<close> is what \<open>JSON.parse\<close> throws; \<open>TypeError m\<close> is a property read on
  \<open>null\<close>/\<open>undefined\<close> or a call of something that is not a function;
  \<open>ProviderError st m\<close> is a rejection coming from an external collaborator (HTTP client,
  media client, storage), with the HTTP status when the rejection carries one.
\<close>

datatype error =
    Error jsstring
  | SyntaxError jsstring
  | TypeError jsstring
  | ProviderError "nat option" jsstring

text \<open>\<open>error.message\<close>\<close>

definition messageOf :: "error \<Rightarrow> jsstring" where
  "messageOf e = (case e of
      Error m \<Rightarrow> m
    | SyntaxError m \<Rightarrow> m
    | TypeError m \<Rightarrow> m
    | ProviderError _ m \<Rightarrow> m)"

text \<open>
  The messages of the type errors the engine raises itself, in the wording of V8, the engine
  of Node.js, which the service runs on (a version with a global \<open>fetch\<close>, which
  \<open>generateScriptContent\<close> calls): \<open>Cannot read properties of null (reading 'k')\<close>
  for a property read, \<open>Cannot destructure property 'k' of 'source' as it is null.\<close> for a
  destructuring, and \<open>callee is not a function\<close> for a call, where \<open>source\<close> and \<open>callee\<close>
  are the expressions as the source has them.
\<close>

definition quoted :: "jsstring \<Rightarrow> jsstring" where
  "quoted s = 0x27 # s @ [0x27]"

definition nullish :: "jsval \<Rightarrow> jsstring" where
  "nullish v = (if v = JNull then ustr ''null'' else ustr ''undefined'')"

definition cannotRead :: "jsval \<Rightarrow> jsstring \<Rightarrow> jsstring" where
  "cannotRead v k =
     ustr ''Cannot read properties of '' @ nullish v @ ustr '' (reading '' @ quoted k @ ustr '')''"

definition cannotDestructure :: "jsval \<Rightarrow> jsstring \<Rightarrow> string \<Rightarrow> jsstring" where
  "cannotDestructure v k source =
     ustr ''Cannot destructure property '' @ quoted k @ ustr '' of '' @ quoted (ustr source) @
     ustr '' as it is '' @ nullish v @ ustr ''.''"

definition notAFunction :: "string \<Rightarrow> jsstring" where
  "notAFunction callee = ustr callee @ ustr '' is not a function''"

definition truthy :: "jsval \<Rightarrow> bool" where
  "truthy v = (case v of
      JUndefined \<Rightarrow> False
    | JNull \<Rightarrow> False
    | JBool b \<Rightarrow> b
    | JNum n \<Rightarrow> n \<noteq> 0
    | JStr s \<Rightarrow> s \<noteq> []
    | JArr _ \<Rightarrow> True
    | JObj _ \<Rightarrow> True)"

definition isArray :: "jsval \<Rightarrow> bool" where
  "isArray v = (case v of JArr _ \<Rightarrow> True | _ \<Rightarrow> False)"

definition isObjectType :: "jsval \<Rightarrow> bool" where
  \<comment> \<open>\<open>typeof v === 'object'\<close>: objects, arrays and \<open>null\<close>\<close>
  "isObjectType v = (case v of JNull \<Rightarrow> True | JArr _ \<Rightarrow> True | JObj _ \<Rightarrow> True | _ \<Rightarrow> False)"

definition lookupProp :: "(jsstring \<times> jsval) list \<Rightarrow> jsstring \<Rightarrow> jsval" where
  "lookupProp kvs k = (case map_of kvs k of Some v \<Rightarrow> v | None \<Rightarrow> JUndefined)"

text \<open>
  \<open>v.k\<close> for a property name \<open>k\<close> that is neither an index nor \<open>length\<close> nor the name of a
  built-in method: it throws on \<open>null\<close> and \<open>undefined\<close>, reads the property of an object and
  is \<open>undefined\<close> on every other value.
\<close>

definition getProp :: "jsval \<Rightarrow> jsstring \<Rightarrow> error + jsval" where
  "getProp v k = (case v of
      JUndefined \<Rightarrow> Inl (TypeError (cannotRead v k))
    | JNull \<Rightarrow> Inl (TypeError (cannotRead v k))
    | JObj kvs \<Rightarrow> Inr (lookupProp kvs k)
    | _ \<Rightarrow> Inr JUndefined)"

text \<open>\<open>v?.k\<close>: \<open>undefined\<close> instead of a throw.\<close>

definition optProp :: "jsval \<Rightarrow> jsstring \<Rightarrow> jsval" where
  "optProp v k = (case getProp v k of Inl _ \<Rightarrow> JUndefined | Inr w \<Rightarrow> w)"

text \<open>\<open>v?.[0]\<close>: the first element of an array, the first code unit of a string.\<close>

definition optFirst :: "jsval \<Rightarrow> jsval" where
  "optFirst v = (case v of
      JArr (x # _) \<Rightarrow> x
    | JStr (c # _) \<Rightarrow> JStr [c]
    | JObj kvs \<Rightarrow> lookupProp kvs (ustr ''0'')
    | _ \<Rightarrow> JUndefined)"

text \<open>\<open>a || b\<close>\<close>

definition orElse :: "jsval \<Rightarrow> jsval \<Rightarrow> jsval" where
  "orElse a b = (if truthy a then a else b)"

section \<open>String operations of the response parsers\<close>

definition LF :: cu where "LF = 0x0A"
definition BACKTICK :: cu where "BACKTICK = 0x60"

definition FENCE :: jsstring where
  "FENCE = [BACKTICK, BACKTICK, BACKTICK]"

definition FENCE_JSON :: jsstring where
  "FENCE_JSON = FENCE @ ustr ''json''"

text \<open>The class \<open>\s\<close> of a regular expression, which is also what \<open>trim\<close> removes.\<close>

definition isWhiteSpace :: "cu \<Rightarrow> bool" where
  "isWhiteSpace c \<longleftrightarrow>
     (0x09 \<le> c \<and> c \<le> 0x0D) \<or> c = 0x20 \<or> c = 0xA0 \<or> c = 0x1680 \<or>
     (0x2000 \<le> c \<and> c \<le> 0x200A) \<or> c = 0x2028 \<or> c = 0x2029 \<or> c = 0x202F \<or>
     c = 0x205F \<or> c = 0x3000 \<or> c = 0xFEFF"

definition trim :: "jsstring \<Rightarrow> jsstring" where
  "trim s = rev (dropWhile isWhiteSpace (rev (dropWhile isWhiteSpace s)))"

fun startsWith :: "'a list \<Rightarrow> 'a list \<Rightarrow> bool" where
  "startsWith [] s = True"
| "startsWith (p # ps) [] = False"
| "startsWith (p # ps) (c # cs) = (p = c \<and> startsWith ps cs)"

text \<open>Index of the first occurrence of a pattern.\<close>

fun findSub :: "'a list \<Rightarrow> 'a list \<Rightarrow> nat option" where
  "findSub p [] = (if p = [] then Some 0 else None)"
| "findSub p (c # cs) =
     (if startsWith p (c # cs) then Some 0 else map_option Suc (findSub p cs))"

text \<open>\<open>s.includes(p)\<close>\<close>

definition includesStr :: "'a list \<Rightarrow> 'a list \<Rightarrow> bool" where
  "includesStr s p = (findSub p s \<noteq> None)"

text \<open>
  The opening of \<open>/```(?:json)?\n([\s\S]*?)\n```/\<close> at the start of \<open>s\<close>: three backticks, then
  \<open>json\<close> or nothing, then a line feed. The result is the number of code units consumed.
\<close>

definition headerAt :: "jsstring \<Rightarrow> nat option" where
  "headerAt s =
     (if startsWith (FENCE_JSON @ [LF]) s then Some 8
      else if startsWith (FENCE @ [LF]) s then Some 4
      else None)"

text \<open>
  \<open>researchText.match(/```(?:json)?\n([\s\S]*?)\n```/)\<close>: the regular expression is tried at
  every position from the left; after the opening, the lazy group stops at the first line
  feed followed by three backticks; when there is none, the attempt at this position fails
  and the next position is tried. The result is the captured group.
\<close>

fun matchCodeBlock :: "jsstring \<Rightarrow> jsstring option" where
  "matchCodeBlock [] = None"
| "matchCodeBlock (c # cs) =
     (case headerAt (c # cs) of
        None \<Rightarrow> matchCodeBlock cs
      | Some h \<Rightarrow>
          (case findSub (LF # FENCE) (drop h (c # cs)) of
             None \<Rightarrow> matchCodeBlock cs
           | Some j \<Rightarrow> Some (take j (drop h (c # cs)))))"

text \<open>
  \<open>s.replace(/m\n?/g, '')\<close> for a literal marker \<open>m\<close>: every occurrence of the marker, found
  from the left, is deleted together with one line feed that directly follows it.
\<close>

definition dropLF :: "jsstring \<Rightarrow> jsstring" where
  "dropLF s = (case s of [] \<Rightarrow> [] | c # cs \<Rightarrow> if c = LF then cs else c # cs)"

function removeMarker :: "jsstring \<Rightarrow> jsstring \<Rightarrow> jsstring" where
  "removeMarker m s =
     (if s = [] then []
      else if m \<noteq> [] \<and> startsWith m s then removeMarker m (dropLF (drop (length m) s))
      else hd s # removeMarker m (tl s))"
  by pat_completeness auto
termination
proof (relation "measure (\<lambda>(m, s). length s)")
  show "wf (measure (\<lambda>(m :: jsstring, s :: jsstring). length s))"
    by simp
next
  fix m s :: jsstring
  assume "s \<noteq> []" and "m \<noteq> [] \<and> startsWith m s"
  then have "length (drop (length m) s) < length s"
    by (cases m; cases s) auto
  moreover have "length (dropLF (drop (length m) s)) \<le> length (drop (length m) s)"
    by (cases "drop (length m) s") (simp_all add: dropLF_def)
  ultimately show "((m, dropLF (drop (length m) s)), (m, s)) \<in> measure (\<lambda>(m, s). length s)"
    by simp
next
  fix m s :: jsstring
  assume "s \<noteq> []"
  then show "((m, tl s), (m, s)) \<in> measure (\<lambda>(m, s). length s)"
    by (cases s) auto
qed

declare removeMarker.simps [simp del]

text \<open>The two replacements that strip the fence markers, in the order of the source.\<close>

definition stripFences :: "jsstring \<Rightarrow> jsstring" where
  "stripFences s = removeMarker FENCE (removeMarker FENCE_JSON s)"

text \<open>\<open>[\u0000-\u001F\u007F-\u009F]\<close>\<close>

definition isControl :: "cu \<Rightarrow> bool" where
  "isControl c \<longleftrightarrow> c \<le> 0x1F \<or> (0x7F \<le> c \<and> c \<le> 0x9F)"

definition removeControl :: "jsstring \<Rightarrow> jsstring" where
  "removeControl s = filter (\<lambda>c. \<not> isControl c) s"

text \<open>
  \<open>s.replace(/\n\s*\n/g, '\n')\<close>: at a line feed, the greedy \<open>\s*\<close> takes the whole run of
  white space that follows and gives back until a line feed is next, so the match ends at the
  last line feed of that run; it is replaced by one line feed and the scan goes on behind it.
\<close>

definition lastLF :: "jsstring \<Rightarrow> nat option" where
  \<comment> \<open>the number of code units up to and including the last line feed\<close>
  "lastLF r = (case findSub [LF] (rev r) of None \<Rightarrow> None | Some i \<Rightarrow> Some (length r - i))"

function collapseBlankLines :: "jsstring \<Rightarrow> jsstring" where
  "collapseBlankLines s =
     (case s of
        [] \<Rightarrow> []
      | c # cs \<Rightarrow>
          (if c = LF then
             (case lastLF (takeWhile isWhiteSpace cs) of
                Some k \<Rightarrow> LF # collapseBlankLines (drop k cs)
              | None \<Rightarrow> c # collapseBlankLines cs)
           else c # collapseBlankLines cs))"
  by pat_completeness auto
termination
  by (relation "measure length") auto

declare collapseBlankLines.simps [simp del]

section \<open>JSON texts\<close>

text \<open>
  The compact JSON text of a value, in the form \<open>JSON.stringify\<close> writes: strings quoted
  with the escapes of \<open>QuoteJSONString\<close>, no white space between tokens, a property whose
  value is \<open>undefined\<close> left out, an array element that is \<open>undefined\<close> written \<open>null\<close>.
  A number is written with all its decimal digits, also where \<open>JSON.stringify\<close> would
  switch to an exponent.
\<close>

definition hexDigit :: "nat \<Rightarrow> cu" where
  "hexDigit n = (if n < 10 then 0x30 + of_nat n else 0x61 + of_nat (n - 10))"

definition unicodeEscape :: "cu \<Rightarrow> jsstring" where
  "unicodeEscape c =
     [0x5C, 0x75,
      hexDigit (unat c div 4096), hexDigit (unat c div 256 mod 16),
      hexDigit (unat c div 16 mod 16), hexDigit (unat c mod 16)]"

definition isHighSurrogate :: "cu \<Rightarrow> bool" where
  "isHighSurrogate c \<longleftrightarrow> 0xD800 \<le> c \<and> c \<le> 0xDBFF"

definition isLowSurrogate :: "cu \<Rightarrow> bool" where
  "isLowSurrogate c \<longleftrightarrow> 0xDC00 \<le> c \<and> c \<le> 0xDFFF"

definition quoteUnit :: "cu \<Rightarrow> jsstring" where
  "quoteUnit c =
     (if c = 0x08 then [0x5C, 0x62]
      else if c = 0x09 then [0x5C, 0x74]
      else if c = 0x0A then [0x5C, 0x6E]
      else if c = 0x0C then [0x5C, 0x66]
      else if c = 0x0D then [0x5C, 0x72]
      else if c = 0x22 then [0x5C, 0x22]
      else if c = 0x5C then [0x5C, 0x5C]
      else if c < 0x20 \<or> isLowSurrogate c then unicodeEscape c
      else [c])"

text \<open>A high surrogate directly followed by a low one is a pair and stays as it is.\<close>

fun quoteUnits :: "jsstring \<Rightarrow> jsstring" where
  "quoteUnits [] = []"
| "quoteUnits [c] = (if isHighSurrogate c then unicodeEscape c else quoteUnit c)"
| "quoteUnits (c # d # cs) =
     (if isHighSurrogate c then
        (if isLowSurrogate d then c # d # quoteUnits cs
         else unicodeEscape c @ quoteUnits (d # cs))
      else quoteUnit c @ quoteUnits (d # cs))"

definition quoteJSONString :: "jsstring \<Rightarrow> jsstring" where
  "quoteJSONString s = 0x22 # quoteUnits s @ [0x22]"

fun decimalDigits :: "nat \<Rightarrow> jsstring" where
  "decimalDigits n =
     (if n < 10 then [0x30 + of_nat n]
      else decimalDigits (n div 10) @ [0x30 + of_nat (n mod 10)])"

declare decimalDigits.simps [simp del]

definition numberText :: "int \<Rightarrow> jsstring" where
  "numberText n = (if n < 0 then 0x2D # decimalDigits (nat (- n)) else decimalDigits (nat n))"

fun joinComma :: "jsstring list \<Rightarrow> jsstring" where
  "joinComma [] = []"
| "joinComma [s] = s"
| "joinComma (s # t # ts) = s @ 0x2C # joinComma (t # ts)"

fun jsonText :: "jsval \<Rightarrow> jsstring" where
  "jsonText JUndefined = ustr ''null''"
| "jsonText JNull = ustr ''null''"
| "jsonText (JBool b) = (if b then ustr ''true'' else ustr ''false'')"
| "jsonText (JNum n) = numberText n"
| "jsonText (JStr s) = quoteJSONString s"
| "jsonText (JArr xs) = 0x5B # joinComma (map jsonText xs) @ [0x5D]"
| "jsonText (JObj kvs) =
     0x7B # joinComma (map (\<lambda>kv. quoteJSONString (fst kv) @ 0x3A # jsonText (snd kv))
                         (filter (\<lambda>kv. snd kv \<noteq> JUndefined) kvs)) @ [0x7D]"

text \<open>
  The string a value turns into inside a template literal. An array joins its elements with
  commas, \<open>null\<close> and \<open>undefined\<close> elements giving the empty string.
\<close>

fun toStr :: "jsval \<Rightarrow> jsstring" where
  "toStr JUndefined = ustr ''undefined''"
| "toStr JNull = ustr ''null''"
| "toStr (JBool b) = (if b then ustr ''true'' else ustr ''false'')"
| "toStr (JNum n) = numberText n"
| "toStr (JStr s) = s"
| "toStr (JArr xs) =
     joinComma (map (\<lambda>x. if x = JUndefined \<or> x = JNull then [] else toStr x) xs)"
| "toStr (JObj kvs) = ustr ''[object Object]''"

section \<open>Research parsing (\<open>generateBrandResearch\<close>)\<close>

text \<open>
  \<open>JSON.parse\<close> is a built-in of the platform; the parsers take it as the parameter
  \<open>parse\<close>, which gives the value read from a text or, for a text it rejects, the message
  of the \<open>SyntaxError\<close> it throws.
\<close>

type_synonym json_parser = "jsstring \<Rightarrow> jsstring + jsval"

definition jsonParse :: "json_parser \<Rightarrow> jsstring \<Rightarrow> error + jsval" where
  "jsonParse parse s = (case parse s of Inl m \<Rightarrow> Inl (SyntaxError m) | Inr v \<Rightarrow> Inr v)"

text \<open>\<open>try { body } catch (e) { handler }\<close>\<close>

definition tryCatch :: "error + 'a \<Rightarrow> (error \<Rightarrow> error + 'a) \<Rightarrow> error + 'a" where
  "tryCatch body handler = (case body of Inl e \<Rightarrow> handler e | Inr v \<Rightarrow> Inr v)"

definition SEE_ABOVE :: jsval where
  "SEE_ABOVE = JStr (ustr ''See full response above'')"

text \<open>The object built when both parsing attempts fail.\<close>

definition placeholderResearch :: "jsval \<Rightarrow> jsval" where
  "placeholderResearch researchText = JObj
     [ (ustr ''brandEssence'', JObj
          [ (ustr ''coreStory'', researchText),
            (ustr ''emotionalAppeal'', SEE_ABOVE),
            (ustr ''audienceInsights'', SEE_ABOVE) ]),
       (ustr ''creativeOpportunities'', JObj
          [ (ustr ''storytellingAngles'', SEE_ABOVE),
            (ustr ''visualPossibilities'', SEE_ABOVE),
            (ustr ''brandExpression'', SEE_ABOVE) ]),
       (ustr ''strategicContext'', JObj
          [ (ustr ''marketPosition'', SEE_ABOVE),
            (ustr ''industryTrends'', SEE_ABOVE),
            (ustr ''growthOpportunities'', SEE_ABOVE) ]),
       (ustr ''brandVoice'', JObj
          [ (ustr ''tone'', SEE_ABOVE),
            (ustr ''visualLanguage'', SEE_ABOVE),
            (ustr ''communicationStyle'', SEE_ABOVE) ]),
       (ustr ''implementation'', JObj
          [ (ustr ''keyTouchpoints'', SEE_ABOVE),
            (ustr ''challenges'', SEE_ABOVE),
            (ustr ''opportunities'', SEE_ABOVE) ]),
       (ustr ''rawResponse'', researchText) ]"

text \<open>
  First attempt: the contents of a fenced block when the text has one, the whole text
  otherwise, trimmed and parsed.
\<close>

definition parseCodeBlock :: "json_parser \<Rightarrow> jsstring \<Rightarrow> error + jsval" where
  "parseCodeBlock parse researchText =
     (let jsonStr = trim (case matchCodeBlock researchText of
                            Some block \<Rightarrow> block
                          | None \<Rightarrow> researchText)
      in jsonParse parse jsonStr)"

text \<open>Second attempt: the text without its fence markers, trimmed and parsed.\<close>

definition parseCleaned :: "json_parser \<Rightarrow> jsstring \<Rightarrow> error + jsval" where
  "parseCleaned parse researchText =
     (let cleanedText = trim (stripFences researchText)
      in jsonParse parse cleanedText)"

text \<open>
  The nested \<open>try\<close>/\<open>catch\<close> of \<open>generateBrandResearch\<close> that turns the text of the model's
  answer into the research object.
\<close>

definition parseResearch :: "json_parser \<Rightarrow> jsstring \<Rightarrow> error + jsval" where
  "parseResearch parse researchText =
     tryCatch (parseCodeBlock parse researchText)
       (\<lambda>parseError.
          tryCatch (parseCleaned parse researchText)
            (\<lambda>secondError. Inr (placeholderResearch (JStr researchText))))"

definition REQUIRED_SECTIONS :: "jsstring list" where
  "REQUIRED_SECTIONS =
     [ustr ''brandEssence'', ustr ''creativeOpportunities'', ustr ''strategicContext'',
      ustr ''brandVoice'', ustr ''implementation'']"

text \<open>\<open>k in v\<close> for an object \<open>v\<close>.\<close>

definition hasKey :: "jsval \<Rightarrow> jsstring \<Rightarrow> bool" where
  "hasKey v k = (case v of JObj kvs \<Rightarrow> k \<in> fst ` set kvs | _ \<Rightarrow> False)"

section \<open>Script parsing (\<open>generateScriptContent\<close>)\<close>

text \<open>The chain of replacements applied to the text before it is parsed.\<close>

definition cleanContent :: "jsstring \<Rightarrow> jsstring" where
  "cleanContent content =
     trim (collapseBlankLines (removeControl
       (removeMarker FENCE (removeMarker FENCE_JSON content))))"

text \<open>
  \<open>if (!parsedContent.sections || !Array.isArray(parsedContent.sections)) throw \<dots>\<close>; the
  property read itself throws when the parsed value is \<open>null\<close>.
\<close>

definition validateScript :: "jsval \<Rightarrow> error + jsval" where
  "validateScript parsedContent =
     (case getProp parsedContent (ustr ''sections'') of
        Inl e \<Rightarrow> Inl e
      | Inr sections \<Rightarrow>
          if \<not> truthy sections \<or> \<not> isArray sections
          then Inl (Error (ustr ''Invalid script structure in response''))
          else Inr parsedContent)"

definition PARSE_FAILED :: jsstring where
  "PARSE_FAILED = ustr ''Failed to parse script content: ''"

text \<open>
  The inner \<open>try\<close>/\<open>catch\<close>: whatever is thrown while parsing or validating is thrown again
  as \<open>Failed to parse script content: \<dots>\<close>.
\<close>

definition parseScript :: "json_parser \<Rightarrow> jsstring \<Rightarrow> error + jsval" where
  "parseScript parse content =
     (let cleanedContent = cleanContent content
      in tryCatch
           (case jsonParse parse cleanedContent of
              Inl e \<Rightarrow> Inl e
            | Inr parsedContent \<Rightarrow> validateScript parsedContent)
           (\<lambda>parseError. Inl (Error (PARSE_FAILED @ messageOf parseError))))"

text \<open>
  What \<open>fetch\<close> resolves to: the \<open>ok\<close> flag, the status, and what \<open>response.json()\<close> gives.
\<close>

record fetch_response =
  resp_ok :: bool
  resp_status :: nat
  resp_json :: "error + jsval"

text \<open>\<open>data.candidates?.[0]?.content?.parts?.[0]?.text\<close>\<close>

definition candidateText :: "jsval \<Rightarrow> error + jsval" where
  "candidateText data =
     (case getProp data (ustr ''candidates'') of
        Inl e \<Rightarrow> Inl e
      | Inr candidates \<Rightarrow>
          Inr (optProp (optFirst (optProp (optProp (optFirst candidates)
                 (ustr ''content'')) (ustr ''parts''))) (ustr ''text'')))"

text \<open>
  \<open>generateScriptContent\<close> from the response of the text model on. A text that is truthy but
  not a string has no \<open>replace\<close> method, so the first replacement throws.
\<close>

definition scriptFromResponse :: "json_parser \<Rightarrow> error + fetch_response \<Rightarrow> error + jsval" where
  "scriptFromResponse parse fetched =
     (case fetched of
        Inl e \<Rightarrow> Inl e
      | Inr response \<Rightarrow>
          if \<not> resp_ok response
          then Inl (Error (ustr ''API request failed with status '' @
                           numberText (int (resp_status response))))
          else
            (case resp_json response of
               Inl e \<Rightarrow> Inl e
             | Inr data \<Rightarrow>
                 (case candidateText data of
                    Inl e \<Rightarrow> Inl e
                  | Inr text \<Rightarrow>
                      if \<not> truthy text
                      then Inl (Error (ustr ''Invalid response format from API''))
                      else
                        (case text of
                           JStr content \<Rightarrow> parseScript parse content
                         | _ \<Rightarrow> Inl (TypeError (notAFunction ''content.replace''))))))"

section \<open>Status polling (\<open>pollStatus\<close>)\<close>

text \<open>
  The media provider as the executor sees it. Every answer may depend on how many calls of
  the same kind came before. \<open>status_get u k\<close> is the outcome of the \<open>k\<close>-th \<open>GET\<close> of a
  status URL (the body of the response, or a rejection), \<open>get_latency k\<close> the milliseconds it
  takes, \<open>timer_lag k\<close> how much later than asked the timer set after it fires.
\<close>

record provider =
  fal_request :: "jsstring \<Rightarrow> jsval \<Rightarrow> nat \<Rightarrow> error + jsval"
  fal_subscribe :: "jsstring \<Rightarrow> jsval \<Rightarrow> nat \<Rightarrow> error + jsval"
  status_get :: "jsval \<Rightarrow> nat \<Rightarrow> error + jsval"
  get_latency :: "nat \<Rightarrow> nat"
  timer_lag :: "nat \<Rightarrow> nat"

text \<open>
  The clock (\<open>Date.now()\<close>, in milliseconds) and the calls made so far: the status checks with
  the time each was issued, the immediate and the queued submissions.
\<close>

record world =
  now :: nat
  statusChecks :: "(jsval \<times> nat) list"
  immediateCalls :: "(jsstring \<times> jsval) list"
  queuedCalls :: "(jsstring \<times> jsval) list"

definition TIMED_OUT :: error where
  "TIMED_OUT = Error (ustr ''Request timed out'')"

definition requestFailed :: "jsval \<Rightarrow> error" where
  \<comment> \<open>\<open>new Error(`Request failed: ${response.data.error || 'Unknown error'}`)\<close>\<close>
  "requestFailed data =
     Error (ustr ''Request failed: '' @
            toStr (orElse (optProp data (ustr ''error'')) (JStr (ustr ''Unknown error''))))"

text \<open>The world after the \<open>GET\<close> issued now has been answered.\<close>

definition afterGet :: "provider \<Rightarrow> jsval \<Rightarrow> world \<Rightarrow> world" where
  "afterGet p statusUrl w =
     w\<lparr> statusChecks := statusChecks w @ [(statusUrl, now w)],
        now := now w + get_latency p (length (statusChecks w)) \<rparr>"

text \<open>The world after the timer that follows check number \<open>k\<close> has fired.\<close>

definition afterSleep :: "provider \<Rightarrow> nat \<Rightarrow> nat \<Rightarrow> world \<Rightarrow> world" where
  "afterSleep p interval k w = w\<lparr> now := now w + interval + timer_lag p k \<rparr>"

text \<open>
  The \<open>while\<close> loop of \<open>pollStatus\<close>. It need not end (no time may pass between two tests of
  the clock), so not returning is the value \<open>None\<close>.
\<close>

partial_function (option) pollLoop ::
  "provider \<Rightarrow> jsval \<Rightarrow> nat \<Rightarrow> nat \<Rightarrow> nat \<Rightarrow> world \<Rightarrow> ((error + jsval) \<times> world) option"
where
  "pollLoop p statusUrl interval timeout startTime w =
     (if now w - startTime < timeout then
        (case status_get p statusUrl (length (statusChecks w)) of
           Inl e \<Rightarrow> Some (Inl e, afterGet p statusUrl w)
         | Inr data \<Rightarrow>
             (case getProp data (ustr ''status'') of
                Inl e \<Rightarrow> Some (Inl e, afterGet p statusUrl w)
              | Inr status \<Rightarrow>
                  if status = JStr (ustr ''COMPLETED'')
                  then Some (Inr data, afterGet p statusUrl w)
                  else if status = JStr (ustr ''FAILED'')
                  then Some (Inl (requestFailed data), afterGet p statusUrl w)
                  else pollLoop p statusUrl interval timeout startTime
                         (afterSleep p interval (length (statusChecks w))
                            (afterGet p statusUrl w))))
      else Some (Inl TIMED_OUT, w))"

definition pollStatus ::
  "provider \<Rightarrow> jsval \<Rightarrow> nat \<Rightarrow> nat \<Rightarrow> world \<Rightarrow> ((error + jsval) \<times> world) option"
where
  "pollStatus p statusUrl interval timeout w = pollLoop p statusUrl interval timeout (now w) w"

definition DEFAULT_INTERVAL :: nat where "DEFAULT_INTERVAL = 20000"
definition DEFAULT_TIMEOUT :: nat where "DEFAULT_TIMEOUT = 300000"

section \<open>Model execution (\<open>executeModelRequest\<close>)\<close>

text \<open>
  \<open>{ data: finalStatus.output, requestId: response.request_id }\<close>. Neither read can throw:
  a property of each of the two values was read before.
\<close>

definition polledResult :: "jsval \<Rightarrow> jsval \<Rightarrow> jsval" where
  "polledResult finalStatus response =
     JObj [ (ustr ''data'', optProp finalStatus (ustr ''output'')),
            (ustr ''requestId'', optProp response (ustr ''request_id'')) ]"

text \<open>
  The \<open>try\<close> block: the immediate call and, when its response carries a status URL, the
  polling of that URL with the default interval and timeout.
\<close>

definition immediatePath ::
  "provider \<Rightarrow> jsstring \<Rightarrow> jsval \<Rightarrow> world \<Rightarrow> ((error + jsval) \<times> world) option"
where
  "immediatePath p modelId input w =
     (let w1 = w\<lparr> immediateCalls := immediateCalls w @ [(modelId, input)] \<rparr>
      in case fal_request p modelId input (length (immediateCalls w)) of
           Inl e \<Rightarrow> Some (Inl e, w1)
         | Inr response \<Rightarrow>
             (case getProp response (ustr ''status_url'') of
                Inl e \<Rightarrow> Some (Inl e, w1)
              | Inr status_url \<Rightarrow>
                  if truthy status_url then
                    (case pollStatus p status_url DEFAULT_INTERVAL DEFAULT_TIMEOUT w1 of
                       None \<Rightarrow> None
                     | Some (Inl e, w2) \<Rightarrow> Some (Inl e, w2)
                     | Some (Inr finalStatus, w2) \<Rightarrow>
                         Some (Inr (polledResult finalStatus response), w2))
                  else Some (Inr response, w1)))"

text \<open>
  The \<open>catch\<close> block: the queued submission and, when its response carries a status URL,
  the polling of that URL. Nothing catches what is thrown here.
\<close>

definition queuedPath ::
  "provider \<Rightarrow> jsstring \<Rightarrow> jsval \<Rightarrow> world \<Rightarrow> ((error + jsval) \<times> world) option"
where
  "queuedPath p modelId input w =
     (let w1 = w\<lparr> queuedCalls := queuedCalls w @ [(modelId, input)] \<rparr>
      in case fal_subscribe p modelId input (length (queuedCalls w)) of
           Inl e \<Rightarrow> Some (Inl e, w1)
         | Inr queueResponse \<Rightarrow>
             (case getProp queueResponse (ustr ''status_url'') of
                Inl e \<Rightarrow> Some (Inl e, w1)
              | Inr status_url \<Rightarrow>
                  if truthy status_url then
                    (case pollStatus p status_url DEFAULT_INTERVAL DEFAULT_TIMEOUT w1 of
                       None \<Rightarrow> None
                     | Some (Inl e, w2) \<Rightarrow> Some (Inl e, w2)
                     | Some (Inr finalStatus, w2) \<Rightarrow>
                         Some (Inr (polledResult finalStatus queueResponse), w2))
                  else Some (Inr queueResponse, w1)))"

definition executeModelRequest ::
  "provider \<Rightarrow> jsstring \<Rightarrow> jsval \<Rightarrow> world \<Rightarrow> ((error + jsval) \<times> world) option"
where
  "executeModelRequest p modelId input w =
     (case immediatePath p modelId input w of
        None \<Rightarrow> None
      | Some (Inr result, w1) \<Rightarrow> Some (Inr result, w1)
      | Some (Inl error, w1) \<Rightarrow> queuedPath p modelId input w1)"

section \<open>Status sources and concrete scenarios\<close>

text \<open>A reply to a status check that reports neither \<open>COMPLETED\<close> nor \<open>FAILED\<close>.\<close>

definition pendingReply :: "error + jsval \<Rightarrow> bool" where
  "pendingReply r =
     (case r of
        Inl _ \<Rightarrow> False
      | Inr data \<Rightarrow>
          (case getProp data (ustr ''status'') of
             Inl _ \<Rightarrow> False
           | Inr status \<Rightarrow>
               status \<noteq> JStr (ustr ''COMPLETED'') \<and> status \<noteq> JStr (ustr ''FAILED'')))"

text \<open>A reply to a status check that reports \<open>COMPLETED\<close>.\<close>

definition completedReply :: "error + jsval \<Rightarrow> bool" where
  "completedReply r =
     (case r of
        Inl _ \<Rightarrow> False
      | Inr data \<Rightarrow> getProp data (ustr ''status'') = Inr (JStr (ustr ''COMPLETED'')))"

definition worldStart :: world where
  "worldStart = \<lparr> now = 0, statusChecks = [], immediateCalls = [], queuedCalls = [] \<rparr>"

definition IMAGE_MODEL :: jsstring where
  "IMAGE_MODEL = ustr ''fal-ai/flux-pro/v1.1-ultra''"

text \<open>
  The final status of a successful run that polled the status URL \<open>u\<close>: the last status check
  made is a check of \<open>u\<close>, and its reply is a body that reports \<open>COMPLETED\<close>.
\<close>

definition finalStatusOf :: "provider \<Rightarrow> jsval \<Rightarrow> world \<Rightarrow> world \<Rightarrow> jsval \<Rightarrow> bool" where
  "finalStatusOf p u w w' finalStatus \<longleftrightarrow>
     length (statusChecks w) < length (statusChecks w') \<and>
     fst (last (statusChecks w')) = u \<and>
     status_get p u (length (statusChecks w') - 1) = Inr finalStatus \<and>
     getProp finalStatus (ustr ''status'') = Inr (JStr (ustr ''COMPLETED''))"

text \<open>A provider whose jobs stay in progress for ever.\<close>

definition pPending :: provider where
  "pPending = \<lparr>
     fal_request = (\<lambda>m i k. Inl (ProviderError (Some 404) (ustr ''Not Found''))),
     fal_subscribe = (\<lambda>m i k. Inl (ProviderError None (ustr ''Network Error''))),
     status_get = (\<lambda>u k. Inr (JObj [(ustr ''status'', JStr (ustr ''IN_PROGRESS''))])),
     get_latency = (\<lambda>k. 0),
     timer_lag = (\<lambda>k. 0) \<rparr>"

text \<open>
  A provider whose immediate call is rejected with status 404, whose queued submission
  answers with a status URL, and whose jobs are in progress at two checks and completed from
  the third on.
\<close>

definition pThird :: provider where
  "pThird = \<lparr>
     fal_request = (\<lambda>m i k. Inl (ProviderError (Some 404) (ustr ''Not Found''))),
     fal_subscribe = (\<lambda>m i k. Inr (JObj [(ustr ''status_url'', JStr (ustr ''u'')),
                                           (ustr ''request_id'', JStr (ustr ''r''))])),
     status_get = (\<lambda>u k.
        if k < 2 then Inr (JObj [(ustr ''status'', JStr (ustr ''IN_PROGRESS''))])
        else Inr (JObj [(ustr ''status'', JStr (ustr ''COMPLETED'')),
                        (ustr ''output'', JStr (ustr ''done''))])),
     get_latency = (\<lambda>k. 0),
     timer_lag = (\<lambda>k. 0) \<rparr>"

text \<open>
  A provider whose immediate call answers with a status URL, whose job then fails, and whose
  queued submission answers with a result.
\<close>

definition pPollFails :: provider where
  "pPollFails = \<lparr>
     fal_request = (\<lambda>m i k. Inr (JObj [(ustr ''status_url'', JStr (ustr ''u'')),
                                         (ustr ''request_id'', JStr (ustr ''r''))])),
     fal_subscribe = (\<lambda>m i k. Inr (JObj [(ustr ''data'', JStr (ustr ''d'')),
                                           (ustr ''requestId'', JStr (ustr ''q''))])),
     status_get = (\<lambda>u k. Inr (JObj [(ustr ''status'', JStr (ustr ''FAILED''))])),
     get_latency = (\<lambda>k. 0),
     timer_lag = (\<lambda>k. 0) \<rparr>"

text \<open>A provider whose immediate call answers with the output and no status URL.\<close>

definition pOutput :: provider where
  "pOutput = \<lparr>
     fal_request = (\<lambda>m i k. Inr (JObj [(ustr ''output'', JStr (ustr ''x''))])),
     fal_subscribe = (\<lambda>m i k. Inl (ProviderError None (ustr ''Network Error''))),
     status_get = (\<lambda>u k. Inl (ProviderError None (ustr ''Network Error''))),
     get_latency = (\<lambda>k. 0),
     timer_lag = (\<lambda>k. 0) \<rparr>"

text \<open>A code unit that is neither a line feed nor white space.\<close>

definition plainUnit :: "cu \<Rightarrow> bool" where
  "plainUnit c \<longleftrightarrow> c \<noteq> LF \<and> \<not> isWhiteSpace c"

text \<open>
  A parser that accepts nothing, and one that accepts exactly the text of one value. Their
  message for a text they reject names its first code unit.
\<close>

definition unexpected :: "jsstring \<Rightarrow> jsstring" where
  "unexpected s =
     (case s of
        [] \<Rightarrow> ustr ''Unexpected end of JSON input''
      | c # _ \<Rightarrow> ustr ''Unexpected token '' @ quoted [c])"

definition parseNothing :: json_parser where
  "parseNothing s = Inl (unexpected s)"

definition parseOnly :: "jsval \<Rightarrow> json_parser" where
  "parseOnly v s = (if s = jsonText v then Inr v else Inl (unexpected s))"

text \<open>
  The text that \<open>JSON.stringify({a: 1}, null, 2)\<close> writes, on three lines, and a parser that
  accepts exactly this text.
\<close>

definition indentedText :: jsstring where
  "indentedText = ustr ''{'' @ LF # ustr ''  \"a\": 1'' @ LF # ustr ''}''"

definition parseIndented :: json_parser where
  "parseIndented s =
     (if s = indentedText then Inr (JObj [(ustr ''a'', JNum 1)]) else Inl (unexpected s))"

text \<open>A value with an array-typed \<open>sections\<close> field.\<close>

definition hasSections :: "jsval \<Rightarrow> bool" where
  "hasSections v = isArray (optProp v (ustr ''sections''))"

text \<open>An object without \<open>sections\<close>, and a response that has its JSON text in a fenced block.\<close>

definition noSections :: jsval where
  "noSections = JObj [(ustr ''title'', JStr (ustr ''x''))]"

definition fencedNoSections :: jsstring where
  "fencedNoSections =
     FENCE_JSON @ LF # jsonText (JObj [(ustr ''title'', JStr (ustr ''x''))]) @ LF # FENCE"

section \<open>Media prompts (\<open>generateMediaPrompts\<close>)\<close>

text \<open>
  \<open>toLowerCase\<close>, exact on ASCII and on the two other code units whose lower case contains
  an ASCII letter (U+0130, U+212A). A code unit whose lower case is some other non-ASCII text
  is left as it is, which does not change whether an ASCII word occurs in the result.
\<close>

definition lowerUnit :: "cu \<Rightarrow> jsstring" where
  "lowerUnit c =
     (if 0x41 \<le> c \<and> c \<le> 0x5A then [c + 0x20]
      else if c = 0x0130 then [0x69, 0x0307]
      else if c = 0x212A then [0x6B]
      else [c])"

definition toLowerCase :: "jsstring \<Rightarrow> jsstring" where
  "toLowerCase s = concat (map lowerUnit s)"

definition mentionsMotion :: "jsstring \<Rightarrow> bool" where
  "mentionsMotion element \<longleftrightarrow>
     includesStr (toLowerCase element) (ustr ''animation'') \<or>
     includesStr (toLowerCase element) (ustr ''motion'') \<or>
     includesStr (toLowerCase element) (ustr ''transition'')"

record visual_prompts =
  images :: "jsval list"
  animations :: "jsval list"

definition HIGH_QUALITY_4K :: jsval where
  "HIGH_QUALITY_4K = JStr (ustr ''high quality, detailed, 4k resolution'')"

text \<open>The prompts pushed when the script has no array of sections.\<close>

definition NO_SECTIONS_IMAGE :: jsval where
  "NO_SECTIONS_IMAGE = JObj
     [ (ustr ''prompt'', JStr (ustr ''Dynamic shot showcasing brand identity and values'')),
       (ustr ''style'', JStr (ustr ''modern'')),
       (ustr ''mood'', JStr (ustr ''professional'')),
       (ustr ''technicalSpecs'', HIGH_QUALITY_4K) ]"

definition NO_SECTIONS_ANIMATION :: jsval where
  "NO_SECTIONS_ANIMATION = JObj
     [ (ustr ''prompt'', JStr (ustr ''Smooth brand logo animation with dynamic transitions'')),
       (ustr ''style'', JStr (ustr ''cinematic'')),
       (ustr ''duration'', JStr (ustr ''5 seconds'')),
       (ustr ''transition'', JStr (ustr ''smooth fade'')) ]"

text \<open>The prompts pushed when a list is still empty after the sections were read.\<close>

definition FALLBACK_IMAGE :: jsval where
  "FALLBACK_IMAGE = JObj
     [ (ustr ''prompt'', JStr (ustr ''Dynamic brand showcase with modern aesthetic'')),
       (ustr ''style'', JStr (ustr ''modern'')),
       (ustr ''mood'', JStr (ustr ''professional'')),
       (ustr ''technicalSpecs'', HIGH_QUALITY_4K) ]"

definition FALLBACK_ANIMATION :: jsval where
  "FALLBACK_ANIMATION = JObj
     [ (ustr ''prompt'', JStr (ustr ''Smooth brand logo animation'')),
       (ustr ''style'', JStr (ustr ''cinematic'')),
       (ustr ''duration'', JStr (ustr ''5 seconds'')),
       (ustr ''transition'', JStr (ustr ''smooth fade'')) ]"

definition animationPrompt :: "jsval \<Rightarrow> jsstring \<Rightarrow> jsval" where
  "animationPrompt section element = JObj
     [ (ustr ''prompt'', JStr element),
       (ustr ''style'',
          orElse (optProp (optProp section (ustr ''craftAndDesignDetails'')) (ustr ''style''))
                 (JStr (ustr ''cinematic''))),
       (ustr ''duration'', JStr (ustr ''5 seconds'')),
       (ustr ''transition'',
          orElse (optProp section (ustr ''motionTransitions'')) (JStr (ustr ''smooth fade''))) ]"

definition imagePrompt :: "jsval \<Rightarrow> jsstring \<Rightarrow> jsval" where
  "imagePrompt section element = JObj
     [ (ustr ''prompt'', JStr element),
       (ustr ''style'',
          orElse (optProp (optProp section (ustr ''craftAndDesignDetails'')) (ustr ''style''))
                 (JStr (ustr ''modern''))),
       (ustr ''mood'',
          orElse (optProp (optProp section (ustr ''craftAndDesignDetails'')) (ustr ''mood''))
                 (JStr (ustr ''professional''))),
       (ustr ''technicalSpecs'', HIGH_QUALITY_4K) ]"

text \<open>The body of the inner \<open>forEach\<close>: only an element that is a string adds a prompt.\<close>

definition addElement :: "jsval \<Rightarrow> visual_prompts \<Rightarrow> jsval \<Rightarrow> visual_prompts" where
  "addElement section vp element =
     (case element of
        JStr e \<Rightarrow>
          if mentionsMotion e
          then vp\<lparr> animations := animations vp @ [animationPrompt section e] \<rparr>
          else vp\<lparr> images := images vp @ [imagePrompt section e] \<rparr>
      | _ \<Rightarrow> vp)"

text \<open>
  The body of the outer \<open>forEach\<close>. Reading \<open>visualElements\<close> of a section that is \<open>null\<close>
  throws; a truthy \<open>visualElements\<close> that is not an array has no \<open>forEach\<close> to call, which
  throws as well.
\<close>

definition addSection :: "visual_prompts \<Rightarrow> jsval \<Rightarrow> error + visual_prompts" where
  "addSection vp section =
     (case getProp section (ustr ''visualElements'') of
        Inl e \<Rightarrow> Inl e
      | Inr visualElements \<Rightarrow>
          if truthy visualElements then
            (case visualElements of
               JArr elements \<Rightarrow> Inr (foldl (addElement section) vp elements)
             | _ \<Rightarrow> Inl (TypeError (notAFunction ''section.visualElements.forEach'')))
          else Inr vp)"

fun addSections :: "visual_prompts \<Rightarrow> jsval list \<Rightarrow> error + visual_prompts" where
  "addSections vp [] = Inr vp"
| "addSections vp (section # rest) =
     (case addSection vp section of
        Inl e \<Rightarrow> Inl e
      | Inr vp' \<Rightarrow> addSections vp' rest)"

definition extractPrompts :: "jsval \<Rightarrow> error + visual_prompts" where
  "extractPrompts script =
     (let sections = optProp script (ustr ''sections'')
      in if \<not> truthy sections \<or> \<not> isArray sections
         then Inr \<lparr> images = [NO_SECTIONS_IMAGE], animations = [NO_SECTIONS_ANIMATION] \<rparr>
         else (case sections of
                 JArr secs \<Rightarrow> addSections \<lparr> images = [], animations = [] \<rparr> secs
               | _ \<Rightarrow> Inl (TypeError (notAFunction ''script.sections.forEach''))))"

text \<open>\<open>// Ensure we have at least one prompt of each type\<close>\<close>

definition ensurePrompts :: "visual_prompts \<Rightarrow> visual_prompts" where
  "ensurePrompts vp =
     (let vp1 = (if length (images vp) = 0
                 then vp\<lparr> images := images vp @ [FALLBACK_IMAGE] \<rparr> else vp)
      in if length (animations vp1) = 0
         then vp1\<lparr> animations := animations vp1 @ [FALLBACK_ANIMATION] \<rparr> else vp1)"

definition craftGuidelines :: "jsval \<Rightarrow> jsval" where
  "craftGuidelines script =
     (let first = optFirst (optProp script (ustr ''sections''));
          details = optProp first (ustr ''craftAndDesignDetails'')
      in JObj
        [ (ustr ''visualStyle'', orElse (optProp details (ustr ''style''))
             (JStr (ustr ''Clean, modern, and professional. Emphasis on brand consistency and visual impact.''))),
          (ustr ''colorPalette'', orElse (optProp details (ustr ''colors''))
             (JStr (ustr ''Brand colors with complementary accents. High contrast for readability.''))),
          (ustr ''typography'', orElse (optProp details (ustr ''typography''))
             (JStr (ustr ''Modern sans-serif fonts. Clear hierarchy and excellent readability.''))),
          (ustr ''animationStyle'', orElse (optProp first (ustr ''motionTransitions''))
             (JStr (ustr ''Smooth, purposeful motion with professional transitions.''))) ])"

text \<open>A parameter with a default value: the default is taken when the argument is \<open>undefined\<close>.\<close>

definition defaultArg :: "jsval \<Rightarrow> jsval \<Rightarrow> jsval" where
  "defaultArg v d = (if v = JUndefined then d else v)"

definition GEMINI_FLASH :: jsval where
  "GEMINI_FLASH = JStr (ustr ''gemini-2.0-flash'')"

text \<open>
  \<open>generateMediaPrompts\<close>, with the store of media prompts passed in and out. Whatever is
  thrown inside is caught and turned into a result with \<open>ok: false\<close>; the store is then left
  as it was. The time stamps read during one call are taken to be equal.
\<close>

definition generateMediaPrompts ::
  "jsstring \<Rightarrow> jsval \<Rightarrow> jsval \<Rightarrow> jsval \<Rightarrow> (jsstring \<rightharpoonup> jsval) \<Rightarrow> jsval \<times> (jsstring \<rightharpoonup> jsval)"
where
  "generateMediaPrompts timestamp script model brandName history =
     (case extractPrompts script of
        Inl error \<Rightarrow>
          (JObj [ (ustr ''ok'', JBool False),
                  (ustr ''error'', JStr (messageOf error)),
                  (ustr ''message'', JStr (ustr ''Failed to generate media prompts.'')) ],
           history)
      | Inr extracted \<Rightarrow>
          (let visualPrompts = ensurePrompts extracted;
               mediaPrompts = JObj
                 [ (ustr ''visualPrompts'', JObj
                      [ (ustr ''images'', JArr (images visualPrompts)),
                        (ustr ''animations'', JArr (animations visualPrompts)) ]),
                   (ustr ''craftGuidelines'', craftGuidelines script) ];
               storageKey = ustr ''media_prompts_'' @
                            toStr (orElse brandName (JStr (ustr ''default'')))
           in (JObj [ (ustr ''ok'', JBool True),
                      (ustr ''mediaPrompts'', mediaPrompts),
                      (ustr ''metadata'', JObj
                         [ (ustr ''model'', defaultArg model GEMINI_FLASH),
                           (ustr ''timestamp'', JStr timestamp),
                           (ustr ''mcp'', JBool True),
                           (ustr ''stats'', JObj
                              [ (ustr ''images'', JNum (int (length (images visualPrompts)))),
                                (ustr ''animations'',
                                   JNum (int (length (animations visualPrompts)))) ]) ]),
                      (ustr ''message'', JStr (ustr ''Media prompts generated successfully.'')) ],
               history(storageKey \<mapsto> JObj
                 [ (ustr ''mediaElements'', mediaPrompts),
                   (ustr ''timestamp'', JStr timestamp),
                   (ustr ''brandName'', brandName) ]))))"

text \<open>\<open>result.mediaPrompts.visualPrompts[kind]\<close>\<close>

definition promptsOf :: "jsval \<Rightarrow> jsstring \<Rightarrow> jsval" where
  "promptsOf result kind =
     optProp (optProp (optProp result (ustr ''mediaPrompts'')) (ustr ''visualPrompts'')) kind"

text \<open>
  A section the loop can read: not \<open>null\<close> or \<open>undefined\<close>, and with a \<open>visualElements\<close>
  that is falsy or an array. A script the loop can read has only such sections.
\<close>

definition sectionUsable :: "jsval \<Rightarrow> bool" where
  "sectionUsable section \<longleftrightarrow>
     section \<noteq> JNull \<and> section \<noteq> JUndefined \<and>
     (isArray (optProp section (ustr ''visualElements'')) \<or>
      \<not> truthy (optProp section (ustr ''visualElements'')))"

definition scriptUsable :: "jsval \<Rightarrow> bool" where
  "scriptUsable script =
     (case optProp script (ustr ''sections'') of
        JArr secs \<Rightarrow> list_all sectionUsable secs
      | _ \<Rightarrow> True)"

section \<open>The research and script endpoints (\<open>index.js\<close>)\<close>

text \<open>
  What the endpoints call outside the process. The text model is reached in two ways:
  \<open>gemini_post\<close> is the \<open>axios.post\<close> of the research prompt (the body of the response, or a
  rejection), \<open>gemini_fetch\<close> the \<open>fetch\<close> of the script prompt. Both take what the prompt is
  built from, not the prompt text, and the number of earlier calls. \<open>gen_image\<close> and
  \<open>gen_video\<close> are \<open>generateImage\<close> and \<open>generateVideo\<close>, \<open>drive_folder\<close> is
  \<open>createOrGetFolder\<close>, and \<open>drive_upload\<close> is the download and upload of one asset, giving
  the file's \<open>id\<close>, \<open>webViewLink\<close> and generated \<open>name\<close>. \<open>iso_time\<close> is the time stamp;
  the time stamps read during one request are taken to be equal.
\<close>

record services =
  json_parse :: json_parser
  gemini_post :: "jsval \<Rightarrow> nat \<Rightarrow> error + jsval"
  gemini_fetch :: "jsval \<Rightarrow> nat \<Rightarrow> error + fetch_response"
  gen_image :: "jsval \<Rightarrow> nat \<Rightarrow> error + jsval"
  gen_video :: "jsval \<Rightarrow> nat \<Rightarrow> error + jsval"
  drive_folder :: "jsval \<Rightarrow> jsval \<Rightarrow> error + jsval"
  drive_upload :: "jsval \<Rightarrow> nat \<Rightarrow> error + jsval"
  iso_time :: jsstring

datatype text_request = ResearchRequest jsval | ScriptRequest jsval

text \<open>
  The state of the process: \<open>researchStore\<close> and \<open>latestScriptData\<close> of \<open>index.js\<close>, the
  \<open>conversationHistory\<close> of the script generator and that of the media prompt generator,
  and the calls made so far.
\<close>

record app =
  researchStore :: "jsval \<rightharpoonup> jsval"
  latestScriptData :: jsval
  scriptHistory :: "jsval \<rightharpoonup> jsval"
  promptHistory :: "jsstring \<rightharpoonup> jsval"
  textCalls :: "text_request list"
  imageCalls :: "jsval list"
  videoCalls :: "jsval list"

record http_response =
  http_status :: nat
  http_body :: jsval

text \<open>
  \<open>researchStore.get(sessionId)\<close>. A \<open>Map\<close> compares keys that are objects by identity, and
  a session id that is an object or an array was made by parsing this request's body, so it
  is no key stored before.
\<close>

definition storeGet :: "(jsval \<rightharpoonup> jsval) \<Rightarrow> jsval \<Rightarrow> jsval option" where
  "storeGet store key =
     (case key of
        JArr _ \<Rightarrow> None
      | JObj _ \<Rightarrow> None
      | _ \<Rightarrow> store key)"

text \<open>\<open>v[0]\<close>, which throws on \<open>null\<close> and \<open>undefined\<close>.\<close>

definition getFirst :: "jsval \<Rightarrow> error + jsval" where
  "getFirst v =
     (if v = JNull \<or> v = JUndefined then Inl (TypeError (cannotRead v (ustr ''0'')))
      else Inr (optFirst v))"

text \<open>\<open>response.data.candidates[0].content.parts[0].text\<close>\<close>

definition researchTextOf :: "jsval \<Rightarrow> error + jsval" where
  "researchTextOf data =
     (case getProp data (ustr ''candidates'') of Inl e \<Rightarrow> Inl e | Inr candidates \<Rightarrow>
      case getFirst candidates of Inl e \<Rightarrow> Inl e | Inr candidate \<Rightarrow>
      case getProp candidate (ustr ''content'') of Inl e \<Rightarrow> Inl e | Inr content \<Rightarrow>
      case getProp content (ustr ''parts'') of Inl e \<Rightarrow> Inl e | Inr parts \<Rightarrow>
      case getFirst parts of Inl e \<Rightarrow> Inl e | Inr part \<Rightarrow>
      getProp part (ustr ''text''))"

text \<open>
  The parsing of the research text. A text that is not a string has neither \<open>match\<close> nor
  \<open>replace\<close>, so both attempts throw and the placeholder is built around it.
\<close>

definition researchOf :: "json_parser \<Rightarrow> jsval \<Rightarrow> error + jsval" where
  "researchOf parse researchText =
     (case researchText of
        JStr s \<Rightarrow> parseResearch parse s
      | _ \<Rightarrow> Inr (placeholderResearch researchText))"

text \<open>\<open>generateBrandResearch\<close>: the result and the state after it, or what it throws.\<close>

definition generateBrandResearch ::
  "services \<Rightarrow> jsval \<Rightarrow> jsval \<Rightarrow> app \<Rightarrow> (error + jsval) \<times> app"
where
  "generateBrandResearch sv brandInfo model st =
     (let st1 = st\<lparr> textCalls := textCalls st @ [ResearchRequest brandInfo] \<rparr>
      in case gemini_post sv brandInfo (length (textCalls st)) of
           Inl e \<Rightarrow> (Inl e, st1)
         | Inr data \<Rightarrow>
             (case researchTextOf data of
                Inl e \<Rightarrow> (Inl e, st1)
              | Inr researchText \<Rightarrow>
                  (case researchOf (json_parse sv) researchText of
                     Inl e \<Rightarrow> (Inl e, st1)
                   | Inr research \<Rightarrow>
                       (Inr (JObj
                          [ (ustr ''research'', research),
                            (ustr ''metadata'', JObj
                               [ (ustr ''model'', defaultArg model GEMINI_FLASH),
                                 (ustr ''timestamp'', JStr (iso_time sv)),
                                 (ustr ''mcp'', JBool True) ]) ]),
                        st1\<lparr> scriptHistory := (scriptHistory st1)(brandInfo \<mapsto> JObj
                               [ (ustr ''research'', research),
                                 (ustr ''timestamp'', JStr (iso_time sv)) ]) \<rparr>))))"

text \<open>
  \<open>typeof brandInfo === 'object' ? brandInfo.name : brandInfo.split(' ')[0]\<close>, for a truthy
  \<open>brandInfo\<close>: the name of an object, the first word of a string; a number or \<open>true\<close> has no
  \<open>split\<close>.
\<close>

definition researchKeyOf :: "jsval \<Rightarrow> error + jsval" where
  "researchKeyOf brandInfo =
     (if isObjectType brandInfo then getProp brandInfo (ustr ''name'')
      else (case brandInfo of
              JStr s \<Rightarrow> Inr (JStr (takeWhile (\<lambda>c. c \<noteq> 0x20) s))
            | _ \<Rightarrow> Inl (TypeError (notAFunction ''brandInfo.split''))))"

definition respond :: "nat \<Rightarrow> (jsstring \<times> jsval) list \<Rightarrow> http_response" where
  "respond code props = \<lparr> http_status = code, http_body = JObj props \<rparr>"

definition researchFailed :: http_response where
  "researchFailed = respond 500 [(ustr ''error'', JStr (ustr ''Failed to generate research''))]"

text \<open>\<open>POST /generate/research\<close>\<close>

definition researchHandler :: "services \<Rightarrow> jsval \<Rightarrow> app \<Rightarrow> http_response \<times> app" where
  "researchHandler sv reqBody st =
     (case getProp reqBody (ustr ''brandInfo'') of
        Inl e \<Rightarrow> (researchFailed, st)
      | Inr brandInfo \<Rightarrow>
          if \<not> truthy brandInfo
          then (respond 400 [(ustr ''error'', JStr (ustr ''Brand information is required''))], st)
          else
            (case researchKeyOf brandInfo of
               Inl e \<Rightarrow> (researchFailed, st)
             | Inr researchKey \<Rightarrow>
                 (case generateBrandResearch sv brandInfo
                         (defaultArg (optProp reqBody (ustr ''model'')) GEMINI_FLASH) st of
                    (Inl e, st1) \<Rightarrow> (researchFailed, st1)
                  | (Inr result, st1) \<Rightarrow>
                      (respond 200
                         [ (ustr ''ok'', JBool True),
                           (ustr ''research'', optProp result (ustr ''research'')),
                           (ustr ''sessionId'', researchKey),
                           (ustr ''message'', JStr (ustr
                              ''Research completed successfully. Please proceed with script generation.'')),
                           (ustr ''metadata'', optProp result (ustr ''metadata'')) ],
                       st1\<lparr> researchStore := (researchStore st1)(researchKey \<mapsto> JObj
                              [ (ustr ''research'', optProp result (ustr ''research'')),
                                (ustr ''brandInfo'', brandInfo),
                                (ustr ''timestamp'', JStr (iso_time sv)) ]) \<rparr>))))"

text \<open>
  \<open>generateScript\<close>: the two checks of its inputs, the call of the text model, the parsing of
  its answer, and the record of the script under \<open>script_<brand name>\<close>.
\<close>

definition generateScript :: "services \<Rightarrow> jsval \<Rightarrow> app \<Rightarrow> (error + jsval) \<times> app" where
  "generateScript sv inputs st =
     (if \<not> truthy (optProp (optProp inputs (ustr ''brandInfo'')) (ustr ''name''))
      then (Inl (Error (ustr ''Brand name is required'')), st)
      else if \<not> truthy (optProp inputs (ustr ''research''))
      then (Inl (Error (ustr ''Research data is required'')), st)
      else
        (let st1 = st\<lparr> textCalls := textCalls st @ [ScriptRequest inputs] \<rparr>
         in case scriptFromResponse (json_parse sv)
                   (gemini_fetch sv inputs (length (textCalls st))) of
              Inl e \<Rightarrow> (Inl e, st1)
            | Inr scriptResult \<Rightarrow>
                (Inr scriptResult,
                 st1\<lparr> scriptHistory := (scriptHistory st1)
                        (JStr (ustr ''script_'' @
                               toStr (optProp (optProp inputs (ustr ''brandInfo'')) (ustr ''name'')))
                         \<mapsto> JObj [ (ustr ''script'', scriptResult),
                                   (ustr ''timestamp'', JStr (iso_time sv)) ]) \<rparr>)))"

text \<open>The elements of an array.\<close>

definition arrayItems :: "jsval \<Rightarrow> jsval list" where
  "arrayItems v = (case v of JArr xs \<Rightarrow> xs | _ \<Rightarrow> [])"

text \<open>
  The body of the loop over the image prompts: one call of \<open>generateImage\<close>; an asset is
  pushed when it returns something truthy, and a throw is caught and logged.
\<close>

definition imageParams :: "jsval \<Rightarrow> jsval \<Rightarrow> jsval" where
  "imageParams guidelines prompt = JObj
     [ (ustr ''prompt'', optProp prompt (ustr ''prompt'')),
       (ustr ''style'', optProp guidelines (ustr ''visualStyle'')),
       (ustr ''mood'', JStr (ustr ''professional'')) ]"

definition imageAsset :: "jsval \<Rightarrow> jsval \<Rightarrow> jsval \<Rightarrow> jsval" where
  "imageAsset guidelines prompt generated = JObj
     [ (ustr ''type'', JStr (ustr ''image'')),
       (ustr ''url'', optProp generated (ustr ''url'')),
       (ustr ''prompt'', prompt),
       (ustr ''metadata'', JObj
          [ (ustr ''style'', optProp guidelines (ustr ''visualStyle'')),
            (ustr ''colorPalette'', optProp guidelines (ustr ''colorPalette'')) ]) ]"

fun imageLoop :: "services \<Rightarrow> jsval \<Rightarrow> jsval list \<Rightarrow> jsval list \<times> app \<Rightarrow> jsval list \<times> app" where
  "imageLoop sv guidelines [] (assets, st) = (assets, st)"
| "imageLoop sv guidelines (prompt # rest) (assets, st) =
     (let st1 = st\<lparr> imageCalls := imageCalls st @ [imageParams guidelines prompt] \<rparr>
      in case gen_image sv (imageParams guidelines prompt) (length (imageCalls st)) of
           Inl e \<Rightarrow> imageLoop sv guidelines rest (assets, st1)
         | Inr generated \<Rightarrow>
             if truthy generated
             then imageLoop sv guidelines rest
                    (assets @ [imageAsset guidelines prompt generated], st1)
             else imageLoop sv guidelines rest (assets, st1))"

definition videoParams :: "jsval \<Rightarrow> jsval \<Rightarrow> jsval" where
  "videoParams guidelines prompt = JObj
     [ (ustr ''prompt'', optProp prompt (ustr ''prompt'')),
       (ustr ''style'', optProp guidelines (ustr ''animationStyle'')),
       (ustr ''duration'', JNum 5),
       (ustr ''transition'', JStr (ustr ''smooth fade'')) ]"

definition animationAsset :: "jsval \<Rightarrow> jsval \<Rightarrow> jsval \<Rightarrow> jsval" where
  "animationAsset guidelines prompt generated = JObj
     [ (ustr ''type'', JStr (ustr ''animation'')),
       (ustr ''url'', optProp generated (ustr ''url'')),
       (ustr ''prompt'', prompt),
       (ustr ''metadata'', JObj
          [ (ustr ''style'', optProp guidelines (ustr ''animationStyle'')),
            (ustr ''duration'', JNum 5),
            (ustr ''transition'', JStr (ustr ''smooth fade'')) ]) ]"

fun animationLoop ::
  "services \<Rightarrow> jsval \<Rightarrow> jsval list \<Rightarrow> jsval list \<times> app \<Rightarrow> jsval list \<times> app"
where
  "animationLoop sv guidelines [] (assets, st) = (assets, st)"
| "animationLoop sv guidelines (prompt # rest) (assets, st) =
     (let st1 = st\<lparr> videoCalls := videoCalls st @ [videoParams guidelines prompt] \<rparr>
      in case gen_video sv (videoParams guidelines prompt) (length (videoCalls st)) of
           Inl e \<Rightarrow> animationLoop sv guidelines rest (assets, st1)
         | Inr generated \<Rightarrow>
             if truthy generated
             then animationLoop sv guidelines rest
                    (assets @ [animationAsset guidelines prompt generated], st1)
             else animationLoop sv guidelines rest (assets, st1))"

text \<open>
  The asset stage of \<open>POST /generate/script\<close>: at most the first two image prompts and the
  first animation prompt are handed to the generators.
\<close>

definition assetStage :: "services \<Rightarrow> jsval \<Rightarrow> app \<Rightarrow> jsval list \<times> app" where
  "assetStage sv mediaPrompts st =
     (let imagePrompts = arrayItems (optProp (optProp mediaPrompts (ustr ''visualPrompts''))
                                       (ustr ''images''));
          animationPrompts = arrayItems (optProp (optProp mediaPrompts (ustr ''visualPrompts''))
                                           (ustr ''animations''));
          guidelines = optProp mediaPrompts (ustr ''craftGuidelines'');
          afterImages =
            (if length imagePrompts > 0
             then imageLoop sv guidelines (take 2 imagePrompts) ([], st)
             else ([], st))
      in if length animationPrompts > 0
         then animationLoop sv guidelines (take 1 animationPrompts) afterImages
         else afterImages)"

text \<open>
  \<open>saveAssetsToDrive\<close>: the folder first (a failure there is thrown on), then every asset on
  its own; an asset whose upload fails is logged and left out.
\<close>

definition savedAsset :: "jsval \<Rightarrow> jsval \<Rightarrow> jsval \<Rightarrow> jsval" where
  "savedAsset folder asset file = JObj
     [ (ustr ''id'', optProp file (ustr ''id'')),
       (ustr ''url'', optProp file (ustr ''webViewLink'')),
       (ustr ''name'', optProp file (ustr ''name'')),
       (ustr ''type'', optProp asset (ustr ''type'')),
       (ustr ''folderId'', optProp folder (ustr ''id'')),
       (ustr ''folderName'', optProp folder (ustr ''name'')),
       (ustr ''folderUrl'', optProp folder (ustr ''url'')) ]"

fun saveLoop :: "services \<Rightarrow> jsval \<Rightarrow> nat \<Rightarrow> jsval list \<Rightarrow> jsval list" where
  "saveLoop sv folder i [] = []"
| "saveLoop sv folder i (asset # rest) =
     (case drive_upload sv asset i of
        Inl e \<Rightarrow> saveLoop sv folder (Suc i) rest
      | Inr file \<Rightarrow> savedAsset folder asset file # saveLoop sv folder (Suc i) rest)"

definition saveAssetsToDrive ::
  "services \<Rightarrow> jsval list \<Rightarrow> jsval \<Rightarrow> jsval \<Rightarrow> error + jsval list"
where
  "saveAssetsToDrive sv assets brand sessionId =
     (case drive_folder sv brand sessionId of
        Inl e \<Rightarrow> Inl e
      | Inr folder \<Rightarrow> Inr (saveLoop sv folder 0 assets))"

text \<open>\<open>[...new Set(xs)]\<close>: the first occurrence of every element, in order.\<close>

definition distinctFirst :: "'a list \<Rightarrow> 'a list" where
  "distinctFirst xs = rev (remdups (rev xs))"

text \<open>\<open>savedAssets[0]?.folderId ? [f savedAssets[0]] : []\<close>\<close>

definition firstFolder :: "jsval list \<Rightarrow> (jsval \<Rightarrow> jsval) \<Rightarrow> jsval" where
  "firstFolder savedAssets f =
     (case savedAssets of
        [] \<Rightarrow> JArr []
      | a # _ \<Rightarrow> if truthy (optProp a (ustr ''folderId'')) then JArr [f a] else JArr [])"

definition scriptMetadata :: "services \<Rightarrow> jsval \<Rightarrow> jsval list \<Rightarrow> jsval" where
  "scriptMetadata sv model savedAssets = JObj
     [ (ustr ''model'', model),
       (ustr ''timestamp'', JStr (iso_time sv)),
       (ustr ''totalAssets'', JNum (int (length savedAssets))),
       (ustr ''assetTypes'',
          JArr (distinctFirst (map (\<lambda>asset. optProp asset (ustr ''type'')) savedAssets))),
       (ustr ''folderUrls'',
          firstFolder savedAssets (\<lambda>a. optProp a (ustr ''folderUrl''))) ]"

definition scriptFailed :: "error \<Rightarrow> http_response" where
  "scriptFailed e = respond 500
     [ (ustr ''ok'', JBool False),
       (ustr ''error'', JStr (messageOf e)),
       (ustr ''message'', JStr (ustr ''Failed to generate script'')) ]"

definition MISSING_FIELDS :: http_response where
  "MISSING_FIELDS = respond 400
     [ (ustr ''ok'', JBool False),
       (ustr ''error'', JStr (ustr ''Missing required fields'')),
       (ustr ''message'', JStr (ustr
          ''Please provide sessionId, campaignGoals, and targetAudience'')) ]"

definition NO_RESEARCH :: http_response where
  "NO_RESEARCH = respond 400
     [ (ustr ''ok'', JBool False),
       (ustr ''error'', JStr (ustr ''No research found'')),
       (ustr ''message'', JStr (ustr ''Please generate research first'')) ]"

text \<open>
  \<open>POST /generate/script\<close> once the stored research has been found: script, media prompts,
  assets, upload, response.
\<close>

definition scriptPipeline ::
  "services \<Rightarrow> jsval \<Rightarrow> jsval \<Rightarrow> jsval \<Rightarrow> app \<Rightarrow> http_response \<times> app"
where
  "scriptPipeline sv reqBody sessionId research st =
     (let model = defaultArg (optProp reqBody (ustr ''model'')) GEMINI_FLASH;
          inputs = JObj
            [ (ustr ''brandInfo'', optProp research (ustr ''brandInfo'')),
              (ustr ''research'', optProp research (ustr ''research'')),
              (ustr ''campaignGoals'', optProp reqBody (ustr ''campaignGoals'')),
              (ustr ''targetAudience'', optProp reqBody (ustr ''targetAudience'')),
              (ustr ''creativeDirection'', optProp reqBody (ustr ''creativeDirection'')),
              (ustr ''model'', model) ]
      in case generateScript sv inputs st of
           (Inl e, st1) \<Rightarrow> (scriptFailed e, st1)
         | (Inr script, st1) \<Rightarrow>
             if \<not> truthy script
             then (respond 500
                     [ (ustr ''ok'', JBool False),
                       (ustr ''error'', JStr (ustr ''Failed to generate script'')),
                       (ustr ''message'', JStr (ustr ''Please try again'')) ], st1)
             else
               (case generateMediaPrompts (iso_time sv) script model sessionId
                       (promptHistory st1) of
                  (mediaPrompts, history) \<Rightarrow>
                    (let st2 = st1\<lparr> promptHistory := history \<rparr>
                     in if \<not> truthy (optProp mediaPrompts (ustr ''ok''))
                        then (respond 500
                                [ (ustr ''ok'', JBool False),
                                  (ustr ''error'', JStr (ustr ''Failed to generate media prompts'')),
                                  (ustr ''message'', JStr (ustr ''Please try again'')) ], st2)
                        else
                          (case assetStage sv
                                  (optProp mediaPrompts (ustr ''mediaPrompts'')) st2 of
                             (assets, st3) \<Rightarrow>
                               (case saveAssetsToDrive sv assets
                                       (optProp (optProp research (ustr ''brandInfo''))
                                          (ustr ''name''))
                                       sessionId of
                                  Inl e \<Rightarrow> (scriptFailed e, st3)
                                | Inr savedAssets \<Rightarrow>
                                    (respond 200
                                       [ (ustr ''ok'', JBool True),
                                         (ustr ''message'', JStr (ustr
                                            ''Script, media prompts, and assets generated successfully'')),
                                         (ustr ''script'', script),
                                         (ustr ''mediaPrompts'',
                                            optProp mediaPrompts (ustr ''mediaPrompts'')),
                                         (ustr ''assets'', JArr savedAssets),
                                         (ustr ''folders'', firstFolder savedAssets
                                            (\<lambda>a. JObj
                                               [ (ustr ''id'', optProp a (ustr ''folderId'')),
                                                 (ustr ''name'', optProp a (ustr ''folderName'')),
                                                 (ustr ''url'', optProp a (ustr ''folderUrl'')) ])),
                                         (ustr ''metadata'',
                                            scriptMetadata sv model savedAssets) ],
                                     st3\<lparr> latestScriptData := JObj
                                            [ (ustr ''script'', script),
                                              (ustr ''mediaPrompts'',
                                                 optProp mediaPrompts (ustr ''mediaPrompts'')),
                                              (ustr ''timestamp'', JStr (iso_time sv)) ] \<rparr>))))))"

text \<open>
  \<open>POST /generate/script\<close>. The fields of the request are taken from \<open>req.body\<close> by
  destructuring, which throws when the body is \<open>null\<close> or \<open>undefined\<close>.
\<close>

definition scriptHandler :: "services \<Rightarrow> jsval \<Rightarrow> app \<Rightarrow> http_response \<times> app" where
  "scriptHandler sv reqBody st =
     (case getProp reqBody (ustr ''sessionId'') of
        Inl e \<Rightarrow>
          (scriptFailed (TypeError (cannotDestructure reqBody (ustr ''sessionId'') ''req.body'')),
           st)
      | Inr sessionId \<Rightarrow>
          if \<not> truthy sessionId \<or> \<not> truthy (optProp reqBody (ustr ''campaignGoals'')) \<or>
             \<not> truthy (optProp reqBody (ustr ''targetAudience''))
          then (MISSING_FIELDS, st)
          else
            (case storeGet (researchStore st) sessionId of
               None \<Rightarrow> (NO_RESEARCH, st)
             | Some research \<Rightarrow>
                 if \<not> truthy research then (NO_RESEARCH, st)
                 else scriptPipeline sv reqBody sessionId research st))"

text \<open>
  What one run of the script endpoint asked of the generators, and what its answer says about
  it: the requests made, two images and one video at most; and for an answer with status 200,
  the prompts these requests were made from, the saved assets and the metadata.
\<close>

definition assetReport :: "services \<Rightarrow> jsval \<Rightarrow> app \<Rightarrow> http_response \<Rightarrow> app \<Rightarrow> bool" where
  "assetReport sv reqBody st response st' \<longleftrightarrow>
     (\<exists>imageRequests videoRequests.
        imageCalls st' = imageCalls st @ imageRequests \<and> length imageRequests \<le> 2 \<and>
        videoCalls st' = videoCalls st @ videoRequests \<and> length videoRequests \<le> 1 \<and>
        (http_status response = 200 \<longrightarrow>
           imageRequests =
             map (imageParams (optProp (optProp (http_body response) (ustr ''mediaPrompts''))
                                 (ustr ''craftGuidelines'')))
               (take 2 (arrayItems (promptsOf (http_body response) (ustr ''images'')))) \<and>
           videoRequests =
             map (videoParams (optProp (optProp (http_body response) (ustr ''mediaPrompts''))
                                 (ustr ''craftGuidelines'')))
               (take 1 (arrayItems (promptsOf (http_body response) (ustr ''animations'')))) \<and>
           (\<exists>savedAssets.
              optProp (http_body response) (ustr ''assets'') = JArr savedAssets \<and>
              length savedAssets \<le> length imageRequests + length videoRequests \<and>
              optProp (http_body response) (ustr ''metadata'') = JObj
                [ (ustr ''model'', defaultArg (optProp reqBody (ustr ''model'')) GEMINI_FLASH),
                  (ustr ''timestamp'', JStr (iso_time sv)),
                  (ustr ''totalAssets'', JNum (int (length savedAssets))),
                  (ustr ''assetTypes'',
                     JArr (distinctFirst
                             (map (\<lambda>asset. optProp asset (ustr ''type'')) savedAssets))),
                  (ustr ''folderUrls'',
                     firstFolder savedAssets (\<lambda>a. optProp a (ustr ''folderUrl''))) ])))"

section \<open>A brand, its requests and the services around them\<close>

text \<open>Scripts: one with two visual elements, one whose only section is \<open>null\<close>.\<close>

definition demoScript :: jsval where
  "demoScript = JObj
     [ (ustr ''sections'', JArr
          [ JObj [ (ustr ''sectionTitle'', JStr (ustr ''Opening'')),
                   (ustr ''visualElements'', JArr
                      [ JStr (ustr ''Team photo''), JStr (ustr ''Logo Animation'') ]) ] ]) ]"

definition nullSectionScript :: jsval where
  "nullSectionScript = JObj [(ustr ''sections'', JArr [JNull])]"

text \<open>A script whose \<open>visualElements\<close> is one string, not an array of strings.\<close>

definition stringElementsScript :: jsval where
  "stringElementsScript = JObj
     [ (ustr ''sections'', JArr
          [ JObj [ (ustr ''visualElements'', JStr (ustr ''A hero image'')) ] ]) ]"

text \<open>The brand Acme, a research request for it, and a script request for a session.\<close>

definition acmeInfo :: "(jsstring \<times> jsval) list" where
  "acmeInfo = [ (ustr ''name'', JStr (ustr ''Acme'')),
                (ustr ''description'', JStr (ustr ''Anvils'')),
                (ustr ''values'', JArr [JStr (ustr ''A''), JStr (ustr ''B'')]) ]"

definition researchBody0 :: jsval where
  "researchBody0 = JObj [(ustr ''brandInfo'', JObj acmeInfo)]"

definition scriptBody0 :: "jsstring \<Rightarrow> jsval" where
  "scriptBody0 key = JObj
     [ (ustr ''sessionId'', JStr key),
       (ustr ''campaignGoals'', JStr (ustr ''goals'')),
       (ustr ''targetAudience'', JStr (ustr ''audience'')) ]"

text \<open>A script with five visual elements, none of which mentions motion.\<close>

definition script5 :: jsval where
  "script5 = JObj
     [ (ustr ''sections'', JArr
          [ JObj [ (ustr ''sectionTitle'', JStr (ustr ''Opening'')),
                   (ustr ''visualElements'', JArr
                      [ JStr (ustr ''office''), JStr (ustr ''chart''), JStr (ustr ''team''),
                        JStr (ustr ''product''), JStr (ustr ''logo'') ]) ] ]),
       (ustr ''transitions'', JArr []) ]"

text \<open>The five image prompts made from it, and the media prompts they are part of.\<close>

definition plain5 :: "jsval list" where
  "plain5 = map (imagePrompt (JObj
                   [ (ustr ''sectionTitle'', JStr (ustr ''Opening'')),
                     (ustr ''visualElements'', JArr
                        [ JStr (ustr ''office''), JStr (ustr ''chart''), JStr (ustr ''team''),
                          JStr (ustr ''product''), JStr (ustr ''logo'') ]) ]))
      [ustr ''office'', ustr ''chart'', ustr ''team'', ustr ''product'', ustr ''logo'']"

definition mediaPrompts5 :: jsval where
  "mediaPrompts5 = JObj
     [ (ustr ''visualPrompts'', JObj
          [ (ustr ''images'', JArr plain5),
            (ustr ''animations'', JArr [FALLBACK_ANIMATION]) ]),
       (ustr ''craftGuidelines'', craftGuidelines script5) ]"

text \<open>The answer of the text model that carries one text.\<close>

definition geminiAnswer :: "jsstring \<Rightarrow> jsval" where
  "geminiAnswer text = JObj
     [ (ustr ''candidates'', JArr
          [ JObj [ (ustr ''content'', JObj
                     [ (ustr ''parts'', JArr [ JObj [ (ustr ''text'', JStr text) ] ]) ]) ] ]) ]"

text \<open>
  Services that all succeed: the text model answers the research prompt with prose and the
  script prompt with a text that parses to the script above.
\<close>

definition servicesOk :: services where
  "servicesOk = \<lparr>
     json_parse = (\<lambda>s. if s = ustr ''SCRIPT'' then Inr script5 else Inl (unexpected s)),
     gemini_post = (\<lambda>brandInfo k. Inr (geminiAnswer (ustr ''Acme sells anvils.''))),
     gemini_fetch = (\<lambda>inputs k.
        Inr \<lparr> resp_ok = True, resp_status = 200,
              resp_json = Inr (geminiAnswer (ustr ''SCRIPT'')) \<rparr>),
     gen_image = (\<lambda>params k. Inr (JObj [(ustr ''url'', JStr (ustr ''image-url''))])),
     gen_video = (\<lambda>params k. Inr (JObj [(ustr ''url'', JStr (ustr ''video-url''))])),
     drive_folder = (\<lambda>brand sessionId. Inr (JObj
        [ (ustr ''id'', JStr (ustr ''F'')), (ustr ''url'', JStr (ustr ''folder-url'')),
          (ustr ''name'', JStr (ustr ''Acme_t'')) ])),
     drive_upload = (\<lambda>asset k. Inr (JObj
        [ (ustr ''id'', JStr (ustr ''f'')), (ustr ''webViewLink'', JStr (ustr ''file-url'')),
          (ustr ''name'', JStr (ustr ''n'')) ])),
     iso_time = ustr ''t'' \<rparr>"

text \<open>The state of a fresh process, and a state in which research for Acme is stored.\<close>

definition appFresh :: app where
  "appFresh = \<lparr> researchStore = Map.empty, latestScriptData = JNull, scriptHistory = Map.empty,
           promptHistory = Map.empty, textCalls = [], imageCalls = [], videoCalls = [] \<rparr>"

definition acmeEntry :: jsval where
  "acmeEntry = JObj
     [ (ustr ''research'', placeholderResearch (JStr (ustr ''Acme sells anvils.''))),
       (ustr ''brandInfo'', JObj acmeInfo),
       (ustr ''timestamp'', JStr (ustr ''t'')) ]"

definition appWithAcme :: app where
  "appWithAcme = appFresh\<lparr> researchStore := [JStr (ustr ''Acme'') \<mapsto> acmeEntry] \<rparr>"

section \<open>Properties\<close>

subsection \<open>Strings\<close>

lemma trim_id:
  assumes "s \<noteq> []" "\<not> isWhiteSpace (hd s)" "\<not> isWhiteSpace (last s)"
  shows "trim s = s"
proof -
  have "dropWhile isWhiteSpace s = s"
    using assms by (cases s) auto
  moreover have "dropWhile isWhiteSpace (rev s) = rev s"
    using assms by (cases "rev s") (auto simp: hd_rev)
  ultimately show ?thesis by (simp add: trim_def)
qed

text \<open>
  A line feed followed by three backticks cannot begin inside \<open>t\<close> and end in the closing
  fence that follows \<open>t\<close>: the closing fence starts with a line feed, not with a backtick.
\<close>

lemma closing_no_overlap:
  assumes "\<not> startsWith (LF # FENCE) t" "t \<noteq> []"
  shows "\<not> startsWith (LF # FENCE) (t @ LF # FENCE @ r)"
proof (cases t)
  case Nil
  then show ?thesis using assms by simp
next
  case t1: (Cons a t1)
  show ?thesis
  proof (cases t1)
    case Nil
    then show ?thesis using t1 by (simp add: FENCE_def BACKTICK_def LF_def)
  next
    case t2: (Cons b t2)
    show ?thesis
    proof (cases t2)
      case Nil
      then show ?thesis using t1 t2 by (simp add: FENCE_def BACKTICK_def LF_def)
    next
      case t3: (Cons c t3)
      show ?thesis
      proof (cases t3)
        case Nil
        then show ?thesis using t1 t2 t3 by (simp add: FENCE_def BACKTICK_def LF_def)
      next
        case (Cons d t4)
        then show ?thesis using t1 t2 t3 assms by (simp add: FENCE_def)
      qed
    qed
  qed
qed

lemma findSub_closing:
  "findSub (LF # FENCE) t = None \<Longrightarrow>
     findSub (LF # FENCE) (t @ LF # FENCE @ r) = Some (length t)"
proof (induction t)
  case Nil
  then show ?case by (simp add: FENCE_def)
next
  case (Cons c cs)
  from Cons.prems have no: "\<not> startsWith (LF # FENCE) (c # cs)"
    and rest: "findSub (LF # FENCE) cs = None"
    by (auto split: if_splits)
  have "\<not> startsWith (LF # FENCE) ((c # cs) @ LF # FENCE @ r)"
    using closing_no_overlap [OF no] by simp
  then show ?case using Cons.IH [OF rest] by simp
qed

lemma findSub_absent: "c \<notin> set t \<Longrightarrow> findSub (c # p) t = None"
  by (induction t) auto

text \<open>
  Before the first fence of a text the regular expression finds no opening: where fewer than
  three code units are left before the fence, the fourth code unit from there is a backtick
  of the fence, not a line feed and not the \<open>j\<close> of the tag.
\<close>

lemma headerAt_before_fence:
  assumes "\<not> startsWith FENCE (c # cs)"
  shows "headerAt (c # cs @ FENCE @ rest) = None"
proof (cases cs)
  case Nil
  then show ?thesis
    by (simp add: headerAt_def FENCE_JSON_def FENCE_def ustr_def BACKTICK_def LF_def)
next
  case c2: (Cons b cs2)
  show ?thesis
  proof (cases cs2)
    case Nil
    then show ?thesis
      using c2 by (simp add: headerAt_def FENCE_JSON_def FENCE_def ustr_def BACKTICK_def LF_def)
  next
    case (Cons d cs3)
    then show ?thesis
      using c2 assms by (auto simp: headerAt_def FENCE_JSON_def FENCE_def)
  qed
qed

lemma matchCodeBlock_skip:
  "findSub FENCE pre = None \<Longrightarrow>
     matchCodeBlock (pre @ FENCE @ rest) = matchCodeBlock (FENCE @ rest)"
proof (induction pre)
  case Nil
  then show ?case by simp
next
  case (Cons c cs)
  from Cons.prems have no: "\<not> startsWith FENCE (c # cs)" and tl: "findSub FENCE cs = None"
    by (auto split: if_splits)
  have "headerAt (c # cs @ FENCE @ rest) = None"
    using no by (rule headerAt_before_fence)
  then show ?case using Cons.IH [OF tl] by simp
qed

text \<open>
  The regular expression finds the first fenced block and captures all of its lines: the
  text up to the first line feed that three backticks follow.
\<close>

lemma matchCodeBlock_fenced:
  assumes "findSub (LF # FENCE) t = None" "findSub FENCE pre = None"
  shows "matchCodeBlock (pre @ FENCE_JSON @ [LF] @ t @ LF # FENCE @ post) = Some t"
    and "matchCodeBlock (pre @ FENCE @ [LF] @ t @ LF # FENCE @ post) = Some t"
proof -
  have closing: "findSub (LF # FENCE) (t @ LF # FENCE @ post) = Some (length t)"
    using findSub_closing [OF assms(1)] .
  have h8: "headerAt (FENCE_JSON @ [LF] @ t @ LF # FENCE @ post) = Some 8"
    by (simp add: headerAt_def FENCE_JSON_def FENCE_def ustr_def)
  have d8: "drop 8 (FENCE_JSON @ [LF] @ t @ LF # FENCE @ post) = t @ LF # FENCE @ post"
    by (simp add: FENCE_JSON_def FENCE_def ustr_def)
  have c8: "FENCE_JSON @ [LF] @ t @ LF # FENCE @ post =
      BACKTICK # tl (FENCE_JSON @ [LF] @ t @ LF # FENCE @ post)"
    by (simp add: FENCE_JSON_def FENCE_def)
  have "matchCodeBlock (FENCE_JSON @ [LF] @ t @ LF # FENCE @ post) = Some t"
    using h8 d8 c8 closing
    by (metis (no_types, lifting) matchCodeBlock.simps(2) option.simps(5) append_eq_conv_conj)
  then show "matchCodeBlock (pre @ FENCE_JSON @ [LF] @ t @ LF # FENCE @ post) = Some t"
    using matchCodeBlock_skip [OF assms(2), of "ustr ''json'' @ [LF] @ t @ LF # FENCE @ post"]
    by (simp add: FENCE_JSON_def)
  have h4: "headerAt (FENCE @ [LF] @ t @ LF # FENCE @ post) = Some 4"
    by (simp add: headerAt_def FENCE_JSON_def FENCE_def ustr_def LF_def)
  have d4: "drop 4 (FENCE @ [LF] @ t @ LF # FENCE @ post) = t @ LF # FENCE @ post"
    by (simp add: FENCE_def)
  have c4: "FENCE @ [LF] @ t @ LF # FENCE @ post =
      BACKTICK # tl (FENCE @ [LF] @ t @ LF # FENCE @ post)"
    by (simp add: FENCE_def)
  have "matchCodeBlock (FENCE @ [LF] @ t @ LF # FENCE @ post) = Some t"
    using h4 d4 c4 closing
    by (metis (no_types, lifting) matchCodeBlock.simps(2) option.simps(5) append_eq_conv_conj)
  then show "matchCodeBlock (pre @ FENCE @ [LF] @ t @ LF # FENCE @ post) = Some t"
    using matchCodeBlock_skip [OF assms(2), of "[LF] @ t @ LF # FENCE @ post"] by simp
qed

subsection \<open>JSON texts have no line feed and no white space at their ends\<close>

lemma digit_plain: "n < 10 \<Longrightarrow> plainUnit (0x30 + of_nat n)"
proof -
  assume "n < 10"
  then have "n \<in> set [0..<10]" by simp
  then show ?thesis by (simp add: upt_rec plainUnit_def LF_def isWhiteSpace_def) auto
qed

lemma hexDigit_plain: "n < 16 \<Longrightarrow> plainUnit (hexDigit n)"
proof -
  assume "n < 16"
  then have "n \<in> set [0..<16]" by simp
  then show ?thesis
    by (simp add: upt_rec hexDigit_def plainUnit_def LF_def isWhiteSpace_def) auto
qed

lemma unicodeEscape_plain: "x \<in> set (unicodeEscape c) \<Longrightarrow> plainUnit x"
proof -
  assume x: "x \<in> set (unicodeEscape c)"
  have "unat c < 65536" using unsigned_less [of c, where ?'a = nat] by simp
  then have "unat c div 4096 < 16" by simp
  moreover have "plainUnit 0x5C" "plainUnit 0x75"
    by (simp_all add: plainUnit_def LF_def isWhiteSpace_def)
  ultimately show ?thesis
    using x by (auto simp: unicodeEscape_def hexDigit_plain)
qed

lemma quoteUnit_noLF: "x \<in> set (quoteUnit c) \<Longrightarrow> x \<noteq> LF"
proof (cases "c < 0x20 \<or> isLowSurrogate c")
  case True
  assume "x \<in> set (quoteUnit c)"
  then have "x \<in> set (unicodeEscape c) \<or> x \<in> {0x5C, 0x62, 0x74, 0x6E, 0x66, 0x72, 0x22}"
    using True by (auto simp: quoteUnit_def split: if_splits)
  then show ?thesis
    using unicodeEscape_plain [of x c] by (auto simp: plainUnit_def LF_def)
next
  case False
  assume "x \<in> set (quoteUnit c)"
  then have "x = c \<or> x \<in> {0x5C, 0x62, 0x74, 0x6E, 0x66, 0x72, 0x22}"
    using False by (auto simp: quoteUnit_def split: if_splits)
  moreover have "c \<noteq> LF" using False by (auto simp: LF_def)
  ultimately show ?thesis by (auto simp: LF_def)
qed

lemma quoteUnits_noLF: "x \<in> set (quoteUnits s) \<Longrightarrow> x \<noteq> LF"
proof (induction s arbitrary: x rule: quoteUnits.induct)
  case 1
  then show ?case by simp
next
  case (2 c)
  then show ?case
    using unicodeEscape_plain [of x c] quoteUnit_noLF [of x c]
    by (auto simp: plainUnit_def split: if_splits)
next
  case (3 c d cs)
  have hs: "isHighSurrogate c \<Longrightarrow> c \<noteq> LF" and ls: "isLowSurrogate d \<Longrightarrow> d \<noteq> LF"
    by (auto simp: isHighSurrogate_def isLowSurrogate_def LF_def)
  show ?case
  proof (cases "isHighSurrogate c")
    case True
    then show ?thesis
      using 3 hs ls unicodeEscape_plain [of x c]
      by (cases "isLowSurrogate d") (auto simp: plainUnit_def)
  next
    case False
    then show ?thesis
      using 3 quoteUnit_noLF [of x c] by auto
  qed
qed

lemma quoteJSONString_noLF: "x \<in> set (quoteJSONString s) \<Longrightarrow> x \<noteq> LF"
  using quoteUnits_noLF [of x s] by (auto simp: quoteJSONString_def LF_def)

lemma decimalDigits_plain: "x \<in> set (decimalDigits n) \<Longrightarrow> plainUnit x"
proof (induction n arbitrary: x rule: decimalDigits.induct)
  case (1 n)
  show ?case
  proof (cases "n < 10")
    case True
    then show ?thesis using 1(2) digit_plain [of n] by (simp add: decimalDigits.simps [of n])
  next
    case False
    then have "x \<in> set (decimalDigits (n div 10)) \<or> x = 0x30 + of_nat (n mod 10)"
      using 1(2) by (auto simp: decimalDigits.simps [of n])
    then show ?thesis
      using 1(1) [OF False] digit_plain [of "n mod 10"] by auto
  qed
qed

lemma decimalDigits_nonempty: "decimalDigits n \<noteq> []"
  by (simp add: decimalDigits.simps [of n])

lemma numberText_plain: "x \<in> set (numberText n) \<Longrightarrow> plainUnit x"
  using decimalDigits_plain [of x]
  by (auto simp: numberText_def plainUnit_def LF_def isWhiteSpace_def split: if_splits)

lemma numberText_nonempty: "numberText n \<noteq> []"
  by (simp add: numberText_def decimalDigits_nonempty)

lemma joinComma_units: "x \<in> set (joinComma ss) \<Longrightarrow> x = 0x2C \<or> (\<exists>s \<in> set ss. x \<in> set s)"
  by (induction ss rule: joinComma.induct) auto

lemma jsonText_noLF: "x \<in> set (jsonText v) \<Longrightarrow> x \<noteq> LF"
proof (induction v arbitrary: x rule: jsonText.induct)
  case (6 xs)
  from 6(2) have "x = 0x5B \<or> x = 0x5D \<or> x \<in> set (joinComma (map jsonText xs))" by auto
  then consider "x = 0x5B \<or> x = 0x5D \<or> x = 0x2C"
    | y where "y \<in> set xs" "x \<in> set (jsonText y)"
    using joinComma_units [of x "map jsonText xs"] by auto
  then show ?case
  proof cases
    case 1
    then show ?thesis by (auto simp: LF_def)
  next
    case 2
    then show ?thesis using 6(1) [of y x] by simp
  qed
next
  case (7 kvs)
  let ?members = "map (\<lambda>kv. quoteJSONString (fst kv) @ 0x3A # jsonText (snd kv))
                      (filter (\<lambda>kv. snd kv \<noteq> JUndefined) kvs)"
  from 7(2) have "x = 0x7B \<or> x = 0x7D \<or> x \<in> set (joinComma ?members)" by auto
  then consider "x = 0x7B \<or> x = 0x7D \<or> x = 0x2C"
    | kv where "kv \<in> set kvs" "snd kv \<noteq> JUndefined"
        "x \<in> set (quoteJSONString (fst kv) @ 0x3A # jsonText (snd kv))"
    using joinComma_units [of x ?members] by auto
  then show ?case
  proof cases
    case 1
    then show ?thesis by (auto simp: LF_def)
  next
    case 2
    then show ?thesis
      using 7(1) [of kv x] quoteJSONString_noLF [of x "fst kv"] by (auto simp: LF_def)
  qed
qed (auto simp: ustr_def LF_def plainUnit_def split: if_splits
      dest: numberText_plain quoteJSONString_noLF)

lemma jsonText_ends:
  "jsonText v \<noteq> [] \<and> \<not> isWhiteSpace (hd (jsonText v)) \<and> \<not> isWhiteSpace (last (jsonText v))"
proof (cases v)
  case (JNum n)
  have "hd (numberText n) \<in> set (numberText n)" "last (numberText n) \<in> set (numberText n)"
    using numberText_nonempty by simp_all
  then have "plainUnit (hd (numberText n))" "plainUnit (last (numberText n))"
    by (simp_all add: numberText_plain)
  then show ?thesis
    using JNum numberText_nonempty [of n] by (simp add: plainUnit_def)
qed (simp_all add: ustr_def isWhiteSpace_def quoteJSONString_def)

subsection \<open>Research parsing\<close>

text \<open>
  C1. When \<open>JSON.parse\<close> rejects both the (trimmed) contents of the fenced block, or the whole
  text when there is no such block, and the (trimmed) text without its fence markers, the
  research parser does not throw: it returns an object that has each of the five required
  sections and whose \<open>rawResponse\<close> is the text of the response, unchanged.
\<close>

theorem research_non_json_placeholder:
  assumes "parse (trim (case matchCodeBlock researchText of
                          Some block \<Rightarrow> block
                        | None \<Rightarrow> researchText)) = Inl parseError"
      and "parse (trim (stripFences researchText)) = Inl secondError"
  shows "\<exists>research. parseResearch parse researchText = Inr research \<and>
           (\<forall>k \<in> set REQUIRED_SECTIONS. hasKey research k) \<and>
           getProp research (ustr ''rawResponse'') = Inr (JStr researchText)"
  using assms
  by (simp add: parseResearch_def parseCodeBlock_def parseCleaned_def jsonParse_def tryCatch_def
      placeholderResearch_def REQUIRED_SECTIONS_def hasKey_def getProp_def lookupProp_def ustr_def)

theorem research_non_json_placeholder_witness:
  "parseNothing (trim (case matchCodeBlock (ustr ''Acme is a brand.'') of
                         Some block \<Rightarrow> block
                       | None \<Rightarrow> ustr ''Acme is a brand.'')) =
     Inl (ustr ''Unexpected token '' @ quoted (ustr ''A'')) \<and>
   parseNothing (trim (stripFences (ustr ''Acme is a brand.''))) =
     Inl (ustr ''Unexpected token '' @ quoted (ustr ''A'')) \<and>
   (\<exists>research. parseResearch parseNothing (ustr ''Acme is a brand.'') = Inr research \<and>
      (\<forall>k \<in> set REQUIRED_SECTIONS. hasKey research k) \<and>
      getProp research (ustr ''rawResponse'') = Inr (JStr (ustr ''Acme is a brand.'')))"
proof -
  have first: "parseNothing (trim (case matchCodeBlock (ustr ''Acme is a brand.'') of
                         Some block \<Rightarrow> block
                       | None \<Rightarrow> ustr ''Acme is a brand.'')) =
     Inl (ustr ''Unexpected token '' @ quoted (ustr ''A''))"
    by (simp add: parseNothing_def unexpected_def trim_def headerAt_def isWhiteSpace_def
        FENCE_def FENCE_JSON_def BACKTICK_def LF_def ustr_def)
  have second: "parseNothing (trim (stripFences (ustr ''Acme is a brand.''))) =
     Inl (ustr ''Unexpected token '' @ quoted (ustr ''A''))"
    by (simp add: parseNothing_def unexpected_def trim_def stripFences_def removeMarker.simps
        isWhiteSpace_def FENCE_def FENCE_JSON_def BACKTICK_def LF_def dropLF_def ustr_def)
  show ?thesis
    using first second research_non_json_placeholder [OF first second] by simp
qed

text \<open>
  C5. Take a response that holds a fenced block: an opening fence, tagged \<open>json\<close> or not, at
  the end of its line, then the lines of a text \<open>t\<close>, then a closing fence at the start of a
  line; before the block there may be anything without three backticks in a row, after it
  anything at all. When \<open>JSON.parse\<close> reads the value \<open>v\<close> from \<open>t\<close> without the white space
  around it, the research parser returns exactly \<open>v\<close>. The text \<open>t\<close> may have one line or
  many; what is asked of it is that it nowhere has a line feed followed by three backticks,
  and no JSON text has (there a line feed stands only between two tokens and a backtick only
  inside a string).
\<close>

theorem fenced_json_roundtrip:
  assumes "parse (trim t) = Inr v"
      and "\<not> includesStr t (LF # FENCE)"
      and "\<not> includesStr before FENCE"
  shows "parseResearch parse (before @ FENCE_JSON @ [LF] @ t @ LF # FENCE @ after) = Inr v \<and>
         parseResearch parse (before @ FENCE @ [LF] @ t @ LF # FENCE @ after) = Inr v"
proof -
  have lines: "findSub (LF # FENCE) t = None"
    using assms(2) by (simp add: includesStr_def)
  have prose: "findSub FENCE before = None"
    using assms(3) by (simp add: includesStr_def)
  have "matchCodeBlock (before @ FENCE_JSON @ [LF] @ t @ LF # FENCE @ after) = Some t"
    and "matchCodeBlock (before @ FENCE @ [LF] @ t @ LF # FENCE @ after) = Some t"
    by (rule matchCodeBlock_fenced [OF lines prose])+
  then show ?thesis
    using assms(1) by (simp add: parseResearch_def parseCodeBlock_def jsonParse_def tryCatch_def)
qed

theorem fenced_json_roundtrip_witness:
  "parseIndented (trim (LF # indentedText @ [LF])) = Inr (JObj [(ustr ''a'', JNum 1)]) \<and>
   \<not> includesStr (LF # indentedText @ [LF]) (LF # FENCE) \<and>
   \<not> includesStr
       (ustr ''Research as '' @ BACKTICK # ustr ''JSON'' @ BACKTICK # ustr '':'' @ [LF])
       FENCE \<and>
   parseResearch parseIndented
     ((ustr ''Research as '' @ BACKTICK # ustr ''JSON'' @ BACKTICK # ustr '':'' @ [LF]) @
      FENCE_JSON @ [LF] @ (LF # indentedText @ [LF]) @
      LF # FENCE @ (LF # ustr ''Done.'')) = Inr (JObj [(ustr ''a'', JNum 1)]) \<and>
   parseResearch parseIndented
     ((ustr ''Research as '' @ BACKTICK # ustr ''JSON'' @ BACKTICK # ustr '':'' @ [LF]) @
      FENCE @ [LF] @ (LF # indentedText @ [LF]) @
      LF # FENCE @ (LF # ustr ''Done.'')) = Inr (JObj [(ustr ''a'', JNum 1)])"
proof -
  have reads: "parseIndented (trim (LF # indentedText @ [LF])) = Inr (JObj [(ustr ''a'', JNum 1)])"
    by (simp add: parseIndented_def trim_def indentedText_def ustr_def isWhiteSpace_def LF_def)
  have lines: "\<not> includesStr (LF # indentedText @ [LF]) (LF # FENCE)"
    by (simp add: includesStr_def indentedText_def ustr_def FENCE_def LF_def BACKTICK_def)
  have prose: "\<not> includesStr
      (ustr ''Research as '' @ BACKTICK # ustr ''JSON'' @ BACKTICK # ustr '':'' @ [LF]) FENCE"
    by (simp add: includesStr_def FENCE_def ustr_def LF_def BACKTICK_def)
  show ?thesis
    using reads lines prose
      fenced_json_roundtrip
        [of parseIndented "LF # indentedText @ [LF]" "JObj [(ustr ''a'', JNum 1)]"
            "ustr ''Research as '' @ BACKTICK # ustr ''JSON'' @ BACKTICK # ustr '':'' @ [LF]"
            "LF # ustr ''Done.''"]
    by simp
qed

text \<open>
  The text that \<open>JSON.stringify(v)\<close> writes, on one line, is such a text: a response made of
  it inside a fenced block is read back as \<open>v\<close>.
\<close>

lemma fenced_compact_roundtrip:
  assumes "parse (jsonText v) = Inr v"
  shows "parseResearch parse (FENCE_JSON @ [LF] @ jsonText v @ LF # FENCE) = Inr v \<and>
         parseResearch parse (FENCE @ [LF] @ jsonText v @ LF # FENCE) = Inr v"
proof -
  have "LF \<notin> set (jsonText v)"
    using jsonText_noLF by blast
  then have lines: "findSub (LF # FENCE) (jsonText v) = None"
    by (rule findSub_absent)
  have prose: "findSub FENCE [] = None"
    by (simp add: FENCE_def)
  have "matchCodeBlock ([] @ FENCE_JSON @ [LF] @ jsonText v @ LF # FENCE @ []) =
      Some (jsonText v)"
    and "matchCodeBlock ([] @ FENCE @ [LF] @ jsonText v @ LF # FENCE @ []) = Some (jsonText v)"
    by (rule matchCodeBlock_fenced [OF lines prose])+
  moreover have "trim (jsonText v) = jsonText v"
    using jsonText_ends [of v] by (simp add: trim_id)
  ultimately show ?thesis
    using assms by (simp add: parseResearch_def parseCodeBlock_def jsonParse_def tryCatch_def)
qed

subsection \<open>Status polling\<close>

lemma pollLoop_pending_step:
  assumes "pendingReply (status_get p u (length (statusChecks w)))" "now w - s < t"
  shows "pollLoop p u i t s w =
           pollLoop p u i t s (afterSleep p i (length (statusChecks w)) (afterGet p u w))"
  using assms
  by (subst pollLoop.simps) (auto simp: pendingReply_def split: sum.splits)


lemma pollLoop_expired:
  "t \<le> now w - s \<Longrightarrow> pollLoop p u i t s w = Some (Inl TIMED_OUT, w)"
  by (subst pollLoop.simps) simp

text \<open>
  Against a source that is always pending, and when every round of the loop takes some time,
  the loop ends with the timeout error; every check was issued before the timeout had
  elapsed, and the error is raised when it has.
\<close>

lemma pollLoop_pending:
  assumes pend: "\<forall>k. pendingReply (status_get p u k)"
      and prog: "\<forall>k. 0 < get_latency p k + i + timer_lag p k"
      and start: "s \<le> now w"
  shows "\<exists>w' new. pollLoop p u i t s w = Some (Inl TIMED_OUT, w') \<and> t \<le> now w' - s \<and>
           statusChecks w' = statusChecks w @ new \<and>
           (\<forall>c \<in> set new. snd c - s < t) \<and>
           (new = [] \<longrightarrow> w' = w) \<and>
           (new \<noteq> [] \<longrightarrow>
              now w' = snd (last new) + get_latency p (length (statusChecks w') - 1) + i +
                       timer_lag p (length (statusChecks w') - 1))"
  using start
proof (induction "t - (now w - s)" arbitrary: w rule: less_induct)
  case less
  show ?case
  proof (cases "now w - s < t")
    case False
    then show ?thesis by (simp add: pollLoop_expired)
  next
    case True
    let ?k = "length (statusChecks w)"
    let ?w1 = "afterSleep p i ?k (afterGet p u w)"
    have now1: "now ?w1 = now w + get_latency p ?k + i + timer_lag p ?k"
      by (simp add: afterSleep_def afterGet_def)
    have checks1: "statusChecks ?w1 = statusChecks w @ [(u, now w)]"
      by (simp add: afterSleep_def afterGet_def)
    have "now w < now ?w1" using prog now1
      by (metis add.assoc less_add_same_cancel1)
    then have "t - (now ?w1 - s) < t - (now w - s)" "s \<le> now ?w1"
      using True less.prems by auto
    from less.hyps [OF this]
    obtain w' new where
      r: "pollLoop p u i t s ?w1 = Some (Inl TIMED_OUT, w')" "t \<le> now w' - s"
         "statusChecks w' = statusChecks ?w1 @ new" "\<forall>c \<in> set new. snd c - s < t"
         "new = [] \<longrightarrow> w' = ?w1"
         "new \<noteq> [] \<longrightarrow>
            now w' = snd (last new) + get_latency p (length (statusChecks w') - 1) + i +
                     timer_lag p (length (statusChecks w') - 1)"
      by blast
    have run: "pollLoop p u i t s w = Some (Inl TIMED_OUT, w')"
      using pollLoop_pending_step [of p u w s t i] pend True r(1) by simp
    have all: "statusChecks w' = statusChecks w @ ((u, now w) # new)"
      using r(3) checks1 by simp
    have early: "\<forall>c \<in> set ((u, now w) # new). snd c - s < t"
      using r(4) True by simp
    have last: "now w' = snd (last ((u, now w) # new)) +
        get_latency p (length (statusChecks w') - 1) + i +
        timer_lag p (length (statusChecks w') - 1)"
    proof (cases "new = []")
      case True
      then have "w' = ?w1" using r(5) by simp
      then show ?thesis using True now1 checks1 by simp
    next
      case False
      then show ?thesis using r(6) by simp
    qed
    show ?thesis
      using run r(2) all early last by blast
  qed
qed

text \<open>
  C3. Against a status source that answers every check and never reports \<open>COMPLETED\<close> or
  \<open>FAILED\<close>, and when every round of the loop takes some time, \<open>pollStatus\<close> fails with the
  timeout error. When it does, the time elapsed since polling started is at least the
  timeout; every status check it made was issued while the elapsed time was below the
  timeout; and the error is raised at the first reading of the clock after the last of these
  checks (at once, when no check was made).
\<close>

theorem poll_never_completing_times_out:
  assumes "\<forall>k. pendingReply (status_get p statusUrl k)"
      and "\<forall>k. 0 < get_latency p k + interval + timer_lag p k"
  shows "\<exists>w' new. pollStatus p statusUrl interval timeout w = Some (Inl TIMED_OUT, w') \<and>
           timeout \<le> now w' - now w \<and>
           statusChecks w' = statusChecks w @ new \<and>
           (\<forall>c \<in> set new. snd c - now w < timeout) \<and>
           (new = [] \<longrightarrow> w' = w) \<and>
           (new \<noteq> [] \<longrightarrow>
              now w' = snd (last new) + get_latency p (length (statusChecks w') - 1) +
                       interval + timer_lag p (length (statusChecks w') - 1))"
  unfolding pollStatus_def
  using pollLoop_pending [OF assms, of "now w" w timeout] by simp

theorem poll_never_completing_times_out_witness:
  "(\<forall>k. pendingReply (status_get pPending JNull k)) \<and>
   (\<forall>k. 0 < get_latency pPending k + 20000 + timer_lag pPending k) \<and>
   (\<exists>w' new. pollStatus pPending JNull 20000 50000 worldStart = Some (Inl TIMED_OUT, w') \<and>
      50000 \<le> now w' - now worldStart \<and>
      statusChecks w' = statusChecks worldStart @ new \<and>
      (\<forall>c \<in> set new. snd c - now worldStart < 50000) \<and>
      (new = [] \<longrightarrow> w' = worldStart) \<and>
      (new \<noteq> [] \<longrightarrow>
         now w' = snd (last new) + get_latency pPending (length (statusChecks w') - 1) +
                  20000 + timer_lag pPending (length (statusChecks w') - 1)))"
  using poll_never_completing_times_out [of pPending JNull 20000 50000 worldStart]
  by (simp add: pendingReply_def pPending_def getProp_def lookupProp_def ustr_def)

text \<open>The run of the scenario above: three checks, then the timeout error at 60 s.\<close>

lemma poll_pending_run:
  "pollStatus pPending JNull 20000 50000 worldStart =
     Some (Inl TIMED_OUT,
           \<lparr> now = 60000, statusChecks = [(JNull, 0), (JNull, 20000), (JNull, 40000)],
             immediateCalls = [], queuedCalls = [] \<rparr>)"
  by (simp add: pollStatus_def pollLoop.simps worldStart_def pPending_def getProp_def lookupProp_def
      ustr_def afterGet_def afterSleep_def)



text \<open>
  When the two rounds take the timeout or longer, the loop never makes a third check: it
  fails with the timeout error after two checks at most, and the source is not asked a third
  time.
\<close>

lemma third_check_not_reached:
  assumes first: "pendingReply (status_get p statusUrl (length (statusChecks w)))"
      and second: "pendingReply (status_get p statusUrl (length (statusChecks w) + 1))"
      and late: "timeout \<le> get_latency p (length (statusChecks w)) + interval +
                      timer_lag p (length (statusChecks w)) +
                    get_latency p (length (statusChecks w) + 1) + interval +
                      timer_lag p (length (statusChecks w) + 1)"
  shows "\<exists>w' new. pollStatus p statusUrl interval timeout w = Some (Inl TIMED_OUT, w') \<and>
           statusChecks w' = statusChecks w @ new \<and> length new \<le> 2"
proof -
  let ?k = "length (statusChecks w)"
  let ?s = "now w"
  let ?w1 = "afterSleep p interval ?k (afterGet p statusUrl w)"
  let ?w2 = "afterSleep p interval (?k + 1) (afterGet p statusUrl ?w1)"
  have k1: "length (statusChecks ?w1) = ?k + 1"
    by (simp add: afterSleep_def afterGet_def)
  have c1: "statusChecks ?w1 = statusChecks w @ [(statusUrl, ?s)]"
    by (simp add: afterSleep_def afterGet_def)
  have c2: "statusChecks ?w2 = statusChecks w @ [(statusUrl, ?s), (statusUrl, now ?w1)]"
    by (simp add: afterSleep_def afterGet_def)
  have n1: "now ?w1 = ?s + get_latency p ?k + interval + timer_lag p ?k"
    by (simp add: afterSleep_def afterGet_def)
  have n2: "now ?w2 = now ?w1 + get_latency p (?k + 1) + interval + timer_lag p (?k + 1)"
    by (simp add: afterSleep_def afterGet_def)
  consider "timeout = 0" | "0 < timeout" "timeout \<le> now ?w1 - ?s"
    | "0 < timeout" "now ?w1 - ?s < timeout"
    by linarith
  then show ?thesis
  proof cases
    case 1
    then have "pollStatus p statusUrl interval timeout w = Some (Inl TIMED_OUT, w)"
      by (simp add: pollStatus_def pollLoop_expired)
    then show ?thesis by simp
  next
    case 2
    have "pollLoop p statusUrl interval timeout ?s w =
          pollLoop p statusUrl interval timeout ?s ?w1"
      using pollLoop_pending_step [OF first, of ?s timeout interval] 2(1) by simp
    also have "\<dots> = Some (Inl TIMED_OUT, ?w1)"
      using 2(2) by (rule pollLoop_expired)
    finally show ?thesis
      using c1 by (simp add: pollStatus_def)
  next
    case 3
    have "pollLoop p statusUrl interval timeout ?s w =
          pollLoop p statusUrl interval timeout ?s ?w1"
      using pollLoop_pending_step [OF first, of ?s timeout interval] 3(1) by simp
    also have "\<dots> = pollLoop p statusUrl interval timeout ?s ?w2"
      using pollLoop_pending_step [of p statusUrl ?w1 ?s timeout interval] second k1 3(2)
      by simp
    also have "\<dots> = Some (Inl TIMED_OUT, ?w2)"
      using late n1 n2 by (intro pollLoop_expired) simp
    finally show ?thesis
      using c2 by (simp add: pollStatus_def)
  qed
qed

subsection \<open>Model execution\<close>

text \<open>
  With a positive interval the polling loop always ends. It leaves the records of the
  submissions alone. What it returns is the reply to the last status check it made, a body
  that reports \<open>COMPLETED\<close>.
\<close>

lemma pollLoop_returns:
  assumes "0 < i" "s \<le> now w"
  shows "\<exists>r w' new. pollLoop p u i t s w = Some (r, w') \<and>
           queuedCalls w' = queuedCalls w \<and> immediateCalls w' = immediateCalls w \<and>
           statusChecks w' = statusChecks w @ new \<and>
           (\<forall>data. r = Inr data \<longrightarrow>
              getProp data (ustr ''status'') = Inr (JStr (ustr ''COMPLETED'')) \<and>
              new \<noteq> [] \<and> fst (last new) = u \<and>
              status_get p u (length (statusChecks w') - 1) = Inr data)"
  using assms(2)
proof (induction "t - (now w - s)" arbitrary: w rule: less_induct)
  case less
  show ?case
  proof (cases "now w - s < t")
    case False
    then show ?thesis by (simp add: pollLoop_expired TIMED_OUT_def)
  next
    case True
    let ?k = "length (statusChecks w)"
    let ?w0 = "afterGet p u w"
    let ?w1 = "afterSleep p i ?k ?w0"
    have w0: "queuedCalls ?w0 = queuedCalls w" "immediateCalls ?w0 = immediateCalls w"
      "statusChecks ?w0 = statusChecks w @ [(u, now w)]"
      by (simp_all add: afterGet_def)
    have w1: "queuedCalls ?w1 = queuedCalls w" "immediateCalls ?w1 = immediateCalls w"
      "statusChecks ?w1 = statusChecks w @ [(u, now w)]"
      "now ?w1 = now w + get_latency p ?k + i + timer_lag p ?k"
      by (simp_all add: afterSleep_def afterGet_def)
    then have "now w < now ?w1" using assms(1) by simp
    then have "t - (now ?w1 - s) < t - (now w - s)" "s \<le> now ?w1"
      using True less.prems by auto
    from less.hyps [OF this] obtain r w' new where
      rec: "pollLoop p u i t s ?w1 = Some (r, w')"
        "queuedCalls w' = queuedCalls ?w1" "immediateCalls w' = immediateCalls ?w1"
        "statusChecks w' = statusChecks ?w1 @ new"
        "\<forall>data. r = Inr data \<longrightarrow>
           getProp data (ustr ''status'') = Inr (JStr (ustr ''COMPLETED'')) \<and>
           new \<noteq> [] \<and> fst (last new) = u \<and>
           status_get p u (length (statusChecks w') - 1) = Inr data"
      by blast
    show ?thesis
    proof (cases "status_get p u ?k")
      case (Inl e)
      then have "pollLoop p u i t s w = Some (Inl e, ?w0)"
        using True by (subst pollLoop.simps) simp
      then show ?thesis using w0 by simp
    next
      case (Inr data)
      show ?thesis
      proof (cases "getProp data (ustr ''status'')")
        case (Inl e)
        then have "pollLoop p u i t s w = Some (Inl e, ?w0)"
          using True Inr by (subst pollLoop.simps) simp
        then show ?thesis using w0 by simp
      next
        case st: (Inr status)
        consider "status = JStr (ustr ''COMPLETED'')"
          | "status \<noteq> JStr (ustr ''COMPLETED'')" "status = JStr (ustr ''FAILED'')"
          | "status \<noteq> JStr (ustr ''COMPLETED'')" "status \<noteq> JStr (ustr ''FAILED'')"
          by blast
        then show ?thesis
        proof cases
          case 1
          then have "pollLoop p u i t s w = Some (Inr data, ?w0)"
            using True Inr st by (subst pollLoop.simps) simp
          then show ?thesis using w0 st 1 Inr by simp
        next
          case 2
          then have "pollLoop p u i t s w = Some (Inl (requestFailed data), ?w0)"
            using True Inr st by (subst pollLoop.simps) simp
          then show ?thesis using w0 by simp
        next
          case 3
          then have run: "pollLoop p u i t s w = Some (r, w')"
            using True Inr st rec(1) by (subst pollLoop.simps) simp
          have all: "statusChecks w' = statusChecks w @ ((u, now w) # new)"
            using rec(4) w1(3) by simp
          have fin: "\<forall>data. r = Inr data \<longrightarrow>
              getProp data (ustr ''status'') = Inr (JStr (ustr ''COMPLETED'')) \<and>
              (u, now w) # new \<noteq> [] \<and> fst (last ((u, now w) # new)) = u \<and>
              status_get p u (length (statusChecks w') - 1) = Inr data"
            using rec(5) by simp
          have same: "queuedCalls w' = queuedCalls w" "immediateCalls w' = immediateCalls w"
            using rec(2,3) w1(1,2) by simp_all
          show ?thesis
            using run same all fin by blast
        qed
      qed
    qed
  qed
qed

lemma pollStatus_default:
  "\<exists>r w' new. pollStatus p u DEFAULT_INTERVAL DEFAULT_TIMEOUT w = Some (r, w') \<and>
           queuedCalls w' = queuedCalls w \<and> immediateCalls w' = immediateCalls w \<and>
           statusChecks w' = statusChecks w @ new \<and>
           (\<forall>data. r = Inr data \<longrightarrow>
              getProp data (ustr ''status'') = Inr (JStr (ustr ''COMPLETED'')) \<and>
              new \<noteq> [] \<and> fst (last new) = u \<and>
              status_get p u (length (statusChecks w') - 1) = Inr data)"
  unfolding pollStatus_def
  using pollLoop_returns [of DEFAULT_INTERVAL "now w" w] by (simp add: DEFAULT_INTERVAL_def)

text \<open>What the immediate path does, case by case.\<close>

lemma immediatePath_cases:
  "\<exists>r w1. immediatePath p m inp w = Some (r, w1) \<and> queuedCalls w1 = queuedCalls w \<and>
      immediateCalls w1 = immediateCalls w @ [(m, inp)] \<and>
      (\<exists>new. statusChecks w1 = statusChecks w @ new) \<and>
      (\<forall>result. r = Inr result \<longrightarrow>
         (\<exists>response. fal_request p m inp (length (immediateCalls w)) = Inr response \<and>
            (if truthy (optProp response (ustr ''status_url''))
             then \<exists>finalStatus. result = polledResult finalStatus response \<and>
                    finalStatusOf p (optProp response (ustr ''status_url'')) w w1 finalStatus
             else result = response)))"
proof -
  let ?w1 = "w\<lparr> immediateCalls := immediateCalls w @ [(m, inp)] \<rparr>"
  show ?thesis
  proof (cases "fal_request p m inp (length (immediateCalls w))")
    case (Inl e)
    then show ?thesis by (simp add: immediatePath_def)
  next
    case (Inr response)
    show ?thesis
    proof (cases "getProp response (ustr ''status_url'')")
      case (Inl e)
      then show ?thesis using Inr by (simp add: immediatePath_def)
    next
      case url: (Inr status_url)
      then have opt: "optProp response (ustr ''status_url'') = status_url"
        by (simp add: optProp_def)
      show ?thesis
      proof (cases "truthy status_url")
        case False
        then show ?thesis using Inr url opt by (simp add: immediatePath_def)
      next
        case True
        obtain r w2 new where
          poll: "pollStatus p status_url DEFAULT_INTERVAL DEFAULT_TIMEOUT ?w1 = Some (r, w2)"
            "queuedCalls w2 = queuedCalls ?w1" "immediateCalls w2 = immediateCalls ?w1"
            "statusChecks w2 = statusChecks ?w1 @ new"
            "\<forall>data. r = Inr data \<longrightarrow>
               getProp data (ustr ''status'') = Inr (JStr (ustr ''COMPLETED'')) \<and>
               new \<noteq> [] \<and> fst (last new) = status_url \<and>
               status_get p status_url (length (statusChecks w2) - 1) = Inr data"
          using pollStatus_default [of p status_url ?w1] by blast
        show ?thesis
        proof (cases r)
          case (Inl e)
          then show ?thesis using Inr url True poll by (simp add: immediatePath_def)
        next
          case fin: (Inr finalStatus)
          then have "finalStatusOf p status_url w w2 finalStatus"
            using poll(4,5) by (simp add: finalStatusOf_def)
          then show ?thesis
            using fin Inr url True poll(1,2,3,4) opt by (auto simp: immediatePath_def)
        qed
      qed
    qed
  qed
qed

lemma queuedPath_cases:
  "\<exists>r w1. queuedPath p m inp w = Some (r, w1) \<and>
      queuedCalls w1 = queuedCalls w @ [(m, inp)] \<and> immediateCalls w1 = immediateCalls w \<and>
      (\<exists>new. statusChecks w1 = statusChecks w @ new) \<and>
      (\<forall>result. r = Inr result \<longrightarrow>
         (\<exists>response. fal_subscribe p m inp (length (queuedCalls w)) = Inr response \<and>
            (if truthy (optProp response (ustr ''status_url''))
             then \<exists>finalStatus. result = polledResult finalStatus response \<and>
                    finalStatusOf p (optProp response (ustr ''status_url'')) w w1 finalStatus
             else result = response)))"
proof -
  let ?w1 = "w\<lparr> queuedCalls := queuedCalls w @ [(m, inp)] \<rparr>"
  show ?thesis
  proof (cases "fal_subscribe p m inp (length (queuedCalls w))")
    case (Inl e)
    then show ?thesis by (simp add: queuedPath_def)
  next
    case (Inr response)
    show ?thesis
    proof (cases "getProp response (ustr ''status_url'')")
      case (Inl e)
      then show ?thesis using Inr by (simp add: queuedPath_def)
    next
      case url: (Inr status_url)
      then have opt: "optProp response (ustr ''status_url'') = status_url"
        by (simp add: optProp_def)
      show ?thesis
      proof (cases "truthy status_url")
        case False
        then show ?thesis using Inr url opt by (simp add: queuedPath_def)
      next
        case True
        obtain r w2 new where
          poll: "pollStatus p status_url DEFAULT_INTERVAL DEFAULT_TIMEOUT ?w1 = Some (r, w2)"
            "queuedCalls w2 = queuedCalls ?w1" "immediateCalls w2 = immediateCalls ?w1"
            "statusChecks w2 = statusChecks ?w1 @ new"
            "\<forall>data. r = Inr data \<longrightarrow>
               getProp data (ustr ''status'') = Inr (JStr (ustr ''COMPLETED'')) \<and>
               new \<noteq> [] \<and> fst (last new) = status_url \<and>
               status_get p status_url (length (statusChecks w2) - 1) = Inr data"
          using pollStatus_default [of p status_url ?w1] by blast
        show ?thesis
        proof (cases r)
          case (Inl e)
          then show ?thesis using Inr url True poll by (simp add: queuedPath_def)
        next
          case fin: (Inr finalStatus)
          then have "finalStatusOf p status_url w w2 finalStatus"
            using poll(4,5) by (simp add: finalStatusOf_def)
          then show ?thesis
            using fin Inr url True poll(1,2,3,4) opt by (auto simp: queuedPath_def)
        qed
      qed
    qed
  qed
qed

text \<open>
  C2, as the code has it. \<open>executeModelRequest\<close> always returns. The queued submission is
  invoked exactly when the immediate path throws, where the immediate path is the immediate
  call together with the polling of the status URL its response carries, if any. When the
  immediate path succeeds, its result is returned and no queued submission is made; when it
  throws, one queued submission is made and what the caller receives is the outcome of the
  queued path (the queued response, polled to completion when it carries a status URL).
\<close>

theorem queued_iff_immediate_path_fails:
  "\<exists>res w' r1 w1.
      executeModelRequest p modelId input w = Some (res, w') \<and>
      immediatePath p modelId input w = Some (r1, w1) \<and>
      queuedCalls w1 = queuedCalls w \<and>
      (case r1 of
         Inr result \<Rightarrow> res = Inr result \<and> w' = w1 \<and> queuedCalls w' = queuedCalls w
       | Inl error \<Rightarrow>
           queuedPath p modelId input w1 = Some (res, w') \<and>
           queuedCalls w' = queuedCalls w @ [(modelId, input)])"
proof -
  obtain r1 w1 where imm: "immediatePath p modelId input w = Some (r1, w1)"
    "queuedCalls w1 = queuedCalls w"
    using immediatePath_cases [of p modelId input w] by blast
  show ?thesis
  proof (cases r1)
    case (Inr result)
    then show ?thesis using imm by (simp add: executeModelRequest_def)
  next
    case (Inl error)
    obtain r2 w2 where q: "queuedPath p modelId input w1 = Some (r2, w2)"
      "queuedCalls w2 = queuedCalls w1 @ [(modelId, input)]"
      using queuedPath_cases [of p modelId input w1] by blast
    then show ?thesis using imm Inl by (simp add: executeModelRequest_def)
  qed
qed

theorem queued_iff_immediate_path_fails_witness:
  "executeModelRequest pThird IMAGE_MODEL JNull worldStart =
     Some (Inr (JObj [(ustr ''data'', JStr (ustr ''done'')), (ustr ''requestId'', JStr (ustr ''r''))]),
           \<lparr> now = 40000,
             statusChecks = [(JStr (ustr ''u''), 0), (JStr (ustr ''u''), 20000),
                             (JStr (ustr ''u''), 40000)],
             immediateCalls = [(IMAGE_MODEL, JNull)],
             queuedCalls = [(IMAGE_MODEL, JNull)] \<rparr>) \<and>
   immediatePath pThird IMAGE_MODEL JNull worldStart =
     Some (Inl (ProviderError (Some 404) (ustr ''Not Found'')),
           \<lparr> now = 0, statusChecks = [], immediateCalls = [(IMAGE_MODEL, JNull)],
             queuedCalls = [] \<rparr>)"
  using queued_iff_immediate_path_fails [of pThird IMAGE_MODEL JNull worldStart]
  by (simp add: executeModelRequest_def immediatePath_def queuedPath_def pollStatus_def
      pollLoop.simps worldStart_def pThird_def getProp_def optProp_def lookupProp_def ustr_def truthy_def
      afterGet_def afterSleep_def DEFAULT_INTERVAL_def DEFAULT_TIMEOUT_def polledResult_def)

text \<open>
  The immediate call succeeds with a status URL, the job then reports \<open>FAILED\<close>, and the
  queued submission is made although the immediate call did not throw.
\<close>

theorem queued_after_successful_immediate_call_counterexample:
  "fal_request pPollFails IMAGE_MODEL JNull 0 =
     Inr (JObj [(ustr ''status_url'', JStr (ustr ''u'')),
                (ustr ''request_id'', JStr (ustr ''r''))]) \<and>
   executeModelRequest pPollFails IMAGE_MODEL JNull worldStart =
     Some (Inr (JObj [(ustr ''data'', JStr (ustr ''d'')), (ustr ''requestId'', JStr (ustr ''q''))]),
           \<lparr> now = 0, statusChecks = [(JStr (ustr ''u''), 0)],
             immediateCalls = [(IMAGE_MODEL, JNull)],
             queuedCalls = [(IMAGE_MODEL, JNull)] \<rparr>)"
  by (simp add: executeModelRequest_def immediatePath_def queuedPath_def pollStatus_def
      pollLoop.simps worldStart_def pPollFails_def getProp_def lookupProp_def ustr_def truthy_def
      afterGet_def afterSleep_def DEFAULT_INTERVAL_def DEFAULT_TIMEOUT_def)

text \<open>
  C7, as the code has it. A successful result of \<open>executeModelRequest\<close> comes from the
  response of the immediate call, and then no queued submission was made, or from the
  response of the queued submission. When that response carries a status URL, the URL was
  polled, the final status is the reply to the last status check of the run, it reports
  \<open>COMPLETED\<close>, and the result is the record \<open>{data, requestId}\<close> built from the output of
  that final status and the request id of the response. When the response carries no status
  URL, the result is the response itself, as the provider gave it.
\<close>

theorem polled_results_normalized:
  assumes "executeModelRequest p modelId input w = Some (Inr result, w')"
  shows "\<exists>response.
           (fal_request p modelId input (length (immediateCalls w)) = Inr response \<and>
              queuedCalls w' = queuedCalls w \<or>
            fal_subscribe p modelId input (length (queuedCalls w)) = Inr response \<and>
              queuedCalls w' = queuedCalls w @ [(modelId, input)]) \<and>
           (if truthy (optProp response (ustr ''status_url''))
            then \<exists>finalStatus.
                   length (statusChecks w) < length (statusChecks w') \<and>
                   fst (last (statusChecks w')) = optProp response (ustr ''status_url'') \<and>
                   status_get p (optProp response (ustr ''status_url''))
                     (length (statusChecks w') - 1) = Inr finalStatus \<and>
                   getProp finalStatus (ustr ''status'') = Inr (JStr (ustr ''COMPLETED'')) \<and>
                   result = JObj [ (ustr ''data'', optProp finalStatus (ustr ''output'')),
                                   (ustr ''requestId'', optProp response (ustr ''request_id'')) ]
            else result = response)"
proof -
  obtain r1 w1 new1 where imm: "immediatePath p modelId input w = Some (r1, w1)"
    "queuedCalls w1 = queuedCalls w"
    "statusChecks w1 = statusChecks w @ new1"
    "\<forall>result. r1 = Inr result \<longrightarrow>
         (\<exists>response. fal_request p modelId input (length (immediateCalls w)) = Inr response \<and>
            (if truthy (optProp response (ustr ''status_url''))
             then \<exists>finalStatus. result = polledResult finalStatus response \<and>
                    finalStatusOf p (optProp response (ustr ''status_url'')) w w1 finalStatus
             else result = response))"
    using immediatePath_cases [of p modelId input w] by blast
  show ?thesis
  proof (cases r1)
    case (Inr res1)
    then have same: "res1 = result" "w1 = w'"
      using assms imm(1) by (simp_all add: executeModelRequest_def)
    then obtain response where resp:
      "fal_request p modelId input (length (immediateCalls w)) = Inr response"
      "if truthy (optProp response (ustr ''status_url''))
       then \<exists>finalStatus. result = polledResult finalStatus response \<and>
              finalStatusOf p (optProp response (ustr ''status_url'')) w w' finalStatus
       else result = response"
      using imm(4) Inr by blast
    show ?thesis
    proof (rule exI [of _ response], intro conjI)
      show "fal_request p modelId input (length (immediateCalls w)) = Inr response \<and>
              queuedCalls w' = queuedCalls w \<or>
            fal_subscribe p modelId input (length (queuedCalls w)) = Inr response \<and>
              queuedCalls w' = queuedCalls w @ [(modelId, input)]"
        using resp(1) imm(2) same by simp
    next
      show "if truthy (optProp response (ustr ''status_url''))
            then \<exists>finalStatus.
                   length (statusChecks w) < length (statusChecks w') \<and>
                   fst (last (statusChecks w')) = optProp response (ustr ''status_url'') \<and>
                   status_get p (optProp response (ustr ''status_url''))
                     (length (statusChecks w') - 1) = Inr finalStatus \<and>
                   getProp finalStatus (ustr ''status'') = Inr (JStr (ustr ''COMPLETED'')) \<and>
                   result = JObj [ (ustr ''data'', optProp finalStatus (ustr ''output'')),
                                   (ustr ''requestId'', optProp response (ustr ''request_id'')) ]
            else result = response"
        using resp(2) by (auto simp: finalStatusOf_def polledResult_def)
    qed
  next
    case (Inl error)
    then have q: "queuedPath p modelId input w1 = Some (Inr result, w')"
      using assms imm(1) by (simp add: executeModelRequest_def)
    obtain r2 w2 where qc: "queuedPath p modelId input w1 = Some (r2, w2)"
      "queuedCalls w2 = queuedCalls w1 @ [(modelId, input)]"
      "\<forall>result. r2 = Inr result \<longrightarrow>
         (\<exists>response. fal_subscribe p modelId input (length (queuedCalls w1)) = Inr response \<and>
            (if truthy (optProp response (ustr ''status_url''))
             then \<exists>finalStatus. result = polledResult finalStatus response \<and>
                    finalStatusOf p (optProp response (ustr ''status_url'')) w1 w2 finalStatus
             else result = response))"
      using queuedPath_cases [of p modelId input w1] by blast
    then have same: "r2 = Inr result" "w2 = w'" using q by simp_all
    then obtain response where resp:
      "fal_subscribe p modelId input (length (queuedCalls w)) = Inr response"
      "if truthy (optProp response (ustr ''status_url''))
       then \<exists>finalStatus. result = polledResult finalStatus response \<and>
              finalStatusOf p (optProp response (ustr ''status_url'')) w1 w' finalStatus
       else result = response"
      using qc(3) imm(2) by auto
    show ?thesis
    proof (rule exI [of _ response], intro conjI)
      show "fal_request p modelId input (length (immediateCalls w)) = Inr response \<and>
              queuedCalls w' = queuedCalls w \<or>
            fal_subscribe p modelId input (length (queuedCalls w)) = Inr response \<and>
              queuedCalls w' = queuedCalls w @ [(modelId, input)]"
        using resp(1) qc(2) imm(2) same by simp
    next
      show "if truthy (optProp response (ustr ''status_url''))
            then \<exists>finalStatus.
                   length (statusChecks w) < length (statusChecks w') \<and>
                   fst (last (statusChecks w')) = optProp response (ustr ''status_url'') \<and>
                   status_get p (optProp response (ustr ''status_url''))
                     (length (statusChecks w') - 1) = Inr finalStatus \<and>
                   getProp finalStatus (ustr ''status'') = Inr (JStr (ustr ''COMPLETED'')) \<and>
                   result = JObj [ (ustr ''data'', optProp finalStatus (ustr ''output'')),
                                   (ustr ''requestId'', optProp response (ustr ''request_id'')) ]
            else result = response"
        using resp(2) imm(3) by (auto simp: finalStatusOf_def polledResult_def)
    qed
  qed
qed

theorem polled_results_normalized_witness:
  "executeModelRequest pThird IMAGE_MODEL JNull worldStart =
     Some (Inr (JObj [(ustr ''data'', JStr (ustr ''done'')), (ustr ''requestId'', JStr (ustr ''r''))]),
           \<lparr> now = 40000,
             statusChecks = [(JStr (ustr ''u''), 0), (JStr (ustr ''u''), 20000),
                             (JStr (ustr ''u''), 40000)],
             immediateCalls = [(IMAGE_MODEL, JNull)],
             queuedCalls = [(IMAGE_MODEL, JNull)] \<rparr>) \<and>
   fal_subscribe pThird IMAGE_MODEL JNull (length (queuedCalls worldStart)) =
     Inr (JObj [(ustr ''status_url'', JStr (ustr ''u'')), (ustr ''request_id'', JStr (ustr ''r''))]) \<and>
   status_get pThird (JStr (ustr ''u'')) 2 =
     Inr (JObj [(ustr ''status'', JStr (ustr ''COMPLETED'')),
                (ustr ''output'', JStr (ustr ''done''))]) \<and>
   (\<exists>response.
      (fal_request pThird IMAGE_MODEL JNull (length (immediateCalls worldStart)) = Inr response \<and>
         queuedCalls
          (\<lparr> now = 40000,
             statusChecks = [(JStr (ustr ''u''), 0), (JStr (ustr ''u''), 20000),
                             (JStr (ustr ''u''), 40000)],
             immediateCalls = [(IMAGE_MODEL, JNull)],
             queuedCalls = [(IMAGE_MODEL, JNull)] \<rparr>) = queuedCalls worldStart \<or>
       fal_subscribe pThird IMAGE_MODEL JNull (length (queuedCalls worldStart)) = Inr response \<and>
         queuedCalls
          (\<lparr> now = 40000,
             statusChecks = [(JStr (ustr ''u''), 0), (JStr (ustr ''u''), 20000),
                             (JStr (ustr ''u''), 40000)],
             immediateCalls = [(IMAGE_MODEL, JNull)],
             queuedCalls = [(IMAGE_MODEL, JNull)] \<rparr>) = queuedCalls worldStart @ [(IMAGE_MODEL, JNull)]) \<and>
      (if truthy (optProp response (ustr ''status_url''))
       then \<exists>finalStatus.
              length (statusChecks worldStart) <
                length (statusChecks
                  (\<lparr> now = 40000,
             statusChecks = [(JStr (ustr ''u''), 0), (JStr (ustr ''u''), 20000),
                             (JStr (ustr ''u''), 40000)],
             immediateCalls = [(IMAGE_MODEL, JNull)],
             queuedCalls = [(IMAGE_MODEL, JNull)] \<rparr>)) \<and>
              fst (last (statusChecks
                  (\<lparr> now = 40000,
             statusChecks = [(JStr (ustr ''u''), 0), (JStr (ustr ''u''), 20000),
                             (JStr (ustr ''u''), 40000)],
             immediateCalls = [(IMAGE_MODEL, JNull)],
             queuedCalls = [(IMAGE_MODEL, JNull)] \<rparr>))) = optProp response (ustr ''status_url'') \<and>
              status_get pThird (optProp response (ustr ''status_url''))
                (length (statusChecks
                  (\<lparr> now = 40000,
             statusChecks = [(JStr (ustr ''u''), 0), (JStr (ustr ''u''), 20000),
                             (JStr (ustr ''u''), 40000)],
             immediateCalls = [(IMAGE_MODEL, JNull)],
             queuedCalls = [(IMAGE_MODEL, JNull)] \<rparr>)) - 1) = Inr finalStatus \<and>
              getProp finalStatus (ustr ''status'') = Inr (JStr (ustr ''COMPLETED'')) \<and>
              JObj [(ustr ''data'', JStr (ustr ''done'')), (ustr ''requestId'', JStr (ustr ''r''))] =
                JObj [ (ustr ''data'', optProp finalStatus (ustr ''output'')),
                       (ustr ''requestId'', optProp response (ustr ''request_id'')) ]
       else JObj [(ustr ''data'', JStr (ustr ''done'')), (ustr ''requestId'', JStr (ustr ''r''))] = response))"
proof -
  have run: "executeModelRequest pThird IMAGE_MODEL JNull worldStart =
     Some (Inr (JObj [(ustr ''data'', JStr (ustr ''done'')), (ustr ''requestId'', JStr (ustr ''r''))]),
           \<lparr> now = 40000,
             statusChecks = [(JStr (ustr ''u''), 0), (JStr (ustr ''u''), 20000),
                             (JStr (ustr ''u''), 40000)],
             immediateCalls = [(IMAGE_MODEL, JNull)],
             queuedCalls = [(IMAGE_MODEL, JNull)] \<rparr>)"
    by (simp add: executeModelRequest_def immediatePath_def queuedPath_def pollStatus_def
        pollLoop.simps worldStart_def pThird_def getProp_def optProp_def lookupProp_def ustr_def
        truthy_def afterGet_def afterSleep_def DEFAULT_INTERVAL_def DEFAULT_TIMEOUT_def
        polledResult_def)
  have replies:
    "fal_subscribe pThird IMAGE_MODEL JNull (length (queuedCalls worldStart)) =
       Inr (JObj [(ustr ''status_url'', JStr (ustr ''u'')), (ustr ''request_id'', JStr (ustr ''r''))])"
    "status_get pThird (JStr (ustr ''u'')) 2 =
       Inr (JObj [(ustr ''status'', JStr (ustr ''COMPLETED'')),
                  (ustr ''output'', JStr (ustr ''done''))])"
    by (simp_all add: pThird_def)
  show ?thesis
    using run replies polled_results_normalized [OF run] by simp
qed

text \<open>
  The immediate call answers \<open>{output}\<close> without a status URL: the result is that object,
  which has neither \<open>data\<close> nor \<open>requestId\<close>.
\<close>

theorem unpolled_result_not_normalized_counterexample:
  "executeModelRequest pOutput IMAGE_MODEL JNull worldStart =
     Some (Inr (JObj [(ustr ''output'', JStr (ustr ''x''))]),
           \<lparr> now = 0, statusChecks = [], immediateCalls = [(IMAGE_MODEL, JNull)],
             queuedCalls = [] \<rparr>) \<and>
   \<not> hasKey (JObj [(ustr ''output'', JStr (ustr ''x''))]) (ustr ''data'') \<and>
   \<not> hasKey (JObj [(ustr ''output'', JStr (ustr ''x''))]) (ustr ''requestId'')"
  by (simp add: executeModelRequest_def immediatePath_def worldStart_def pOutput_def getProp_def
      lookupProp_def ustr_def truthy_def hasKey_def)

subsection \<open>Script parsing\<close>

lemma validateScript_cases:
  "validateScript v =
     (if hasSections v then Inr v
      else if v = JNull \<or> v = JUndefined
      then Inl (TypeError (cannotRead v (ustr ''sections'')))
      else Inl (Error (ustr ''Invalid script structure in response'')))"
  by (cases v)
     (auto simp: validateScript_def hasSections_def optProp_def getProp_def isArray_def truthy_def
       split: jsval.splits)

text \<open>
  The control characters include the line feed, so the replacement of blank lines that
  follows their removal never finds a match.
\<close>

lemma collapse_noLF: "LF \<notin> set s \<Longrightarrow> collapseBlankLines s = s"
  by (induction s) (auto simp: collapseBlankLines.simps)

lemma removeControl_noLF: "LF \<notin> set (removeControl s)"
  by (auto simp: removeControl_def isControl_def LF_def)

lemma cleanContent_alt:
  "cleanContent content =
     trim (removeControl (removeMarker FENCE (removeMarker FENCE_JSON content)))"
  by (simp add: cleanContent_def collapse_noLF removeControl_noLF)

text \<open>
  C4. Script parsing either returns the very value that \<open>JSON.parse\<close> read from the cleaned
  text, and that value has an array-typed \<open>sections\<close> field, or it throws the error
  \<open>Failed to parse script content: \<dots>\<close>, and it does so whenever the cleaned text does not
  parse to a value with an array-typed \<open>sections\<close> field. There is no third outcome: no
  placeholder object is ever made up.
\<close>

theorem script_parse_error_without_sections:
  "(\<exists>script. parseScript parse content = Inr script \<and>
       parse (cleanContent content) = Inr script \<and> hasSections script) \<or>
   (\<exists>m. parseScript parse content = Inl (Error (PARSE_FAILED @ m)) \<and>
       \<not> (\<exists>v. parse (cleanContent content) = Inr v \<and> hasSections v))"
proof (cases "parse (cleanContent content)")
  case (Inl m)
  then show ?thesis
    by (simp add: parseScript_def jsonParse_def tryCatch_def)
next
  case (Inr v)
  then show ?thesis
    by (simp add: parseScript_def jsonParse_def tryCatch_def validateScript_cases messageOf_def)
qed

lemma clean_noSections: "cleanContent fencedNoSections = jsonText noSections"
  by (simp add: cleanContent_def fencedNoSections_def noSections_def FENCE_JSON_def FENCE_def
      LF_def BACKTICK_def ustr_def quoteJSONString_def quoteUnit_def isHighSurrogate_def
      removeMarker.simps collapseBlankLines.simps isLowSurrogate_def dropLF_def
      removeControl_def isControl_def trim_def isWhiteSpace_def)

theorem script_parse_error_without_sections_witness:
  "parseScript (parseOnly noSections) fencedNoSections =
     Inl (Error (PARSE_FAILED @ ustr ''Invalid script structure in response'')) \<and>
   \<not> (\<exists>v. parseOnly noSections (cleanContent fencedNoSections) = Inr v \<and> hasSections v)"
proof -
  have no: "\<not> hasSections noSections"
    by (simp add: hasSections_def noSections_def optProp_def getProp_def lookupProp_def
        isArray_def ustr_def)
  have nn: "noSections \<noteq> JNull" "noSections \<noteq> JUndefined"
    by (simp_all add: noSections_def)
  have run: "parseScript (parseOnly noSections) fencedNoSections =
     Inl (Error (PARSE_FAILED @ ustr ''Invalid script structure in response''))"
    using no nn
    by (simp add: parseScript_def clean_noSections parseOnly_def jsonParse_def tryCatch_def
        validateScript_cases messageOf_def)
  show ?thesis
    using script_parse_error_without_sections [of "parseOnly noSections" fencedNoSections] run no
    by (auto simp: clean_noSections parseOnly_def)
qed

subsection \<open>Media prompts\<close>

lemma addSection_usable:
  "sectionUsable s \<Longrightarrow> \<exists>vp'. addSection vp s = Inr vp'"
  by (cases s; cases "optProp s (ustr ''visualElements'')")
     (auto simp: sectionUsable_def addSection_def optProp_def getProp_def isArray_def)

lemma addSection_unusable:
  "\<not> sectionUsable s \<Longrightarrow> \<exists>e. addSection vp s = Inl e"
  by (cases s; cases "optProp s (ustr ''visualElements'')")
     (auto simp: sectionUsable_def addSection_def optProp_def getProp_def isArray_def truthy_def)

lemma addSections_usable:
  "list_all sectionUsable secs \<Longrightarrow> \<exists>vp'. addSections vp secs = Inr vp'"
proof (induction secs arbitrary: vp)
  case Nil
  then show ?case by simp
next
  case (Cons s secs)
  then obtain vp1 where "addSection vp s = Inr vp1"
    using addSection_usable [of s vp] by auto
  then show ?case using Cons by simp
qed

lemma addSections_unusable:
  "\<not> list_all sectionUsable secs \<Longrightarrow> \<exists>e. addSections vp secs = Inl e"
proof (induction secs arbitrary: vp)
  case Nil
  then show ?case by simp
next
  case (Cons s secs)
  show ?case
  proof (cases "sectionUsable s")
    case True
    then obtain vp1 where "addSection vp s = Inr vp1"
      using addSection_usable [of s vp] by auto
    then show ?thesis using Cons True by simp
  next
    case False
    then obtain e where "addSection vp s = Inl e"
      using addSection_unusable [of s vp] by auto
    then show ?thesis by simp
  qed
qed

lemma extractPrompts_usable:
  "scriptUsable script \<Longrightarrow> \<exists>vp. extractPrompts script = Inr vp"
  by (cases "optProp script (ustr ''sections'')")
     (auto simp: extractPrompts_def scriptUsable_def isArray_def truthy_def Let_def
       dest: addSections_usable)

lemma extractPrompts_unusable:
  "\<not> scriptUsable script \<Longrightarrow> \<exists>e. extractPrompts script = Inl e"
  by (cases "optProp script (ustr ''sections'')")
     (auto simp: extractPrompts_def scriptUsable_def isArray_def truthy_def Let_def
       dest: addSections_unusable)

lemma ensurePrompts_nonempty:
  "images (ensurePrompts vp) \<noteq> [] \<and> animations (ensurePrompts vp) \<noteq> []"
  by (simp add: ensurePrompts_def Let_def)

text \<open>
  C10, as the code has it. \<open>generateMediaPrompts\<close> returns \<open>ok: true\<close> exactly for the
  scripts its loop can read: a script that is \<open>null\<close>, or has no array of sections, or whose
  sections are all values other than \<open>null\<close> with a \<open>visualElements\<close> that is falsy or an
  array. For those the images and the animations of the result both hold at least one prompt.
  For any other script the error is caught and the result is \<open>ok: false\<close>.
\<close>

theorem media_prompts_ok_iff_usable:
  "optProp (fst (generateMediaPrompts timestamp script model brandName history)) (ustr ''ok'') =
     JBool (scriptUsable script) \<and>
   (scriptUsable script \<longrightarrow>
      (\<exists>imgs anims.
         promptsOf (fst (generateMediaPrompts timestamp script model brandName history))
           (ustr ''images'') = JArr imgs \<and> imgs \<noteq> [] \<and>
         promptsOf (fst (generateMediaPrompts timestamp script model brandName history))
           (ustr ''animations'') = JArr anims \<and> anims \<noteq> []))"
proof (cases "scriptUsable script")
  case True
  then obtain vp where "extractPrompts script = Inr vp"
    using extractPrompts_usable by blast
  then show ?thesis
    using True ensurePrompts_nonempty [of vp]
    by (simp add: generateMediaPrompts_def Let_def promptsOf_def optProp_def getProp_def
        lookupProp_def ustr_def)
next
  case False
  then obtain e where "extractPrompts script = Inl e"
    using extractPrompts_unusable by blast
  then show ?thesis
    using False
    by (simp add: generateMediaPrompts_def optProp_def getProp_def lookupProp_def ustr_def)
qed

theorem media_prompts_ok_iff_usable_witness:
  "scriptUsable demoScript \<and>
   optProp (fst (generateMediaPrompts (ustr ''t'') demoScript JUndefined (JStr (ustr ''Acme''))
                   Map.empty)) (ustr ''ok'') = JBool True \<and>
   (\<exists>imgs anims.
      promptsOf (fst (generateMediaPrompts (ustr ''t'') demoScript JUndefined
                        (JStr (ustr ''Acme'')) Map.empty)) (ustr ''images'') = JArr imgs \<and>
      imgs \<noteq> [] \<and>
      promptsOf (fst (generateMediaPrompts (ustr ''t'') demoScript JUndefined
                        (JStr (ustr ''Acme'')) Map.empty)) (ustr ''animations'') = JArr anims \<and>
      anims \<noteq> [])"
proof -
  have usable: "scriptUsable demoScript"
    by (simp add: scriptUsable_def sectionUsable_def demoScript_def optProp_def getProp_def
        lookupProp_def ustr_def isArray_def truthy_def)
  show ?thesis
    using usable
      media_prompts_ok_iff_usable
        [of "ustr ''t''" demoScript JUndefined "JStr (ustr ''Acme'')" Map.empty]
    by simp
qed

text \<open>A script that is \<open>null\<close>, and one without sections, are among the scripts it can read.\<close>

lemma scriptUsable_without_sections:
  "scriptUsable JNull" "scriptUsable JUndefined" "scriptUsable (JObj [])"
  "scriptUsable (JObj [(ustr ''sections'', JStr (ustr ''none''))])"
  by (simp_all add: scriptUsable_def optProp_def getProp_def lookupProp_def)

text \<open>
  A script whose only section is \<open>null\<close>: reading \<open>visualElements\<close> of the section throws,
  and the result is \<open>ok: false\<close> with no prompts at all.
\<close>

theorem media_prompts_null_section_counterexample:
  "fst (generateMediaPrompts (ustr ''t'') nullSectionScript JUndefined (JStr (ustr ''Acme''))
          Map.empty) =
     JObj [ (ustr ''ok'', JBool False),
            (ustr ''error'', JStr (ustr ''Cannot read properties of null (reading '' @
                                  quoted (ustr ''visualElements'') @ ustr '')'')),
            (ustr ''message'', JStr (ustr ''Failed to generate media prompts.'')) ]"
  by (simp add: generateMediaPrompts_def nullSectionScript_def cannotRead_def nullish_def extractPrompts_def addSection_def
      optProp_def getProp_def lookupProp_def ustr_def isArray_def truthy_def messageOf_def)

text \<open>The same happens when \<open>visualElements\<close> is a string rather than an array of strings.\<close>

lemma media_prompts_string_elements:
  "fst (generateMediaPrompts (ustr ''t'') stringElementsScript JUndefined (JStr (ustr ''Acme''))
          Map.empty) =
     JObj [ (ustr ''ok'', JBool False),
            (ustr ''error'', JStr (ustr ''section.visualElements.forEach is not a function'')),
            (ustr ''message'', JStr (ustr ''Failed to generate media prompts.'')) ]"
  by (simp add: generateMediaPrompts_def stringElementsScript_def notAFunction_def extractPrompts_def
      addSection_def optProp_def getProp_def lookupProp_def ustr_def isArray_def truthy_def
      messageOf_def)

subsection \<open>The asset stage and the two endpoints\<close>

lemma imageLoop_calls:
  "imageLoop sv g ps (assets, st) = (assets', st') \<Longrightarrow>
     imageCalls st' = imageCalls st @ map (imageParams g) ps \<and>
     videoCalls st' = videoCalls st \<and> textCalls st' = textCalls st \<and>
     length assets' \<le> length assets + length ps"
proof (induction ps arbitrary: assets st)
  case Nil
  then show ?case by simp
next
  case (Cons p ps)
  let ?st1 = "st\<lparr> imageCalls := imageCalls st @ [imageParams g p] \<rparr>"
  from Cons.prems obtain a1 where
    step: "imageLoop sv g ps (a1, ?st1) = (assets', st')" "length a1 \<le> length assets + 1"
    by (auto simp: Let_def split: sum.splits if_splits)
  from Cons.IH [OF step(1)] step(2) show ?case by simp
qed

lemma animationLoop_calls:
  "animationLoop sv g ps (assets, st) = (assets', st') \<Longrightarrow>
     videoCalls st' = videoCalls st @ map (videoParams g) ps \<and>
     imageCalls st' = imageCalls st \<and> textCalls st' = textCalls st \<and>
     length assets' \<le> length assets + length ps"
proof (induction ps arbitrary: assets st)
  case Nil
  then show ?case by simp
next
  case (Cons p ps)
  let ?st1 = "st\<lparr> videoCalls := videoCalls st @ [videoParams g p] \<rparr>"
  from Cons.prems obtain a1 where
    step: "animationLoop sv g ps (a1, ?st1) = (assets', st')" "length a1 \<le> length assets + 1"
    by (auto simp: Let_def split: sum.splits if_splits)
  from Cons.IH [OF step(1)] step(2) show ?case by simp
qed

lemma saveLoop_length: "length (saveLoop sv folder i assets) \<le> length assets"
proof (induction assets arbitrary: i)
  case Nil
  then show ?case by simp
next
  case (Cons a assets)
  have "length (saveLoop sv folder (Suc i) assets) \<le> length assets"
    by (rule Cons.IH)
  then show ?case
    by (cases "drive_upload sv a i") (simp_all add: le_SucI)
qed

lemma saveAssets_length:
  "saveAssetsToDrive sv assets brand sid = Inr saved \<Longrightarrow> length saved \<le> length assets"
  using saveLoop_length by (auto simp: saveAssetsToDrive_def split: sum.splits)

text \<open>Nothing found under the session id: a 400, and the text model is not called.\<close>

lemma script_without_research:
  assumes "getProp reqBody (ustr ''sessionId'') = Inr sessionId"
      and "storeGet (researchStore st) sessionId = None"
  shows "http_status (fst (scriptHandler sv reqBody st)) = 400 \<and>
         snd (scriptHandler sv reqBody st) = st \<and>
         (truthy sessionId \<and> truthy (optProp reqBody (ustr ''campaignGoals'')) \<and>
          truthy (optProp reqBody (ustr ''targetAudience'')) \<longrightarrow>
            fst (scriptHandler sv reqBody st) = NO_RESEARCH)"
  using assms
  by (simp add: scriptHandler_def MISSING_FIELDS_def NO_RESEARCH_def respond_def)

lemma generateScript_error_status:
  "http_status (scriptFailed e) = 500"
  by (simp add: scriptFailed_def respond_def)

lemma scriptHandler_ok_needs_research:
  assumes "http_status (fst (scriptHandler sv reqBody st)) = 200"
  shows "\<exists>sessionId research. getProp reqBody (ustr ''sessionId'') = Inr sessionId \<and>
           storeGet (researchStore st) sessionId = Some research"
  using assms
  by (auto simp: scriptHandler_def MISSING_FIELDS_def NO_RESEARCH_def respond_def scriptFailed_def
      split: sum.splits if_splits option.splits)

lemma researchKeyOf_object:
  "researchKeyOf (JObj info) = Inr (lookupProp info (ustr ''name''))"
  by (simp add: researchKeyOf_def isObjectType_def getProp_def)

lemma researchHandler_stores:
  assumes body: "getProp reqBody (ustr ''brandInfo'') = Inr (JObj info)"
      and run: "researchHandler sv reqBody st = (response, st1)"
      and ok: "http_status response = 200"
  shows "optProp (http_body response) (ustr ''sessionId'') = lookupProp info (ustr ''name'') \<and>
         (\<exists>entry. researchStore st1 (lookupProp info (ustr ''name'')) = Some entry \<and>
            optProp entry (ustr ''brandInfo'') = JObj info \<and>
            optProp entry (ustr ''research'') = optProp (http_body response) (ustr ''research''))"
proof -
  obtain r st2 where gen:
    "generateBrandResearch sv (JObj info)
       (defaultArg (optProp reqBody (ustr ''model'')) GEMINI_FLASH) st = (r, st2)"
    by (cases "generateBrandResearch sv (JObj info)
       (defaultArg (optProp reqBody (ustr ''model'')) GEMINI_FLASH) st") auto
  show ?thesis
  proof (cases r)
    case (Inl e)
    then have "response = researchFailed"
      using body run gen by (simp add: researchHandler_def researchKeyOf_object truthy_def)
    then show ?thesis using ok by (simp add: researchFailed_def respond_def)
  next
    case (Inr result)
    then have "response = respond 200
        [ (ustr ''ok'', JBool True),
          (ustr ''research'', optProp result (ustr ''research'')),
          (ustr ''sessionId'', lookupProp info (ustr ''name'')),
          (ustr ''message'', JStr (ustr
             ''Research completed successfully. Please proceed with script generation.'')),
          (ustr ''metadata'', optProp result (ustr ''metadata'')) ]"
      and "st1 = st2\<lparr> researchStore := (researchStore st2)(lookupProp info (ustr ''name'') \<mapsto> JObj
              [ (ustr ''research'', optProp result (ustr ''research'')),
                (ustr ''brandInfo'', JObj info),
                (ustr ''timestamp'', JStr (iso_time sv)) ]) \<rparr>"
      using body run gen by (simp_all add: researchHandler_def researchKeyOf_object truthy_def)
    then show ?thesis
      by (simp add: respond_def optProp_def getProp_def lookupProp_def ustr_def)
  qed
qed

lemma scriptHandler_proceeds:
  assumes "getProp reqBody (ustr ''sessionId'') = Inr (JStr name)" "name \<noteq> []"
      and "truthy (optProp reqBody (ustr ''campaignGoals''))"
      and "truthy (optProp reqBody (ustr ''targetAudience''))"
      and "researchStore st (JStr name) = Some (JObj entry)"
  shows "scriptHandler sv reqBody st = scriptPipeline sv reqBody (JStr name) (JObj entry) st"
  using assms
  by (simp add: scriptHandler_def storeGet_def truthy_def)

text \<open>Reading a property of an object literal.\<close>

lemma of_char_unit_eq: "(of_char a :: cu) = of_char b \<longleftrightarrow> a = b"
proof
  assume eq: "(of_char a :: cu) = of_char b"
  have small: "(of_char c :: nat) mod 65536 = of_char c" for c :: char
  proof -
    have "(of_char c :: nat) < 65536"
      using nat_of_char_less_256 [of c] by linarith
    then show ?thesis by simp
  qed
  have "unat (of_nat (of_char a) :: cu) = unat (of_nat (of_char b) :: cu)"
    using eq by (simp add: of_nat_of_char)
  then have "(of_char a :: nat) = of_char b"
    by (simp add: unat_of_nat small)
  then show "a = b" by simp
qed simp

lemma ustr_eq [simp]: "ustr a = ustr b \<longleftrightarrow> a = b"
proof -
  have "inj (of_char :: char \<Rightarrow> cu)"
    by (simp add: inj_def of_char_unit_eq)
  then show ?thesis
    unfolding ustr_def by (rule inj_map_eq_map)
qed

lemma ustr_empty [simp]: "ustr s = [] \<longleftrightarrow> s = []"
  by (simp add: ustr_def)

lemma lookupProp_simps [simp]:
  "lookupProp [] k = JUndefined"
  "lookupProp ((k', v) # kvs) k = (if k = k' then v else lookupProp kvs k)"
  by (auto simp: lookupProp_def)

lemma optProp_simps [simp]:
  "optProp (JObj kvs) k = lookupProp kvs k"
  "optProp JNull k = JUndefined"
  "optProp JUndefined k = JUndefined"
  "getProp (JObj kvs) k = Inr (lookupProp kvs k)"
  by (simp_all add: optProp_def getProp_def)

lemmas js_defs = getProp_def optProp_def lookupProp_def truthy_def isArray_def isObjectType_def
  optFirst_def orElse_def defaultArg_def

lemma research_text: "researchTextOf (geminiAnswer t) = Inr (JStr t)"
  by (simp add: researchTextOf_def geminiAnswer_def getFirst_def js_defs ustr_def)

lemma parse_acme: "parseResearch (json_parse servicesOk) (ustr ''Acme sells anvils.'') =
    Inr (placeholderResearch (JStr (ustr ''Acme sells anvils.'')))"
  by (simp add: parseResearch_def parseCodeBlock_def parseCleaned_def jsonParse_def tryCatch_def
      servicesOk_def trim_def stripFences_def removeMarker.simps headerAt_def isWhiteSpace_def
      FENCE_def FENCE_JSON_def BACKTICK_def LF_def dropLF_def ustr_def)

lemma research_run:
  "http_status (fst (researchHandler servicesOk researchBody0 appFresh)) = 200 \<and>
   researchStore (snd (researchHandler servicesOk researchBody0 appFresh)) = [JStr (ustr ''Acme'') \<mapsto> acmeEntry] \<and>
   textCalls (snd (researchHandler servicesOk researchBody0 appFresh)) = [ResearchRequest (JObj acmeInfo)]"
proof -
  have key: "lookupProp acmeInfo (ustr ''name'') = JStr (ustr ''Acme'')"
    by (simp add: acmeInfo_def lookupProp_def ustr_def)
  have body: "getProp researchBody0 (ustr ''brandInfo'') = Inr (JObj acmeInfo)"
    "optProp researchBody0 (ustr ''model'') = JUndefined"
    by (simp_all add: researchBody0_def js_defs ustr_def)
  have gen: "generateBrandResearch servicesOk (JObj acmeInfo) GEMINI_FLASH appFresh =
     (Inr (JObj [ (ustr ''research'', placeholderResearch (JStr (ustr ''Acme sells anvils.''))),
                  (ustr ''metadata'', JObj [ (ustr ''model'', GEMINI_FLASH),
                       (ustr ''timestamp'', JStr (ustr ''t'')), (ustr ''mcp'', JBool True) ]) ]),
      appFresh\<lparr> textCalls := [ResearchRequest (JObj acmeInfo)],
           scriptHistory := [JObj acmeInfo \<mapsto> JObj
              [ (ustr ''research'', placeholderResearch (JStr (ustr ''Acme sells anvils.''))),
                (ustr ''timestamp'', JStr (ustr ''t'')) ]] \<rparr>)"
  proof -
    have ro: "researchOf (json_parse servicesOk) (JStr (ustr ''Acme sells anvils.'')) =
        Inr (placeholderResearch (JStr (ustr ''Acme sells anvils.'')))"
      by (simp add: researchOf_def parse_acme)
    have post: "\<And>k. gemini_post servicesOk (JObj acmeInfo) k =
        Inr (geminiAnswer (ustr ''Acme sells anvils.''))"
      by (simp add: servicesOk_def)
    have t: "iso_time servicesOk = ustr ''t''" by (simp add: servicesOk_def)
    have s: "textCalls appFresh = []" "scriptHistory appFresh = Map.empty" by (simp_all add: appFresh_def)
    show ?thesis
      by (simp add: generateBrandResearch_def post research_text ro t s defaultArg_def
          GEMINI_FLASH_def Let_def)
  qed
  have t: "iso_time servicesOk = ustr ''t''" by (simp add: servicesOk_def)
  have s: "researchStore appFresh = Map.empty" by (simp add: appFresh_def)
  show ?thesis
    by (simp add: researchHandler_def body researchKeyOf_object key gen defaultArg_def truthy_def
        respond_def acmeEntry_def t s)
qed

lemma clean_SCRIPT: "cleanContent (ustr ''SCRIPT'') = ustr ''SCRIPT''"
  by (simp add: cleanContent_def removeMarker.simps collapseBlankLines.simps removeControl_def
      isControl_def trim_def isWhiteSpace_def FENCE_def FENCE_JSON_def BACKTICK_def LF_def
      ustr_def)

lemma candidate_text: "candidateText (geminiAnswer t) = Inr (JStr t)"
  by (simp add: candidateText_def geminiAnswer_def optFirst_def)

lemma script5_sections: "hasSections script5"
  by (simp add: hasSections_def script5_def isArray_def)

lemma validate_script5: "validateScript script5 = Inr script5"
  by (simp add: validateScript_def script5_def isArray_def truthy_def)

lemma fetch_script: "scriptFromResponse (json_parse servicesOk) (gemini_fetch servicesOk inputs k) = Inr script5"
  by (simp add: scriptFromResponse_def servicesOk_def candidate_text truthy_def parseScript_def
      clean_SCRIPT jsonParse_def tryCatch_def validate_script5)

lemma no_motion:
  "\<not> mentionsMotion (ustr ''office'')" "\<not> mentionsMotion (ustr ''chart'')"
  "\<not> mentionsMotion (ustr ''team'')" "\<not> mentionsMotion (ustr ''product'')"
  "\<not> mentionsMotion (ustr ''logo'')"
  by (simp_all add: mentionsMotion_def toLowerCase_def lowerUnit_def includesStr_def ustr_def)

lemma extract_script5:
  "extractPrompts script5 = Inr \<lparr> images = plain5, animations = [] \<rparr>"
  by (simp add: extractPrompts_def script5_def isArray_def truthy_def addSection_def
      addElement_def no_motion plain5_def)

lemma media_script5:
  "generateMediaPrompts t script5 model brandName history =
     (JObj [ (ustr ''ok'', JBool True),
             (ustr ''mediaPrompts'', JObj
                [ (ustr ''visualPrompts'', JObj
                     [ (ustr ''images'', JArr plain5),
                       (ustr ''animations'', JArr [FALLBACK_ANIMATION]) ]),
                  (ustr ''craftGuidelines'', craftGuidelines script5) ]),
             (ustr ''metadata'', JObj
                [ (ustr ''model'', defaultArg model GEMINI_FLASH),
                  (ustr ''timestamp'', JStr t),
                  (ustr ''mcp'', JBool True),
                  (ustr ''stats'', JObj [ (ustr ''images'', JNum 5), (ustr ''animations'', JNum 1) ]) ]),
             (ustr ''message'', JStr (ustr ''Media prompts generated successfully.'')) ],
      history(ustr ''media_prompts_'' @ toStr (orElse brandName (JStr (ustr ''default''))) \<mapsto> JObj
         [ (ustr ''mediaElements'', JObj
                [ (ustr ''visualPrompts'', JObj
                     [ (ustr ''images'', JArr plain5),
                       (ustr ''animations'', JArr [FALLBACK_ANIMATION]) ]),
                  (ustr ''craftGuidelines'', craftGuidelines script5) ]),
           (ustr ''timestamp'', JStr t),
           (ustr ''brandName'', brandName) ]))"
  by (simp add: generateMediaPrompts_def extract_script5 ensurePrompts_def Let_def)
     (simp add: plain5_def)

lemma plain5_take2: "take 2 plain5 = [plain5 ! 0, plain5 ! 1]" "length plain5 = 5" "plain5 \<noteq> []"
  by (simp_all add: plain5_def)

lemma assets_script5:
  "imageCalls st = [] \<Longrightarrow> videoCalls st = [] \<Longrightarrow>
   assetStage servicesOk mediaPrompts5 st =
     ([ imageAsset (craftGuidelines script5) (plain5 ! 0) (JObj [(ustr ''url'', JStr (ustr ''image-url''))]),
        imageAsset (craftGuidelines script5) (plain5 ! 1) (JObj [(ustr ''url'', JStr (ustr ''image-url''))]),
        animationAsset (craftGuidelines script5) FALLBACK_ANIMATION (JObj [(ustr ''url'', JStr (ustr ''video-url''))]) ],
      st\<lparr> imageCalls := [ imageParams (craftGuidelines script5) (plain5 ! 0),
                           imageParams (craftGuidelines script5) (plain5 ! 1) ],
          videoCalls := [ videoParams (craftGuidelines script5) FALLBACK_ANIMATION ] \<rparr>)"
  by (simp add: assetStage_def mediaPrompts5_def arrayItems_def plain5_take2 Let_def)
     (simp add: servicesOk_def truthy_def)

lemma save_script5:
  "saveAssetsToDrive servicesOk [a, b, c] brand sid =
     Inr [ savedAsset (JObj [ (ustr ''id'', JStr (ustr ''F'')), (ustr ''url'', JStr (ustr ''folder-url'')),
                              (ustr ''name'', JStr (ustr ''Acme_t'')) ]) a
             (JObj [ (ustr ''id'', JStr (ustr ''f'')), (ustr ''webViewLink'', JStr (ustr ''file-url'')),
                     (ustr ''name'', JStr (ustr ''n'')) ]),
           savedAsset (JObj [ (ustr ''id'', JStr (ustr ''F'')), (ustr ''url'', JStr (ustr ''folder-url'')),
                              (ustr ''name'', JStr (ustr ''Acme_t'')) ]) b
             (JObj [ (ustr ''id'', JStr (ustr ''f'')), (ustr ''webViewLink'', JStr (ustr ''file-url'')),
                     (ustr ''name'', JStr (ustr ''n'')) ]),
           savedAsset (JObj [ (ustr ''id'', JStr (ustr ''F'')), (ustr ''url'', JStr (ustr ''folder-url'')),
                              (ustr ''name'', JStr (ustr ''Acme_t'')) ]) c
             (JObj [ (ustr ''id'', JStr (ustr ''f'')), (ustr ''webViewLink'', JStr (ustr ''file-url'')),
                     (ustr ''name'', JStr (ustr ''n'')) ]) ]"
  by (simp add: saveAssetsToDrive_def servicesOk_def)

lemma assetStage_textCalls:
  "textCalls (snd (assetStage sv mediaPrompts st)) = textCalls st"
proof -
  let ?g = "optProp mediaPrompts (ustr ''craftGuidelines'')"
  let ?ips = "arrayItems (optProp (optProp mediaPrompts (ustr ''visualPrompts'')) (ustr ''images''))"
  let ?aps = "arrayItems (optProp (optProp mediaPrompts (ustr ''visualPrompts'')) (ustr ''animations''))"
  obtain a1 st1 where img: "imageLoop sv ?g (take 2 ?ips) ([], st) = (a1, st1)"
    by (cases "imageLoop sv ?g (take 2 ?ips) ([], st)") auto
  obtain a2 st2 where anim: "animationLoop sv ?g (take 1 ?aps) (a1, st1) = (a2, st2)"
    by (cases "animationLoop sv ?g (take 1 ?aps) (a1, st1)") auto
  have "assetStage sv mediaPrompts st = (a2, st2)"
    using img anim by (cases ?ips; cases ?aps) (auto simp: assetStage_def Let_def)
  then show ?thesis
    using imageLoop_calls [OF img] animationLoop_calls [OF anim] by simp
qed

lemma scriptPipeline_calls_model:
  assumes "truthy (optProp (optProp research (ustr ''brandInfo'')) (ustr ''name''))"
      and "truthy (optProp research (ustr ''research''))"
  shows "\<exists>inputs. textCalls (snd (scriptPipeline sv reqBody sessionId research st)) =
             textCalls st @ [ScriptRequest inputs] \<and>
           optProp inputs (ustr ''brandInfo'') = optProp research (ustr ''brandInfo'') \<and>
           optProp inputs (ustr ''research'') = optProp research (ustr ''research'')"
proof -
  let ?model = "defaultArg (optProp reqBody (ustr ''model'')) GEMINI_FLASH"
  let ?inputs = "JObj
            [ (ustr ''brandInfo'', optProp research (ustr ''brandInfo'')),
              (ustr ''research'', optProp research (ustr ''research'')),
              (ustr ''campaignGoals'', optProp reqBody (ustr ''campaignGoals'')),
              (ustr ''targetAudience'', optProp reqBody (ustr ''targetAudience'')),
              (ustr ''creativeDirection'', optProp reqBody (ustr ''creativeDirection'')),
              (ustr ''model'', ?model) ]"
  let ?st1 = "st\<lparr> textCalls := textCalls st @ [ScriptRequest ?inputs] \<rparr>"
  have calls: "textCalls (snd (scriptPipeline sv reqBody sessionId research st)) =
      textCalls st @ [ScriptRequest ?inputs]"
  proof (cases "scriptFromResponse (json_parse sv) (gemini_fetch sv ?inputs (length (textCalls st)))")
    case (Inl e)
    then show ?thesis
      using assms by (simp add: scriptPipeline_def generateScript_def Let_def)
  next
    case (Inr script)
    let ?st2 = "?st1\<lparr> scriptHistory := (scriptHistory ?st1)
                        (JStr (ustr ''script_'' @
                               toStr (optProp (optProp ?inputs (ustr ''brandInfo'')) (ustr ''name'')))
                         \<mapsto> JObj [ (ustr ''script'', script),
                                   (ustr ''timestamp'', JStr (iso_time sv)) ]) \<rparr>"
    have gen: "generateScript sv ?inputs st = (Inr script, ?st2)"
      using assms Inr by (simp add: generateScript_def Let_def)
    obtain mp h where mp: "generateMediaPrompts (iso_time sv) script ?model sessionId
        (promptHistory ?st2) = (mp, h)"
      by (cases "generateMediaPrompts (iso_time sv) script ?model sessionId (promptHistory ?st2)")
         auto
    let ?st3 = "?st2\<lparr> promptHistory := h \<rparr>"
    obtain assets st4 where ga:
      "assetStage sv (optProp mp (ustr ''mediaPrompts'')) ?st3 = (assets, st4)"
      by (cases "assetStage sv (optProp mp (ustr ''mediaPrompts'')) ?st3") auto
    have "textCalls st4 = textCalls ?st3"
      using assetStage_textCalls [of sv "optProp mp (ustr ''mediaPrompts'')" ?st3] ga by simp
    then show ?thesis
      using gen mp ga
      by (cases "saveAssetsToDrive sv assets
                   (optProp (optProp research (ustr ''brandInfo'')) (ustr ''name'')) sessionId")
         (simp_all add: scriptPipeline_def Let_def)
  qed
  show ?thesis
    by (rule exI [of _ ?inputs]) (simp add: calls)
qed

lemma generateScript_calls:
  "generateScript sv inputs st = (r, st1) \<Longrightarrow>
     imageCalls st1 = imageCalls st \<and> videoCalls st1 = videoCalls st"
  by (auto simp: generateScript_def Let_def split: if_splits sum.splits)

lemma assetStage_calls:
  assumes "assetStage sv mediaPrompts st = (assets, st')"
  shows "imageCalls st' = imageCalls st @
           map (imageParams (optProp mediaPrompts (ustr ''craftGuidelines'')))
             (take 2 (arrayItems (optProp (optProp mediaPrompts (ustr ''visualPrompts''))
                                    (ustr ''images'')))) \<and>
         videoCalls st' = videoCalls st @
           map (videoParams (optProp mediaPrompts (ustr ''craftGuidelines'')))
             (take 1 (arrayItems (optProp (optProp mediaPrompts (ustr ''visualPrompts''))
                                    (ustr ''animations'')))) \<and>
         length assets \<le>
           length (take 2 (arrayItems (optProp (optProp mediaPrompts (ustr ''visualPrompts''))
                                         (ustr ''images'')))) +
           length (take 1 (arrayItems (optProp (optProp mediaPrompts (ustr ''visualPrompts''))
                                         (ustr ''animations''))))"
proof -
  let ?g = "optProp mediaPrompts (ustr ''craftGuidelines'')"
  let ?ips = "arrayItems (optProp (optProp mediaPrompts (ustr ''visualPrompts'')) (ustr ''images''))"
  let ?aps = "arrayItems (optProp (optProp mediaPrompts (ustr ''visualPrompts'')) (ustr ''animations''))"
  obtain a1 st1 where img: "imageLoop sv ?g (take 2 ?ips) ([], st) = (a1, st1)"
    by (cases "imageLoop sv ?g (take 2 ?ips) ([], st)") auto
  have anim: "animationLoop sv ?g (take 1 ?aps) (a1, st1) = (assets, st')"
    using assms img by (cases ?ips; cases ?aps) (auto simp: assetStage_def Let_def)
  have i: "imageCalls st1 = imageCalls st @ map (imageParams ?g) (take 2 ?ips)"
    "videoCalls st1 = videoCalls st" "length a1 \<le> length (take 2 ?ips)"
    using imageLoop_calls [OF img] by simp_all
  have a: "videoCalls st' = videoCalls st1 @ map (videoParams ?g) (take 1 ?aps)"
    "imageCalls st' = imageCalls st1" "length assets \<le> length a1 + length (take 1 ?aps)"
    using animationLoop_calls [OF anim] by simp_all
  have "length assets \<le> length (take 2 ?ips) + length (take 1 ?aps)"
    using i(3) a(3) by (simp add: min_def split: if_splits)
  then show ?thesis
    using i(1,2) a(1,2) by simp
qed

lemma assetReport_unchanged:
  "http_status response \<noteq> 200 \<Longrightarrow> imageCalls st' = imageCalls st \<Longrightarrow>
   videoCalls st' = videoCalls st \<Longrightarrow> assetReport sv reqBody st response st'"
  by (simp add: assetReport_def)

lemma scriptPipeline_report:
  assumes run: "scriptPipeline sv reqBody sessionId research st = (response, st')"
  shows "assetReport sv reqBody st response st'"
proof -
  let ?model = "defaultArg (optProp reqBody (ustr ''model'')) GEMINI_FLASH"
  let ?inputs = "JObj
            [ (ustr ''brandInfo'', optProp research (ustr ''brandInfo'')),
              (ustr ''research'', optProp research (ustr ''research'')),
              (ustr ''campaignGoals'', optProp reqBody (ustr ''campaignGoals'')),
              (ustr ''targetAudience'', optProp reqBody (ustr ''targetAudience'')),
              (ustr ''creativeDirection'', optProp reqBody (ustr ''creativeDirection'')),
              (ustr ''model'', ?model) ]"
  obtain r st1 where gen: "generateScript sv ?inputs st = (r, st1)"
    by (cases "generateScript sv ?inputs st") auto
  have c1: "imageCalls st1 = imageCalls st" "videoCalls st1 = videoCalls st"
    using generateScript_calls [OF gen] by simp_all
  show ?thesis
  proof (cases r)
    case (Inl e)
    then have "response = scriptFailed e" "st' = st1"
      using run gen by (simp_all add: scriptPipeline_def Let_def)
    then show ?thesis
      using c1 by (intro assetReport_unchanged) (simp_all add: scriptFailed_def respond_def)
  next
    case (Inr script)
    show ?thesis
    proof (cases "truthy script")
      case False
      then have "http_status response = 500" "st' = st1"
        using run gen Inr by (auto simp: scriptPipeline_def Let_def respond_def)
      then show ?thesis
        using c1 by (intro assetReport_unchanged) simp_all
    next
      case True
      obtain mp h where mp: "generateMediaPrompts (iso_time sv) script ?model sessionId
          (promptHistory st1) = (mp, h)"
        by (cases "generateMediaPrompts (iso_time sv) script ?model sessionId (promptHistory st1)")
           auto
      let ?st2 = "st1\<lparr> promptHistory := h \<rparr>"
      show ?thesis
      proof (cases "truthy (optProp mp (ustr ''ok''))")
        case False
        then have "http_status response = 500" "st' = ?st2"
          using run gen Inr True mp by (auto simp: scriptPipeline_def Let_def respond_def)
        then show ?thesis
          using c1 by (intro assetReport_unchanged) simp_all
      next
        case ok: True
        let ?mps = "optProp mp (ustr ''mediaPrompts'')"
        obtain assets st3 where ga: "assetStage sv ?mps ?st2 = (assets, st3)"
          by (cases "assetStage sv ?mps ?st2") auto
        let ?g = "optProp ?mps (ustr ''craftGuidelines'')"
        let ?ips = "arrayItems (optProp (optProp ?mps (ustr ''visualPrompts'')) (ustr ''images''))"
        let ?aps = "arrayItems (optProp (optProp ?mps (ustr ''visualPrompts'')) (ustr ''animations''))"
        have calls: "imageCalls st3 = imageCalls st @ map (imageParams ?g) (take 2 ?ips)"
          "videoCalls st3 = videoCalls st @ map (videoParams ?g) (take 1 ?aps)"
          "length assets \<le> length (take 2 ?ips) + length (take 1 ?aps)"
          using assetStage_calls [OF ga] c1 by simp_all
        let ?brand = "optProp (optProp research (ustr ''brandInfo'')) (ustr ''name'')"
        show ?thesis
        proof (cases "saveAssetsToDrive sv assets ?brand sessionId")
          case (Inl e)
          then have "response = scriptFailed e" "st' = st3"
            using run gen Inr True mp ok ga by (simp_all add: scriptPipeline_def Let_def)
          then have failed: "http_status response \<noteq> 200"
            "imageCalls st' = imageCalls st @ map (imageParams ?g) (take 2 ?ips)"
            "videoCalls st' = videoCalls st @ map (videoParams ?g) (take 1 ?aps)"
            using calls by (simp_all add: scriptFailed_def respond_def)
          show ?thesis
            unfolding assetReport_def
            apply (rule exI [of _ "map (imageParams ?g) (take 2 ?ips)"])
            apply (rule exI [of _ "map (videoParams ?g) (take 1 ?aps)"])
            using failed by simp
        next
          case saved: (Inr savedAssets)
          have body: "http_status response = 200"
            "optProp (http_body response) (ustr ''mediaPrompts'') = ?mps"
            "optProp (http_body response) (ustr ''assets'') = JArr savedAssets"
            "optProp (http_body response) (ustr ''metadata'') = scriptMetadata sv ?model savedAssets"
            using run gen Inr True mp ok ga saved
            by (auto simp: scriptPipeline_def Let_def respond_def)
          have st': "imageCalls st' = imageCalls st3" "videoCalls st' = videoCalls st3"
            using run gen Inr True mp ok ga saved
            by (auto simp: scriptPipeline_def Let_def respond_def)
          have len: "length savedAssets \<le>
              length (map (imageParams ?g) (take 2 ?ips)) +
              length (map (videoParams ?g) (take 1 ?aps))"
            using le_trans [OF saveAssets_length [OF saved] calls(3)] by simp
          show ?thesis
            unfolding assetReport_def
            apply (rule exI [of _ "map (imageParams ?g) (take 2 ?ips)"])
            apply (rule exI [of _ "map (videoParams ?g) (take 1 ?aps)"])
            using body st' calls(1,2) len
            by (simp add: promptsOf_def scriptMetadata_def)
        qed
      qed
    qed
  qed
qed

lemma scriptHandler_report:
  assumes "scriptHandler sv reqBody st = (response, st')"
  shows "assetReport sv reqBody st response st'"
proof -
  have early: "assetReport sv reqBody st r st" if "http_status r \<noteq> 200" for r
    using that by (intro assetReport_unchanged) simp_all
  have s: "http_status (scriptFailed e) \<noteq> 200" "http_status MISSING_FIELDS \<noteq> 200"
    "http_status NO_RESEARCH \<noteq> 200" for e
    by (simp_all add: scriptFailed_def MISSING_FIELDS_def NO_RESEARCH_def respond_def)
  show ?thesis
    using assms early s scriptPipeline_report
    by (auto simp: scriptHandler_def split: sum.splits if_splits option.splits)
qed

text \<open>
  The run of the script endpoint for the script with five visual elements, with research
  for Acme stored and services that all succeed.
\<close>

lemma script5_run:
  "length (arrayItems (promptsOf (http_body (fst (scriptHandler servicesOk (scriptBody0 (ustr ''Acme'')) appWithAcme)))
             (ustr ''images''))) = 5 \<and>
   length (imageCalls (snd (scriptHandler servicesOk (scriptBody0 (ustr ''Acme'')) appWithAcme))) = 2 \<and>
   length (videoCalls (snd (scriptHandler servicesOk (scriptBody0 (ustr ''Acme'')) appWithAcme))) = 1 \<and>
   http_status (fst (scriptHandler servicesOk (scriptBody0 (ustr ''Acme'')) appWithAcme)) = 200 \<and>
   optProp (http_body (fst (scriptHandler servicesOk (scriptBody0 (ustr ''Acme'')) appWithAcme))) (ustr ''metadata'') =
     JObj [ (ustr ''model'', GEMINI_FLASH),
            (ustr ''timestamp'', JStr (ustr ''t'')),
            (ustr ''totalAssets'', JNum 3),
            (ustr ''assetTypes'', JArr [JStr (ustr ''image''), JStr (ustr ''animation'')]),
            (ustr ''folderUrls'', JArr [JStr (ustr ''folder-url'')]) ]"
proof -
  have store: "storeGet (researchStore appWithAcme) (JStr (ustr ''Acme'')) = Some acmeEntry"
    by (simp add: appWithAcme_def appFresh_def storeGet_def)
  have body: "getProp (scriptBody0 (ustr ''Acme'')) (ustr ''sessionId'') = Inr (JStr (ustr ''Acme''))"
    "optProp (scriptBody0 (ustr ''Acme'')) (ustr ''campaignGoals'') = JStr (ustr ''goals'')"
    "optProp (scriptBody0 (ustr ''Acme'')) (ustr ''targetAudience'') = JStr (ustr ''audience'')"
    "optProp (scriptBody0 (ustr ''Acme'')) (ustr ''creativeDirection'') = JUndefined"
    "optProp (scriptBody0 (ustr ''Acme'')) (ustr ''model'') = JUndefined"
    by (simp_all add: scriptBody0_def)
  have entry: "optProp acmeEntry (ustr ''brandInfo'') = JObj acmeInfo"
    "optProp acmeEntry (ustr ''research'') = placeholderResearch (JStr (ustr ''Acme sells anvils.''))"
    "truthy acmeEntry"
    by (simp_all add: acmeEntry_def truthy_def)
  have name: "lookupProp acmeInfo (ustr ''name'') = JStr (ustr ''Acme'')"
    by (simp add: acmeInfo_def)
  have tr: "truthy (placeholderResearch x)" "truthy script5" for x
    by (simp_all add: placeholderResearch_def script5_def truthy_def)
  have t: "iso_time servicesOk = ustr ''t''" by (simp add: servicesOk_def)
  have s1: "textCalls appWithAcme = []" "imageCalls appWithAcme = []" "videoCalls appWithAcme = []"
    by (simp_all add: appWithAcme_def appFresh_def)
  show ?thesis
    by (simp add: scriptHandler_def body store entry scriptPipeline_def generateScript_def name tr t
        fetch_script media_script5 Let_def defaultArg_def s1 assets_script5 [unfolded mediaPrompts5_def]
        save_script5 respond_def scriptMetadata_def promptsOf_def arrayItems_def plain5_take2)
       (simp add: truthy_def savedAsset_def imageAsset_def animationAsset_def distinctFirst_def
         firstFolder_def)
qed

text \<open>
  C8, as the code has it. In every run of the script endpoint, at most two requests go to
  \<open>generateImage\<close> and at most one to \<open>generateVideo\<close>. When the run answers with status
  200, these requests were made from the first two image prompts and the first animation
  prompt of the media prompts in the answer: the prompts beyond are skipped and nothing is
  thrown. The answer then lists the saved assets, no more of them than requests were made,
  and its metadata is the object \<open>{model, timestamp, totalAssets, assetTypes, folderUrls}\<close>
  with the number of saved assets as \<open>totalAssets\<close>: it has no field that counts the prompts
  requested.
\<close>

theorem asset_generation_capped:
  assumes "scriptHandler sv reqBody st = (response, st')"
  shows "(\<exists>imageRequests videoRequests.
      imageCalls st' = imageCalls st @ imageRequests \<and> length imageRequests \<le> 2 \<and>
      videoCalls st' = videoCalls st @ videoRequests \<and> length videoRequests \<le> 1 \<and>
      (http_status response = 200 \<longrightarrow>
         imageRequests =
           map (imageParams (optProp (optProp (http_body response) (ustr ''mediaPrompts''))
                               (ustr ''craftGuidelines'')))
             (take 2 (arrayItems (promptsOf (http_body response) (ustr ''images'')))) \<and>
         videoRequests =
           map (videoParams (optProp (optProp (http_body response) (ustr ''mediaPrompts''))
                               (ustr ''craftGuidelines'')))
             (take 1 (arrayItems (promptsOf (http_body response) (ustr ''animations'')))) \<and>
         (\<exists>savedAssets.
            optProp (http_body response) (ustr ''assets'') = JArr savedAssets \<and>
            length savedAssets \<le> length imageRequests + length videoRequests \<and>
            optProp (http_body response) (ustr ''metadata'') = JObj
              [ (ustr ''model'', defaultArg (optProp reqBody (ustr ''model'')) GEMINI_FLASH),
                (ustr ''timestamp'', JStr (iso_time sv)),
                (ustr ''totalAssets'', JNum (int (length savedAssets))),
                (ustr ''assetTypes'',
                   JArr (distinctFirst
                           (map (\<lambda>asset. optProp asset (ustr ''type'')) savedAssets))),
                (ustr ''folderUrls'',
                   firstFolder savedAssets (\<lambda>a. optProp a (ustr ''folderUrl''))) ])))"
  using scriptHandler_report [OF assms] unfolding assetReport_def .

theorem asset_generation_capped_witness:
  "http_status (fst (scriptHandler servicesOk (scriptBody0 (ustr ''Acme'')) appWithAcme)) = 200 \<and>
   length (arrayItems (promptsOf (http_body (fst (scriptHandler servicesOk (scriptBody0 (ustr ''Acme'')) appWithAcme))) (ustr ''images''))) = 5 \<and>
   length (imageCalls (snd (scriptHandler servicesOk (scriptBody0 (ustr ''Acme'')) appWithAcme))) = 2 \<and>
   (\<exists>imageRequests videoRequests.
      imageCalls (snd (scriptHandler servicesOk (scriptBody0 (ustr ''Acme'')) appWithAcme)) = imageCalls appWithAcme @ imageRequests \<and> length imageRequests \<le> 2 \<and>
      videoCalls (snd (scriptHandler servicesOk (scriptBody0 (ustr ''Acme'')) appWithAcme)) = videoCalls appWithAcme @ videoRequests \<and> length videoRequests \<le> 1 \<and>
      (http_status (fst (scriptHandler servicesOk (scriptBody0 (ustr ''Acme'')) appWithAcme)) = 200 \<longrightarrow>
         imageRequests =
           map (imageParams (optProp (optProp (http_body (fst (scriptHandler servicesOk (scriptBody0 (ustr ''Acme'')) appWithAcme))) (ustr ''mediaPrompts''))
                               (ustr ''craftGuidelines'')))
             (take 2 (arrayItems (promptsOf (http_body (fst (scriptHandler servicesOk (scriptBody0 (ustr ''Acme'')) appWithAcme))) (ustr ''images'')))) \<and>
         videoRequests =
           map (videoParams (optProp (optProp (http_body (fst (scriptHandler servicesOk (scriptBody0 (ustr ''Acme'')) appWithAcme))) (ustr ''mediaPrompts''))
                               (ustr ''craftGuidelines'')))
             (take 1 (arrayItems (promptsOf (http_body (fst (scriptHandler servicesOk (scriptBody0 (ustr ''Acme'')) appWithAcme))) (ustr ''animations'')))) \<and>
         (\<exists>savedAssets.
            optProp (http_body (fst (scriptHandler servicesOk (scriptBody0 (ustr ''Acme'')) appWithAcme))) (ustr ''assets'') = JArr savedAssets \<and>
            length savedAssets \<le> length imageRequests + length videoRequests \<and>
            optProp (http_body (fst (scriptHandler servicesOk (scriptBody0 (ustr ''Acme'')) appWithAcme))) (ustr ''metadata'') = JObj
              [ (ustr ''model'', defaultArg (optProp (scriptBody0 (ustr ''Acme'')) (ustr ''model'')) GEMINI_FLASH),
                (ustr ''timestamp'', JStr (iso_time servicesOk)),
                (ustr ''totalAssets'', JNum (int (length savedAssets))),
                (ustr ''assetTypes'',
                   JArr (distinctFirst
                           (map (\<lambda>asset. optProp asset (ustr ''type'')) savedAssets))),
                (ustr ''folderUrls'',
                   firstFolder savedAssets (\<lambda>a. optProp a (ustr ''folderUrl''))) ])))"
proof -
  have run: "http_status (fst (scriptHandler servicesOk (scriptBody0 (ustr ''Acme'')) appWithAcme)) = 200"
    "length (arrayItems (promptsOf (http_body (fst (scriptHandler servicesOk (scriptBody0 (ustr ''Acme'')) appWithAcme))) (ustr ''images''))) = 5"
    "length (imageCalls (snd (scriptHandler servicesOk (scriptBody0 (ustr ''Acme'')) appWithAcme))) = 2"
    using script5_run by simp_all
  have report: "(\<exists>imageRequests videoRequests.
         imageCalls (snd (scriptHandler servicesOk (scriptBody0 (ustr ''Acme'')) appWithAcme)) = imageCalls appWithAcme @ imageRequests \<and> length imageRequests \<le> 2 \<and>
         videoCalls (snd (scriptHandler servicesOk (scriptBody0 (ustr ''Acme'')) appWithAcme)) = videoCalls appWithAcme @ videoRequests \<and> length videoRequests \<le> 1 \<and>
         (http_status (fst (scriptHandler servicesOk (scriptBody0 (ustr ''Acme'')) appWithAcme)) = 200 \<longrightarrow>
            imageRequests =
              map (imageParams (optProp (optProp (http_body (fst (scriptHandler servicesOk (scriptBody0 (ustr ''Acme'')) appWithAcme))) (ustr ''mediaPrompts''))
                                  (ustr ''craftGuidelines'')))
                (take 2 (arrayItems (promptsOf (http_body (fst (scriptHandler servicesOk (scriptBody0 (ustr ''Acme'')) appWithAcme))) (ustr ''images'')))) \<and>
            videoRequests =
              map (videoParams (optProp (optProp (http_body (fst (scriptHandler servicesOk (scriptBody0 (ustr ''Acme'')) appWithAcme))) (ustr ''mediaPrompts''))
                                  (ustr ''craftGuidelines'')))
                (take 1 (arrayItems (promptsOf (http_body (fst (scriptHandler servicesOk (scriptBody0 (ustr ''Acme'')) appWithAcme))) (ustr ''animations'')))) \<and>
            (\<exists>savedAssets.
               optProp (http_body (fst (scriptHandler servicesOk (scriptBody0 (ustr ''Acme'')) appWithAcme))) (ustr ''assets'') = JArr savedAssets \<and>
               length savedAssets \<le> length imageRequests + length videoRequests \<and>
               optProp (http_body (fst (scriptHandler servicesOk (scriptBody0 (ustr ''Acme'')) appWithAcme))) (ustr ''metadata'') = JObj
                 [ (ustr ''model'', defaultArg (optProp (scriptBody0 (ustr ''Acme'')) (ustr ''model'')) GEMINI_FLASH),
                   (ustr ''timestamp'', JStr (iso_time servicesOk)),
                   (ustr ''totalAssets'', JNum (int (length savedAssets))),
                   (ustr ''assetTypes'',
                      JArr (distinctFirst
                              (map (\<lambda>asset. optProp asset (ustr ''type'')) savedAssets))),
                   (ustr ''folderUrls'',
                      firstFolder savedAssets (\<lambda>a. optProp a (ustr ''folderUrl''))) ])))"
    by (rule asset_generation_capped) simp
  show ?thesis
    by (intro conjI run report)
qed

text \<open>
  A run of the script endpoint for a script with five image prompts: two images and one
  animation are generated, and the metadata says \<open>totalAssets: 3\<close> and nothing about the five
  prompts requested or about how many of them were generated.
\<close>

theorem metadata_without_requested_count_counterexample:
  "length (arrayItems (promptsOf (http_body (fst (scriptHandler servicesOk (scriptBody0 (ustr ''Acme'')) appWithAcme)))
             (ustr ''images''))) = 5 \<and>
   length (imageCalls (snd (scriptHandler servicesOk (scriptBody0 (ustr ''Acme'')) appWithAcme))) = 2 \<and>
   length (videoCalls (snd (scriptHandler servicesOk (scriptBody0 (ustr ''Acme'')) appWithAcme))) = 1 \<and>
   http_status (fst (scriptHandler servicesOk (scriptBody0 (ustr ''Acme'')) appWithAcme)) = 200 \<and>
   optProp (http_body (fst (scriptHandler servicesOk (scriptBody0 (ustr ''Acme'')) appWithAcme))) (ustr ''metadata'') =
     JObj [ (ustr ''model'', GEMINI_FLASH),
            (ustr ''timestamp'', JStr (ustr ''t'')),
            (ustr ''totalAssets'', JNum 3),
            (ustr ''assetTypes'', JArr [JStr (ustr ''image''), JStr (ustr ''animation'')]),
            (ustr ''folderUrls'', JArr [JStr (ustr ''folder-url'')]) ]"
  by (rule script5_run)

text \<open>
  C9. A script request succeeds only for a session id under which research is stored. A
  request for a session id with nothing stored is answered with status 400 and changes
  nothing, so the text model is not called; when its three required fields are there, the
  answer is \<open>No research found\<close>. A successful research request for a brand given as an
  object with a non-empty name answers with that name as the session id and stores the
  research and the brand under it; a script request for that session id with goals and
  audience then passes both checks and goes on with the stored entry, calling the text model
  with the stored brand and research (provided the stored research is truthy).
\<close>

theorem script_requires_stored_research:
  assumes research_request: "getProp researchBody (ustr ''brandInfo'') = Inr (JObj info)"
      and brand_name: "lookupProp info (ustr ''name'') = JStr name" "name \<noteq> []"
      and research_done: "researchHandler sv researchBody st = (response, st1)"
                         "http_status response = 200"
      and script_request: "getProp scriptBody (ustr ''sessionId'') = Inr (JStr name)"
                          "truthy (optProp scriptBody (ustr ''campaignGoals''))"
                          "truthy (optProp scriptBody (ustr ''targetAudience''))"
      and other_request: "getProp otherBody (ustr ''sessionId'') = Inr key"
                         "storeGet (researchStore st1) key = None"
  shows "optProp (http_body response) (ustr ''sessionId'') = JStr name \<and>
         (\<exists>entry. storeGet (researchStore st1) (JStr name) = Some entry \<and>
            optProp entry (ustr ''brandInfo'') = JObj info \<and>
            scriptHandler sv' scriptBody st1 =
              scriptPipeline sv' scriptBody (JStr name) entry st1 \<and>
            (truthy (optProp entry (ustr ''research'')) \<longrightarrow>
               (\<exists>inputs. textCalls (snd (scriptHandler sv' scriptBody st1)) =
                    textCalls st1 @ [ScriptRequest inputs] \<and>
                  optProp inputs (ustr ''brandInfo'') = JObj info \<and>
                  optProp inputs (ustr ''research'') = optProp entry (ustr ''research'')))) \<and>
         http_status (fst (scriptHandler sv' otherBody st1)) = 400 \<and>
         snd (scriptHandler sv' otherBody st1) = st1 \<and>
         (truthy key \<and> truthy (optProp otherBody (ustr ''campaignGoals'')) \<and>
          truthy (optProp otherBody (ustr ''targetAudience'')) \<longrightarrow>
            fst (scriptHandler sv' otherBody st1) = NO_RESEARCH) \<and>
         (\<forall>anyBody anyState.
            http_status (fst (scriptHandler sv' anyBody anyState)) = 200 \<longrightarrow>
            (\<exists>sessionId research.
               getProp anyBody (ustr ''sessionId'') = Inr sessionId \<and>
               storeGet (researchStore anyState) sessionId = Some research))"
proof -
  from researchHandler_stores [OF research_request research_done]
  obtain entry where stored:
    "optProp (http_body response) (ustr ''sessionId'') = JStr name"
    "researchStore st1 (JStr name) = Some entry"
    "optProp entry (ustr ''brandInfo'') = JObj info"
    using brand_name(1) by auto
  obtain fields where entry: "entry = JObj fields"
    using stored(3) by (cases entry) (simp_all add: optProp_def getProp_def)
  have get: "storeGet (researchStore st1) (JStr name) = Some entry"
    using stored(2) by (simp add: storeGet_def)
  have proceeds: "scriptHandler sv' scriptBody st1 =
      scriptPipeline sv' scriptBody (JStr name) entry st1"
    using scriptHandler_proceeds [OF script_request(1) brand_name(2) script_request(2,3)]
      stored(2) entry by simp
  have named: "truthy (optProp (optProp entry (ustr ''brandInfo'')) (ustr ''name''))"
    using stored(3) brand_name by (simp add: truthy_def)
  have model: "truthy (optProp entry (ustr ''research'')) \<longrightarrow>
      (\<exists>inputs. textCalls (snd (scriptHandler sv' scriptBody st1)) =
           textCalls st1 @ [ScriptRequest inputs] \<and>
         optProp inputs (ustr ''brandInfo'') = JObj info \<and>
         optProp inputs (ustr ''research'') = optProp entry (ustr ''research''))"
    using scriptPipeline_calls_model [OF named, of sv' scriptBody "JStr name" st1]
      proceeds stored(3) by auto
  show ?thesis
    using stored(1,3) get proceeds model
      script_without_research [OF other_request, of sv']
      scriptHandler_ok_needs_research [of sv']
    by blast
qed

theorem script_requires_stored_research_witness:
  "http_status (fst (researchHandler servicesOk researchBody0 appFresh)) = 200 \<and>
   optProp (http_body (fst (researchHandler servicesOk researchBody0 appFresh)))
     (ustr ''sessionId'') = JStr (ustr ''Acme'') \<and>
   storeGet (researchStore (snd (researchHandler servicesOk researchBody0 appFresh)))
     (JStr (ustr ''Unknown'')) = None \<and>
   fst (scriptHandler servicesOk (scriptBody0 (ustr ''Unknown''))
          (snd (researchHandler servicesOk researchBody0 appFresh))) = NO_RESEARCH \<and>
   snd (scriptHandler servicesOk (scriptBody0 (ustr ''Unknown''))
          (snd (researchHandler servicesOk researchBody0 appFresh))) =
     snd (researchHandler servicesOk researchBody0 appFresh) \<and>
   (\<exists>inputs.
      textCalls (snd (scriptHandler servicesOk (scriptBody0 (ustr ''Acme''))
                        (snd (researchHandler servicesOk researchBody0 appFresh)))) =
        [ResearchRequest (JObj acmeInfo), ScriptRequest inputs] \<and>
      optProp inputs (ustr ''brandInfo'') = JObj acmeInfo)"
proof -
  let ?run = "researchHandler servicesOk researchBody0 appFresh"
  have run: "http_status (fst ?run) = 200"
    "researchStore (snd ?run) = [JStr (ustr ''Acme'') \<mapsto> acmeEntry]"
    "textCalls (snd ?run) = [ResearchRequest (JObj acmeInfo)]"
    using research_run by simp_all
  have h1: "getProp researchBody0 (ustr ''brandInfo'') = Inr (JObj acmeInfo)"
    by (simp add: researchBody0_def)
  have h2: "lookupProp acmeInfo (ustr ''name'') = JStr (ustr ''Acme'')" "ustr ''Acme'' \<noteq> []"
    by (simp_all add: acmeInfo_def)
  have h3: "?run = (fst ?run, snd ?run)" by simp
  have h4: "getProp (scriptBody0 (ustr ''Acme'')) (ustr ''sessionId'') = Inr (JStr (ustr ''Acme''))"
    "truthy (optProp (scriptBody0 (ustr ''Acme'')) (ustr ''campaignGoals''))"
    "truthy (optProp (scriptBody0 (ustr ''Acme'')) (ustr ''targetAudience''))"
    by (simp_all add: scriptBody0_def truthy_def)
  have h5: "getProp (scriptBody0 (ustr ''Unknown'')) (ustr ''sessionId'') =
      Inr (JStr (ustr ''Unknown''))"
    "storeGet (researchStore (snd ?run)) (JStr (ustr ''Unknown'')) = None"
    by (simp_all add: scriptBody0_def run storeGet_def)
  have h6: "truthy (JStr (ustr ''Unknown''))"
    "truthy (optProp (scriptBody0 (ustr ''Unknown'')) (ustr ''campaignGoals''))"
    "truthy (optProp (scriptBody0 (ustr ''Unknown'')) (ustr ''targetAudience''))"
    by (simp_all add: scriptBody0_def truthy_def)
  have stored: "storeGet (researchStore (snd ?run)) (JStr (ustr ''Acme'')) = Some acmeEntry"
    "truthy (optProp acmeEntry (ustr ''research''))"
    by (simp_all add: run storeGet_def acmeEntry_def placeholderResearch_def truthy_def)
  from script_requires_stored_research
    [OF h1 h2 h3 run(1) h4 h5, of servicesOk]
  show ?thesis
    using run h5 h6 stored by auto
qed

end
